theory Spec2Isabelle
  imports Complex_Main "HOL-Library.Sublist"
begin

section \<open>Data model of performance-monitor.py\<close>

text \<open>
  A Python float is read as the real number it denotes, \<open>datetime\<close> values as an integer
  count of microseconds, and \<open>str\<close> as \<open>string\<close>.  The substring test \<open>a in b\<close> on
  strings is \<open>sublist a b\<close>.  Every exception the modelled code can raise is a value of
  \<open>py_error\<close>.  The float operators of the severity test and of the trend slope, whose
  rounding decides the comparison that follows them, are parameters of the model; the
  arithmetic of \<open>statistics\<close> and of the report is read on the reals.
\<close>

datatype py_error = ZeroDivisionError | StatisticsError | KeyError | TypeError | ValueError | OSError

type_synonym datetime = int

record Alert =
  timestamp :: datetime
  severity :: string
  category :: string
  message :: string
  alert_value :: real
  alert_threshold :: real
  duration_minutes :: int
  resolved :: bool
  resolution_time :: "datetime option"

record AnomalyDetector =
  window_size :: int
  threshold :: real
  data_history :: "string \<rightharpoonup> real list"

subsection \<open>Python primitives used by the detector\<close>

text \<open>Python's built-in operations, which the repository calls but does not define, are
  parameters of the model.  \<open>float_mul\<close>, \<open>float_sub\<close> and \<open>float_div\<close> are the operators
  \<open>*\<close>, \<open>-\<close> and \<open>/\<close> on two numbers of which one at least is a float, and \<open>float_sum\<close>
  is \<open>sum\<close> on a non-empty list of floats: each returns a double, which need not be the
  exact result.  \<open>fmt_2f\<close> is the format \<open>{x:.2f}\<close>, \<open>fmt_str\<close> is \<open>{x}\<close>, \<open>isoformat\<close> and
  \<open>fromisoformat\<close> are the methods of \<open>datetime\<close> (\<open>fromisoformat\<close> gives \<open>None\<close> where
  Python raises \<open>ValueError\<close>).\<close>

record py_builtins =
  float_mul :: "real \<Rightarrow> real \<Rightarrow> real"
  float_sub :: "real \<Rightarrow> real \<Rightarrow> real"
  float_div :: "real \<Rightarrow> real \<Rightarrow> real"
  float_sum :: "real list \<Rightarrow> real"
  fmt_2f :: "real \<Rightarrow> string"
  fmt_str :: "real \<Rightarrow> string"
  isoformat :: "datetime \<Rightarrow> string"
  fromisoformat :: "string \<Rightarrow> datetime option"

text \<open>The doubles that the literals \<open>0.1\<close> and \<open>1.2\<close> denote:
  \<open>3602879701896397 / 2 ^ 55\<close> and \<open>5404319552844595 / 2 ^ 52\<close>.\<close>

definition float_0_1 :: real where
  "float_0_1 = 3602879701896397 / 36028797018963968"

definition float_1_2 :: real where
  "float_1_2 = 5404319552844595 / 4503599627370496"

text \<open>\<open>sum\<close> of a list of floats; of the empty list it is the integer 0.\<close>

definition py_sum :: "py_builtins \<Rightarrow> real list \<Rightarrow> real" where
  "py_sum F xs = (if xs = [] then 0 else float_sum F xs)"

text \<open>\<open>a / b\<close> for a float \<open>a\<close> and an integer \<open>b\<close>, the division of the slope line.\<close>

definition float_truediv :: "py_builtins \<Rightarrow> real \<Rightarrow> int \<Rightarrow> py_error + real" where
  "float_truediv F a b =
     (if b = 0 then Inl ZeroDivisionError else Inr (float_div F a (real_of_int b)))"

text \<open>\<open>a / b\<close> read on the reals, the division of the z-score.\<close>

definition py_truediv :: "real \<Rightarrow> real \<Rightarrow> py_error + real" where
  "py_truediv a b = (if b = 0 then Inl ZeroDivisionError else Inr (a / b))"

text \<open>The slice \<open>xs[-k:]\<close>: a negative start counts from the end and is clamped at 0,
  a non-negative start is clamped at the length; \<open>xs[-0:]\<close> is the whole list.\<close>

definition py_last :: "'a list \<Rightarrow> int \<Rightarrow> 'a list" where
  "py_last xs k =
     (let n = int (length xs); s = - k;
          start = (if s < 0 then max (n + s) 0 else min s n)
      in drop (nat start) xs)"

text \<open>\<open>statistics.mean\<close> and \<open>statistics.stdev\<close> (the sample standard deviation).\<close>

definition mean :: "real list \<Rightarrow> py_error + real" where
  "mean xs = (if xs = [] then Inl StatisticsError else Inr (sum_list xs / real (length xs)))"

definition stdev :: "real list \<Rightarrow> py_error + real" where
  "stdev xs =
     (if length xs < 2 then Inl StatisticsError
      else let m = sum_list xs / real (length xs)
           in Inr (sqrt (sum_list (map (\<lambda>x. (x - m)\<^sup>2) xs) / real (length xs - 1))))"

subsection \<open>AnomalyDetector\<close>

definition AnomalyDetector_init :: AnomalyDetector where
  "AnomalyDetector_init = \<lparr>window_size = 50, threshold = 2.5, data_history = Map.empty\<rparr>"

definition add_data_point :: "AnomalyDetector \<Rightarrow> string \<Rightarrow> real \<Rightarrow> AnomalyDetector" where
  "add_data_point d metric_name v =
     (let h = (case data_history d metric_name of None \<Rightarrow> [] | Some h0 \<Rightarrow> h0) @ [v];
          h' = (if int (length h) > window_size d then py_last h (window_size d) else h)
      in d\<lparr>data_history := (data_history d)(metric_name \<mapsto> h')\<rparr>)"

definition is_anomaly :: "AnomalyDetector \<Rightarrow> string \<Rightarrow> real \<Rightarrow> py_error + (bool \<times> real)" where
  "is_anomaly d metric_name v =
     (case data_history d metric_name of
        None \<Rightarrow> Inr (False, 0)
      | Some history \<Rightarrow>
          if length history < 10 then Inr (False, 0)
          else (case mean history of
                  Inl e \<Rightarrow> Inl e
                | Inr m \<Rightarrow>
                   (case (if length history > 1 then stdev history else Inr 0) of
                      Inl e \<Rightarrow> Inl e
                    | Inr std_dev \<Rightarrow>
                        if std_dev = 0 then Inr (False, 0)
                        else (case py_truediv (v - m) std_dev of
                                Inl e \<Rightarrow> Inl e
                              | Inr q \<Rightarrow> Inr (\<bar>q\<bar> > threshold d, \<bar>q\<bar>)))))"

text \<open>The two sides of the division on the slope line of \<open>detect_trend\<close>, for the
  window \<open>recent_data\<close> with \<open>x = list(range(n))\<close>.  The indices and their sums are
  integers, computed exactly; every operation that involves a point of the window is a
  float operation.\<close>

definition slope_numerator :: "py_builtins \<Rightarrow> real list \<Rightarrow> real" where
  "slope_numerator F recent_data =
     (let n = length recent_data;
          x = map int [0..<n];
          sum_x = sum_list x;
          sum_y = py_sum F recent_data;
          sum_xy = py_sum F (map (\<lambda>i. float_mul F (real_of_int (x ! i)) (recent_data ! i)) [0..<n])
      in float_sub F (float_mul F (real n) sum_xy) (float_mul F (real_of_int sum_x) sum_y))"

definition slope_denominator :: "real list \<Rightarrow> int" where
  "slope_denominator recent_data =
     (let n = length recent_data;
          x = map int [0..<n];
          sum_x = sum_list x;
          sum_x2 = sum_list (map (\<lambda>xi. xi * xi) x)
      in int n * sum_x2 - sum_x * sum_x)"

definition classify_slope :: "real \<Rightarrow> string" where
  "classify_slope slope =
     (if slope > float_0_1 then ''increasing''
      else if slope < - float_0_1 then ''decreasing''
      else ''stable'')"

definition detect_trend ::
  "py_builtins \<Rightarrow> AnomalyDetector \<Rightarrow> string \<Rightarrow> int \<Rightarrow> py_error + string" where
  "detect_trend F d metric_name points =
     (case data_history d metric_name of
        None \<Rightarrow> Inr ''insufficient_data''
      | Some h \<Rightarrow>
          if int (length h) < points then Inr ''insufficient_data''
          else let recent_data = py_last h points
               in (case float_truediv F (slope_numerator F recent_data)
                                      (slope_denominator recent_data) of
                     Inl e \<Rightarrow> Inl e
                   | Inr slope \<Rightarrow> Inr (classify_slope slope)))"

text \<open>The least-squares slope of a simple linear regression of the points
  \<open>(0, ys ! 0), \<dots>, (n - 1, ys ! (n - 1))\<close>, as the specification words it.\<close>

definition regression_slope :: "real list \<Rightarrow> real" where
  "regression_slope ys =
     (let n = length ys;
          xbar = (\<Sum>i<n. real i) / real n;
          ybar = (\<Sum>i<n. ys ! i) / real n
      in (\<Sum>i<n. (real i - xbar) * (ys ! i - ybar)) / (\<Sum>i<n. (real i - xbar)\<^sup>2))"

text \<open>The numerator of the slope line in exact arithmetic.\<close>

definition exact_numerator :: "real list \<Rightarrow> real" where
  "exact_numerator ys =
     (let n = length ys;
          x = map int [0..<n];
          sum_x = sum_list x;
          sum_y = sum_list ys;
          sum_xy = sum_list (map (\<lambda>i. real_of_int (x ! i) * ys ! i) [0..<n])
      in real n * sum_xy - real_of_int sum_x * sum_y)"

text \<open>No float operation of the slope line rounds on the window \<open>ys\<close>: each product, each
  sum, the difference and the quotient that \<open>detect_trend\<close> computes is the exact one.\<close>

definition rounds_nothing :: "py_builtins \<Rightarrow> real list \<Rightarrow> bool" where
  "rounds_nothing F ys \<longleftrightarrow>
     (let n = length ys;
          x = map int [0..<n];
          sum_x = real_of_int (sum_list x);
          products = map (\<lambda>i. real_of_int (x ! i) * ys ! i) [0..<n];
          a = real n * sum_list products;
          b = sum_x * sum_list ys
      in list_all (\<lambda>i. float_mul F (real_of_int (x ! i)) (ys ! i) = real_of_int (x ! i) * ys ! i) [0..<n] \<and>
         py_sum F ys = sum_list ys \<and>
         py_sum F products = sum_list products \<and>
         float_mul F (real n) (sum_list products) = a \<and>
         float_mul F sum_x (sum_list ys) = b \<and>
         float_sub F a b = a - b \<and>
         float_div F (a - b) (real_of_int (slope_denominator ys))
           = (a - b) / real_of_int (slope_denominator ys))"

section \<open>The monitor\<close>

record SystemMetrics =
  sys_timestamp :: datetime
  cpu_percent :: real
  memory_percent :: real
  memory_available_mb :: real
  disk_usage_percent :: real
  disk_io_read_mb :: real
  disk_io_write_mb :: real
  network_sent_mb :: real
  network_recv_mb :: real
  load_average :: "real list"
  active_connections :: int
  process_count :: int

record ApplicationMetrics =
  app_timestamp :: datetime
  response_time_ms :: real
  error_rate :: real
  throughput_rps :: real
  active_users :: int
  database_connections :: int
  queue_size :: int
  memory_usage_mb :: real
  cpu_usage_percent :: real

text \<open>The entries of the configuration document that the evaluation cycle reads:
  \<open>config['monitoring']\<close> and \<open>config['advanced']['anomaly_detection']\<close>.\<close>

record monitoring_config =
  cpu_threshold :: real
  memory_threshold :: real
  disk_threshold :: real
  response_time_threshold_ms :: real
  enable_predictive_alerts :: bool
  historical_data_points :: int
  anomaly_detection :: bool

text \<open>The state of a \<open>PerformanceMonitor\<close>.  \<open>sent_alerts\<close> records the calls of
  \<open>send_alert\<close> and \<open>logged_errors\<close> the calls of \<open>logger.error\<close>; the notification
  channels themselves are outside the model.\<close>

record PerformanceMonitor =
  config :: monitoring_config
  anomaly_detector :: AnomalyDetector
  alert_history :: "Alert list"
  system_metrics_history :: "SystemMetrics list"
  app_metrics_history :: "ApplicationMetrics list"
  sent_alerts :: "Alert list"
  logged_errors :: "py_error list"

text \<open>A function that can raise returns \<open>Inl (e, m)\<close> with the exception and the monitor
  as mutated up to the raise, since Python mutates the object in place.\<close>

type_synonym 'a raising = "(py_error \<times> PerformanceMonitor) + 'a"

definition send_alert :: "PerformanceMonitor \<Rightarrow> Alert \<Rightarrow> PerformanceMonitor" where
  "send_alert m alert = m\<lparr>sent_alerts := sent_alerts m @ [alert]\<rparr>"

subsection \<open>Threshold alerts\<close>

text \<open>The test of the list comprehension and of the resolving loop in
  \<open>check_threshold_alert\<close>.\<close>

definition is_active_for :: "string \<Rightarrow> string \<Rightarrow> Alert \<Rightarrow> bool" where
  "is_active_for category' metric_name a \<longleftrightarrow>
     \<not> resolved a \<and> category a = category' \<and> sublist metric_name (message a)"

definition breach_severity :: "py_builtins \<Rightarrow> real \<Rightarrow> real \<Rightarrow> string" where
  "breach_severity F v t = (if v > float_mul F t float_1_2 then ''CRITICAL'' else ''WARNING'')"

definition threshold_message :: "py_builtins \<Rightarrow> string \<Rightarrow> real \<Rightarrow> real \<Rightarrow> string" where
  "threshold_message F metric_name v t =
     metric_name @ '' is '' @ fmt_2f F v @ ''% (threshold: '' @ fmt_str F t @ ''%)''"

text \<open>\<open>now\<close> is the reading of \<open>datetime.now()\<close> during the call.\<close>

definition check_threshold_alert ::
  "py_builtins \<Rightarrow> datetime \<Rightarrow> PerformanceMonitor \<Rightarrow> string \<Rightarrow> real \<Rightarrow> real \<Rightarrow> string \<Rightarrow> PerformanceMonitor" where
  "check_threshold_alert F now m metric_name v t category' =
     (if v > t then
        let severity' = breach_severity F v t;
            active_alerts = filter (is_active_for category' metric_name) (alert_history m)
        in if active_alerts = [] then
             let alert = \<lparr>timestamp = now, severity = severity', category = category',
                          message = threshold_message F metric_name v t,
                          alert_value = v, alert_threshold = t, duration_minutes = 0,
                          resolved = False, resolution_time = None\<rparr>
             in send_alert (m\<lparr>alert_history := alert_history m @ [alert]\<rparr>) alert
           else m
      else
        m\<lparr>alert_history :=
             map (\<lambda>alert. if is_active_for category' metric_name alert
                           then alert\<lparr>resolved := True, resolution_time := Some now\<rparr>
                           else alert)
                 (alert_history m)\<rparr>)"

subsection \<open>Anomaly and predictive alerts\<close>

definition anomaly_message :: "py_builtins \<Rightarrow> string \<Rightarrow> real \<Rightarrow> real \<Rightarrow> string \<Rightarrow> string" where
  "anomaly_message F metric_name v z_score trend =
     ''Anomaly detected in '' @ metric_name @ '': '' @ fmt_2f F v @ '' (z-score: ''
       @ fmt_2f F z_score @ '', trend: '' @ trend @ '')''"

fun detect_anomalies_loop ::
  "py_builtins \<Rightarrow> datetime \<Rightarrow> (string \<times> real \<times> string) list \<Rightarrow> PerformanceMonitor
     \<Rightarrow> PerformanceMonitor raising" where
  "detect_anomalies_loop F now [] m = Inr m"
| "detect_anomalies_loop F now ((metric_name, v, category') # rest) m =
     (let d = add_data_point (anomaly_detector m) metric_name v;
          m1 = m\<lparr>anomaly_detector := d\<rparr>
      in case is_anomaly d metric_name v of
           Inl e \<Rightarrow> Inl (e, m1)
         | Inr (anomalous, z_score) \<Rightarrow>
             if anomalous then
               (case detect_trend F d metric_name 10 of
                  Inl e \<Rightarrow> Inl (e, m1)
                | Inr trend \<Rightarrow>
                    let alert = \<lparr>timestamp = now, severity = ''WARNING'', category = category',
                                 message = anomaly_message F metric_name v z_score trend,
                                 alert_value = v, alert_threshold = z_score, duration_minutes = 0,
                                 resolved = False, resolution_time = None\<rparr>
                    in detect_anomalies_loop F now rest
                         (send_alert (m1\<lparr>alert_history := alert_history m1 @ [alert]\<rparr>) alert))
             else detect_anomalies_loop F now rest m1)"

definition detect_anomalies ::
  "py_builtins \<Rightarrow> datetime \<Rightarrow> PerformanceMonitor \<Rightarrow> SystemMetrics \<Rightarrow> ApplicationMetrics
     \<Rightarrow> PerformanceMonitor raising" where
  "detect_anomalies F now m system_metrics app_metrics =
     (let metrics_to_check =
            [(''cpu_percent'', cpu_percent system_metrics, ''system''),
             (''memory_percent'', memory_percent system_metrics, ''system''),
             (''response_time_ms'', response_time_ms app_metrics, ''application''),
             (''error_rate'', error_rate app_metrics, ''application'')]
      in detect_anomalies_loop F now metrics_to_check m)"

definition generate_predictive_alerts ::
  "py_builtins \<Rightarrow> datetime \<Rightarrow> PerformanceMonitor \<Rightarrow> PerformanceMonitor raising" where
  "generate_predictive_alerts F now m =
     (if length (system_metrics_history m) < 10 then Inr m
      else
        let recent_cpu = map cpu_percent (py_last (system_metrics_history m) 10)
        in case detect_trend F (anomaly_detector m) ''cpu_recent'' 5 of
             Inl e \<Rightarrow> Inl (e, m)
           | Inr cpu_trend \<Rightarrow>
               if cpu_trend = ''increasing'' then
                 (case mean recent_cpu of
                    Inl e \<Rightarrow> Inl (e, m)
                  | Inr avg_cpu \<Rightarrow>
                      if avg_cpu > 60 then
                        let alert = \<lparr>timestamp = now, severity = ''INFO'', category = ''predictive'',
                                     message = ''CPU usage trending upward: '' @ fmt_2f F avg_cpu
                                                 @ ''% (trend: '' @ cpu_trend @ '')'',
                                     alert_value = avg_cpu, alert_threshold = 60, duration_minutes = 0,
                                     resolved = False, resolution_time = None\<rparr>
                        in Inr (send_alert (m\<lparr>alert_history := alert_history m @ [alert]\<rparr>) alert)
                      else Inr m)
               else Inr m)"

definition analyze_metrics ::
  "py_builtins \<Rightarrow> datetime \<Rightarrow> PerformanceMonitor \<Rightarrow> SystemMetrics \<Rightarrow> ApplicationMetrics
     \<Rightarrow> PerformanceMonitor raising" where
  "analyze_metrics F now m system_metrics app_metrics =
     (let monitoring = config m;
          m1 = check_threshold_alert F now m ''CPU Usage'' (cpu_percent system_metrics)
                 (cpu_threshold monitoring) ''system'';
          m2 = check_threshold_alert F now m1 ''Memory Usage'' (memory_percent system_metrics)
                 (memory_threshold monitoring) ''system'';
          m3 = check_threshold_alert F now m2 ''Disk Usage'' (disk_usage_percent system_metrics)
                 (disk_threshold monitoring) ''system'';
          m4 = check_threshold_alert F now m3 ''Response Time'' (response_time_ms app_metrics)
                 (response_time_threshold_ms monitoring) ''application'';
          m5 = check_threshold_alert F now m4 ''Error Rate'' (error_rate app_metrics) 20
                 ''application''
      in case (if anomaly_detection monitoring
               then detect_anomalies F now m5 system_metrics app_metrics else Inr m5) of
           Inl x \<Rightarrow> Inl x
         | Inr m6 \<Rightarrow>
             if enable_predictive_alerts monitoring
             then generate_predictive_alerts F now m6 else Inr m6)"

subsection \<open>Persistence of the alert history\<close>

text \<open>The values \<open>json.load\<close> returns.  An object is the parsed \<open>dict\<close>, its keys
  distinct, in insertion order.\<close>

datatype json = JNull | JBool bool | JInt int | JFloat real | JStr string
  | JArr "json list" | JObj "(string \<times> json) list"

text \<open>The file \<open>ALERT_HISTORY_FILE\<close>: absent, present without being a JSON document, or
  holding a JSON document.\<close>

datatype file_state = NoFile | Unparsable | Content json

text \<open>What the operating system does to the write in \<open>save_alert_history\<close>: it succeeds,
  \<open>open\<close> raises and leaves the file alone, or \<open>json.dump\<close> raises after \<open>open\<close> has
  truncated the file.\<close>

datatype io_outcome = WriteOk | OpenFails | DumpFails

definition bind_e :: "'e + 'a \<Rightarrow> ('a \<Rightarrow> 'e + 'b) \<Rightarrow> 'e + 'b" where
  "bind_e r f = (case r of Inl e \<Rightarrow> Inl e | Inr x \<Rightarrow> f x)"

text \<open>\<open>asdict(alert)\<close> with \<open>timestamp\<close>, and \<open>resolution_time\<close> when it is set, replaced
  by their \<open>isoformat()\<close>.\<close>

definition alert_dict :: "py_builtins \<Rightarrow> Alert \<Rightarrow> (string \<times> json) list" where
  "alert_dict F alert =
     [(''timestamp'', JStr (isoformat F (timestamp alert))),
      (''severity'', JStr (severity alert)),
      (''category'', JStr (category alert)),
      (''message'', JStr (message alert)),
      (''value'', JFloat (alert_value alert)),
      (''threshold'', JFloat (alert_threshold alert)),
      (''duration_minutes'', JInt (duration_minutes alert)),
      (''resolved'', JBool (resolved alert)),
      (''resolution_time'',
         (case resolution_time alert of None \<Rightarrow> JNull | Some t \<Rightarrow> JStr (isoformat F t)))]"

text \<open>The body of the \<open>try\<close> in \<open>save_alert_history\<close>: the new file, or the exception
  together with the file as the failed write left it.\<close>

definition save_alert_history_try ::
  "py_builtins \<Rightarrow> io_outcome \<Rightarrow> PerformanceMonitor \<Rightarrow> file_state
     \<Rightarrow> (py_error \<times> file_state) + file_state" where
  "save_alert_history_try F io m file =
     (let data = map (\<lambda>alert. JObj (alert_dict F alert)) (alert_history m)
      in case io of
           WriteOk \<Rightarrow> Inr (Content (JArr data))
         | OpenFails \<Rightarrow> Inl (OSError, file)
         | DumpFails \<Rightarrow> Inl (OSError, Unparsable))"

text \<open>\<open>save_alert_history\<close> with its \<open>except Exception\<close> handler.  \<open>Inl\<close> would be an
  exception reaching the caller.\<close>

definition save_alert_history ::
  "py_builtins \<Rightarrow> io_outcome \<Rightarrow> PerformanceMonitor \<Rightarrow> file_state
     \<Rightarrow> py_error + (PerformanceMonitor \<times> file_state)" where
  "save_alert_history F io m file =
     (case save_alert_history_try F io m file of
        Inl (e, file') \<Rightarrow> Inr (m\<lparr>logged_errors := logged_errors m @ [e]\<rparr>, file')
      | Inr file' \<Rightarrow> Inr (m, file'))"

text \<open>Reading the fields of one record.  \<open>alert[k]\<close> raises \<open>KeyError\<close> for a missing key
  and \<open>TypeError\<close> when \<open>alert\<close> is not a \<open>dict\<close>.  Python would store a field of any
  JSON type in the \<open>Alert\<close>; the typed record cannot, and the model reports such a field as
  \<open>TypeError\<close>.\<close>

definition json_item :: "json \<Rightarrow> string \<Rightarrow> py_error + json" where
  "json_item j k =
     (case j of
        JObj kvs \<Rightarrow> (case map_of kvs k of None \<Rightarrow> Inl KeyError | Some v \<Rightarrow> Inr v)
      | _ \<Rightarrow> Inl TypeError)"

definition json_get :: "json \<Rightarrow> string \<Rightarrow> json \<Rightarrow> py_error + json" where
  "json_get j k dflt =
     (case j of
        JObj kvs \<Rightarrow> (case map_of kvs k of None \<Rightarrow> Inr dflt | Some v \<Rightarrow> Inr v)
      | _ \<Rightarrow> Inl TypeError)"

fun truthy :: "json \<Rightarrow> bool" where
  "truthy JNull = False"
| "truthy (JBool b) = b"
| "truthy (JInt i) = (i \<noteq> 0)"
| "truthy (JFloat r) = (r \<noteq> 0)"
| "truthy (JStr s) = (s \<noteq> [])"
| "truthy (JArr xs) = (xs \<noteq> [])"
| "truthy (JObj kvs) = (kvs \<noteq> [])"

definition as_str :: "json \<Rightarrow> py_error + string" where
  "as_str j = (case j of JStr s \<Rightarrow> Inr s | _ \<Rightarrow> Inl TypeError)"

definition as_float :: "json \<Rightarrow> py_error + real" where
  "as_float j = (case j of JFloat r \<Rightarrow> Inr r | JInt i \<Rightarrow> Inr (real_of_int i) | _ \<Rightarrow> Inl TypeError)"

definition as_int :: "json \<Rightarrow> py_error + int" where
  "as_int j = (case j of JInt i \<Rightarrow> Inr i | _ \<Rightarrow> Inl TypeError)"

definition as_bool :: "json \<Rightarrow> py_error + bool" where
  "as_bool j = (case j of JBool b \<Rightarrow> Inr b | _ \<Rightarrow> Inl TypeError)"

definition parse_datetime :: "py_builtins \<Rightarrow> json \<Rightarrow> py_error + datetime" where
  "parse_datetime F j =
     (case j of
        JStr s \<Rightarrow> (case fromisoformat F s of None \<Rightarrow> Inl ValueError | Some t \<Rightarrow> Inr t)
      | _ \<Rightarrow> Inl TypeError)"

definition load_alert :: "py_builtins \<Rightarrow> json \<Rightarrow> py_error + Alert" where
  "load_alert F alert =
     bind_e (bind_e (json_item alert ''timestamp'') (parse_datetime F)) (\<lambda>timestamp'.
     bind_e (bind_e (json_item alert ''severity'') as_str) (\<lambda>severity'.
     bind_e (bind_e (json_item alert ''category'') as_str) (\<lambda>category'.
     bind_e (bind_e (json_item alert ''message'') as_str) (\<lambda>message'.
     bind_e (bind_e (json_item alert ''value'') as_float) (\<lambda>value'.
     bind_e (bind_e (json_item alert ''threshold'') as_float) (\<lambda>threshold'.
     bind_e (bind_e (json_item alert ''duration_minutes'') as_int) (\<lambda>duration_minutes'.
     bind_e (bind_e (json_get alert ''resolved'' (JBool False)) as_bool) (\<lambda>resolved'.
     bind_e (bind_e (json_get alert ''resolution_time'' JNull) (\<lambda>r.
               if truthy r
               then bind_e (bind_e (json_item alert ''resolution_time'') (parse_datetime F))
                      (\<lambda>t. Inr (Some t))
               else Inr None)) (\<lambda>resolution_time'.
     Inr \<lparr>timestamp = timestamp', severity = severity', category = category',
          message = message', alert_value = value', alert_threshold = threshold',
          duration_minutes = duration_minutes', resolved = resolved',
          resolution_time = resolution_time'\<rparr>)))))))))"

fun load_alerts :: "py_builtins \<Rightarrow> json list \<Rightarrow> py_error + Alert list" where
  "load_alerts F [] = Inr []"
| "load_alerts F (alert # rest) =
     bind_e (load_alert F alert) (\<lambda>a. bind_e (load_alerts F rest) (\<lambda>as. Inr (a # as)))"

text \<open>Iterating over the loaded document (\<open>for alert in data\<close>): the elements of a list,
  the keys of a dict, the characters of a string; anything else is not iterable.\<close>

definition json_iter :: "json \<Rightarrow> py_error + json list" where
  "json_iter data =
     (case data of
        JArr xs \<Rightarrow> Inr xs
      | JObj kvs \<Rightarrow> Inr (map (\<lambda>(k, v). JStr k) kvs)
      | JStr s \<Rightarrow> Inr (map (\<lambda>c. JStr [c]) s)
      | _ \<Rightarrow> Inl TypeError)"

definition load_alert_history :: "py_builtins \<Rightarrow> PerformanceMonitor \<Rightarrow> file_state \<Rightarrow> PerformanceMonitor" where
  "load_alert_history F m file =
     (case file of
        NoFile \<Rightarrow> m
      | Unparsable \<Rightarrow> m\<lparr>logged_errors := logged_errors m @ [ValueError]\<rparr>
      | Content data \<Rightarrow>
          (case bind_e (json_iter data) (load_alerts F) of
             Inl e \<Rightarrow> m\<lparr>logged_errors := logged_errors m @ [e]\<rparr>
           | Inr alerts \<Rightarrow> m\<lparr>alert_history := alerts\<rparr>))"

subsection \<open>Construction and the monitoring loop\<close>

text \<open>\<open>__init__\<close>: empty histories, a detector with the default window and threshold, then
  \<open>load_alert_history\<close>.\<close>

definition PerformanceMonitor_init :: "py_builtins \<Rightarrow> monitoring_config \<Rightarrow> file_state \<Rightarrow> PerformanceMonitor" where
  "PerformanceMonitor_init F cfg file =
     load_alert_history F
       \<lparr>config = cfg, anomaly_detector = AnomalyDetector_init, alert_history = [],
        system_metrics_history = [], app_metrics_history = [], sent_alerts = [],
        logged_errors = []\<rparr> file"

text \<open>The body of the \<open>try\<close> in one iteration of \<open>monitoring_loop\<close>, from the collected
  metrics to the periodic save; the exports to external systems and the logging of the
  status line do not touch the monitor or the file.\<close>

definition monitoring_iteration_try ::
  "py_builtins \<Rightarrow> io_outcome \<Rightarrow> datetime \<Rightarrow> SystemMetrics \<Rightarrow> ApplicationMetrics
     \<Rightarrow> PerformanceMonitor \<times> file_state
     \<Rightarrow> (py_error \<times> PerformanceMonitor \<times> file_state) + (PerformanceMonitor \<times> file_state)" where
  "monitoring_iteration_try F io now system_metrics app_metrics s =
     (let m = fst s; file = snd s;
          historical_limit = historical_data_points (config m);
          ms = system_metrics_history m @ [system_metrics];
          ma = app_metrics_history m @ [app_metrics];
          ms' = (if int (length ms) > historical_limit then py_last ms historical_limit else ms);
          ma' = (if int (length ma) > historical_limit then py_last ma historical_limit else ma);
          m1 = m\<lparr>system_metrics_history := ms', app_metrics_history := ma'\<rparr>
      in case analyze_metrics F now m1 system_metrics app_metrics of
           Inl (e, m2) \<Rightarrow> Inl (e, m2, file)
         | Inr m2 \<Rightarrow>
             if int (length (alert_history m2)) mod 10 = 0
             then (case save_alert_history F io m2 file of
                     Inl e \<Rightarrow> Inl (e, m2, file)
                   | Inr s' \<Rightarrow> Inr s')
             else Inr (m2, file))"

text \<open>One iteration with the loop's \<open>except Exception\<close> handler, which logs and goes on.\<close>

definition monitoring_iteration ::
  "py_builtins \<Rightarrow> io_outcome \<Rightarrow> datetime \<Rightarrow> SystemMetrics \<Rightarrow> ApplicationMetrics
     \<Rightarrow> PerformanceMonitor \<times> file_state \<Rightarrow> PerformanceMonitor \<times> file_state" where
  "monitoring_iteration F io now system_metrics app_metrics s =
     (case monitoring_iteration_try F io now system_metrics app_metrics s of
        Inl (e, m, file) \<Rightarrow> (m\<lparr>logged_errors := logged_errors m @ [e]\<rparr>, file)
      | Inr s' \<Rightarrow> s')"

text \<open>The loop over a finite sequence of ticks, each with the outcome of its file write,
  its clock reading and its two samples.\<close>

fun monitoring_loop ::
  "py_builtins \<Rightarrow> (io_outcome \<times> datetime \<times> SystemMetrics \<times> ApplicationMetrics) list
     \<Rightarrow> PerformanceMonitor \<times> file_state \<Rightarrow> PerformanceMonitor \<times> file_state" where
  "monitoring_loop F [] s = s"
| "monitoring_loop F ((io, now, system_metrics, app_metrics) # ticks) s =
     monitoring_loop F ticks (monitoring_iteration F io now system_metrics app_metrics s)"

subsection \<open>The performance report\<close>

text \<open>\<open>max\<close> of a list raises \<open>ValueError\<close> on the empty list.\<close>

definition py_max :: "real list \<Rightarrow> py_error + real" where
  "py_max xs = (case xs of [] \<Rightarrow> Inl ValueError | x # rest \<Rightarrow> Inr (fold max rest x))"

text \<open>\<open>round(x, 2)\<close>, read on the reals: the nearest multiple of 0.01, a tie going to the
  even one.\<close>

definition py_round2 :: "real \<Rightarrow> real" where
  "py_round2 x =
     (let y = x * 100; f = \<lfloor>y\<rfloor>; r = y - real_of_int f
      in real_of_int (if r < 1 / 2 then f else if r > 1 / 2 then f + 1
                      else if even f then f else f + 1) / 100)"

text \<open>\<open>timedelta(hours=24)\<close> in microseconds.\<close>

definition timedelta_24h :: int where
  "timedelta_24h = 24 * 3600 * 1000000"

definition status_of :: "real \<Rightarrow> real \<Rightarrow> real \<Rightarrow> string" where
  "status_of x warn crit = (if x < warn then ''good'' else if x < crit then ''warning'' else ''critical'')"

definition generate_recommendations :: "datetime \<Rightarrow> PerformanceMonitor \<Rightarrow> py_error + string list" where
  "generate_recommendations now m =
     bind_e
       (if system_metrics_history m \<noteq> [] then
          let recent_cpu = map cpu_percent (py_last (system_metrics_history m) 30);
              recent_memory = map memory_percent (py_last (system_metrics_history m) 30)
          in bind_e (mean recent_cpu) (\<lambda>avg_cpu.
             bind_e (mean recent_memory) (\<lambda>avg_memory.
               Inr ((if avg_cpu > 80
                     then [''Consider scaling up CPU resources or optimizing CPU-intensive processes'']
                     else [])
                  @ (if avg_memory > 85
                     then [''Memory usage is high - consider increasing memory or optimizing memory usage'']
                     else [])
                  @ (if length (filter (\<lambda>c. c > 90) recent_cpu) > 5
                     then [''Frequent CPU spikes detected - investigate background processes'']
                     else []))))
        else Inr [])
       (\<lambda>recommendations1.
     bind_e
       (if app_metrics_history m \<noteq> [] then
          let recent_response_times = map response_time_ms (py_last (app_metrics_history m) 30);
              recent_error_rates = map error_rate (py_last (app_metrics_history m) 30)
          in bind_e (mean recent_response_times) (\<lambda>avg_response.
               let recommendations2 = recommendations1
                     @ (if avg_response > 1000
                        then [''High response times detected - optimize database queries and API endpoints'']
                        else [])
               in bind_e (mean recent_error_rates) (\<lambda>avg_errors.
                    Inr (recommendations2
                       @ (if avg_errors > 10
                          then [''High error rate detected - review application logs and fix critical issues'']
                          else []))))
        else Inr recommendations1)
       (\<lambda>recommendations3.
          let recent_alerts = filter (\<lambda>a. timestamp a > now - timedelta_24h) (alert_history m);
              recommendations4 = recommendations3
                @ (if length recent_alerts > 20
                   then [''High alert frequency - review monitoring thresholds and system stability'']
                   else [])
          in Inr (if recommendations4 = []
                  then recommendations4 @ [''System performance is within normal parameters'']
                  else recommendations4)))"

record Report =
  generated_at :: string
  monitoring_period_hours :: int
  cpu_average_percent :: real
  cpu_peak_percent :: real
  cpu_status :: string
  memory_average_percent :: real
  memory_peak_percent :: real
  memory_status :: string
  response_time_average_ms :: real
  response_time_status :: string
  error_rate_average_percent :: real
  error_rate_status :: string
  alerts_total_24h :: nat
  alerts_critical :: nat
  alerts_warnings :: nat
  alerts_resolved :: nat
  recommendations :: "string list"

text \<open>\<open>now\<close> is the clock reading of \<open>generate_performance_report\<close> and \<open>now'\<close> the later
  one of \<open>generate_recommendations\<close>.\<close>

definition generate_performance_report ::
  "py_builtins \<Rightarrow> datetime \<Rightarrow> datetime \<Rightarrow> PerformanceMonitor \<Rightarrow> py_error + Report" where
  "generate_performance_report F now now' m =
     bind_e
       (if system_metrics_history m \<noteq> [] then
          let last60 = py_last (system_metrics_history m) 60
          in bind_e (mean (map cpu_percent last60)) (\<lambda>avg_cpu.
             bind_e (mean (map memory_percent last60)) (\<lambda>avg_memory.
             bind_e (py_max (map cpu_percent last60)) (\<lambda>max_cpu.
             bind_e (py_max (map memory_percent last60)) (\<lambda>max_memory.
               Inr (avg_cpu, avg_memory, max_cpu, max_memory)))))
        else Inr (0, 0, 0, 0))
       (\<lambda>(avg_cpu, avg_memory, max_cpu, max_memory).
     bind_e
       (if app_metrics_history m \<noteq> [] then
          let last60 = py_last (app_metrics_history m) 60
          in bind_e (mean (map response_time_ms last60)) (\<lambda>avg_response_time.
             bind_e (mean (map error_rate last60)) (\<lambda>avg_error_rate.
               Inr (avg_response_time, avg_error_rate)))
        else Inr (0, 0))
       (\<lambda>(avg_response_time, avg_error_rate).
          let recent_alerts = filter (\<lambda>a. timestamp a > now - timedelta_24h) (alert_history m);
              critical_alerts = filter (\<lambda>a. severity a = ''CRITICAL'') recent_alerts;
              warning_alerts = filter (\<lambda>a. severity a = ''WARNING'') recent_alerts
          in bind_e (generate_recommendations now' m) (\<lambda>recs.
               Inr \<lparr>generated_at = isoformat F now,
                    monitoring_period_hours = 24,
                    cpu_average_percent = py_round2 avg_cpu,
                    cpu_peak_percent = py_round2 max_cpu,
                    cpu_status = status_of avg_cpu 70 85,
                    memory_average_percent = py_round2 avg_memory,
                    memory_peak_percent = py_round2 max_memory,
                    memory_status = status_of avg_memory 80 90,
                    response_time_average_ms = py_round2 avg_response_time,
                    response_time_status = status_of avg_response_time 500 1000,
                    error_rate_average_percent = py_round2 avg_error_rate,
                    error_rate_status = status_of avg_error_rate 5 15,
                    alerts_total_24h = length recent_alerts,
                    alerts_critical = length critical_alerts,
                    alerts_warnings = length warning_alerts,
                    alerts_resolved = length (filter resolved recent_alerts),
                    recommendations = recs\<rparr>)))"

subsection \<open>Notions used in the properties of the alert log\<close>

text \<open>The monitor a raising function leaves behind, whether it returned or raised.\<close>

definition state_of :: "PerformanceMonitor raising \<Rightarrow> PerformanceMonitor" where
  "state_of r = (case r of Inl (e, m) \<Rightarrow> m | Inr m \<Rightarrow> m)"

text \<open>The metric names and categories with which \<open>analyze_metrics\<close> calls
  \<open>check_threshold_alert\<close>.\<close>

definition threshold_pairs :: "(string \<times> string) list" where
  "threshold_pairs =
     [(''CPU Usage'', ''system''), (''Memory Usage'', ''system''), (''Disk Usage'', ''system''),
      (''Response Time'', ''application''), (''Error Rate'', ''application'')]"

text \<open>At most one unresolved alert in the log matches each of these pairs, matching being
  the test \<open>check_threshold_alert\<close> applies.\<close>

definition dedup_invariant :: "Alert list \<Rightarrow> bool" where
  "dedup_invariant alerts \<longleftrightarrow>
     list_all (\<lambda>(metric_name, category'). length (filter (is_active_for category' metric_name) alerts) \<le> 1)
       threshold_pairs"

text \<open>An alert that the test of some threshold evaluation of \<open>analyze_metrics\<close> selects by
  category and message.\<close>

definition threshold_target :: "Alert \<Rightarrow> bool" where
  "threshold_target a \<longleftrightarrow>
     list_ex (\<lambda>(metric_name, category'). category a = category' \<and> sublist metric_name (message a))
       threshold_pairs"

text \<open>The metric names and categories of \<open>metrics_to_check\<close> in \<open>detect_anomalies\<close>.\<close>

definition anomaly_metrics :: "(string \<times> string) list" where
  "anomaly_metrics =
     [(''cpu_percent'', ''system''), (''memory_percent'', ''system''),
      (''response_time_ms'', ''application''), (''error_rate'', ''application'')]"

text \<open>An alert as the anomaly path creates it: its message opens with the anomaly text
  for one of the checked metrics, and its category is the category of that metric.  An
  alert as the predictive path creates it: category \<open>predictive\<close>, and a message that opens
  with the text of the CPU prediction.\<close>

definition anomaly_alert :: "Alert \<Rightarrow> bool" where
  "anomaly_alert a \<longleftrightarrow>
     list_ex (\<lambda>(metric_name, category').
                category a = category' \<and>
                prefix (''Anomaly detected in '' @ metric_name @ '': '') (message a))
       anomaly_metrics"

definition predictive_alert :: "Alert \<Rightarrow> bool" where
  "predictive_alert a \<longleftrightarrow>
     category a = ''predictive'' \<and> prefix ''CPU usage trending upward: '' (message a)"

text \<open>Every alert of the log that is one of the anomaly path or of the predictive path is
  unresolved, and no threshold evaluation selects it.\<close>

definition unresolved_paths :: "Alert list \<Rightarrow> bool" where
  "unresolved_paths alerts \<longleftrightarrow>
     list_all (\<lambda>a. anomaly_alert a \<or> predictive_alert a \<longrightarrow> \<not> resolved a \<and> \<not> threshold_target a)
       alerts"

text \<open>Every alert of the log \<open>before\<close> that no threshold evaluation selects is still at its
  place in the log \<open>after\<close>, with every field as it was.\<close>

definition untouched :: "Alert list \<Rightarrow> Alert list \<Rightarrow> bool" where
  "untouched before after \<longleftrightarrow>
     list_all (\<lambda>i. threshold_target (before ! i) \<or> (i < length after \<and> after ! i = before ! i))
       [0..<length before]"

subsection \<open>Concrete instances for evaluating the model\<close>

text \<open>The \<open>monitoring\<close> entries and the \<open>anomaly_detection\<close> flag of \<open>DEFAULT_CONFIG\<close>.\<close>

definition DEFAULT_CONFIG :: monitoring_config where
  "DEFAULT_CONFIG =
     \<lparr>cpu_threshold = 80, memory_threshold = 85, disk_threshold = 90,
      response_time_threshold_ms = 1000, enable_predictive_alerts = True,
      historical_data_points = 100, anomaly_detection = True\<rparr>"

text \<open>Rounding to the nearest integer, a tie going to the even one, and rounding to the
  nearest double, a tie going to the even significand: a real \<open>x\<close> with
  \<open>2 ^ e \<le> \<bar>x\<bar> < 2 ^ (e + 1)\<close> is rounded to a multiple of \<open>2 ^ (e - 52)\<close>.  This is the rounding of
  IEEE 754 binary64 arithmetic on results in the normal range.\<close>

definition round_half_even :: "real \<Rightarrow> int" where
  "round_half_even y =
     (let f = \<lfloor>y\<rfloor>; r = y - real_of_int f
      in if r < 1 / 2 then f else if r > 1 / 2 then f + 1 else if even f then f else f + 1)"

definition round_double :: "real \<Rightarrow> real" where
  "round_double x =
     (if x = 0 then 0
      else let e = \<lfloor>log 2 \<bar>x\<bar>\<rfloor>; u = 2 powr (real_of_int e - 52)
           in real_of_int (round_half_even (x / u)) * u)"

text \<open>An instance of the built-ins on which examples can be computed.  The float
  operators return the exact result rounded to the nearest double, and \<open>sum\<close> adds from
  the left, rounding each partial sum.  Every number prints as \<open>0.00\<close>, and a time prints
  as its sign followed by as many \<open>1\<close>s as its magnitude, which \<open>fromisoformat\<close> reads
  back.\<close>

definition sample_text :: py_builtins where
  "sample_text =
     \<lparr>float_mul = (\<lambda>a b. round_double (a * b)),
      float_sub = (\<lambda>a b. round_double (a - b)),
      float_div = (\<lambda>a b. round_double (a / b)),
      float_sum = foldl (\<lambda>acc y. round_double (acc + y)) 0,
      fmt_2f = (\<lambda>x. ''0.00''),
      fmt_str = (\<lambda>x. ''0.00''),
      isoformat = (\<lambda>t. (if t < 0 then CHR ''-'' else CHR ''+'') # replicate (nat \<bar>t\<bar>) CHR ''1''),
      fromisoformat = (\<lambda>s. case s of [] \<Rightarrow> None
                           | c # r \<Rightarrow> Some ((if c = CHR ''-'' then - 1 else 1) * int (length r)))\<rparr>"

text \<open>Samples of an idle host, and of an application with a given response time, taken
  at time 0 with a successful write of the alert file.\<close>

definition idle_system_metrics :: SystemMetrics where
  "idle_system_metrics =
     \<lparr>sys_timestamp = 0, cpu_percent = 0, memory_percent = 0, memory_available_mb = 0,
      disk_usage_percent = 0, disk_io_read_mb = 0, disk_io_write_mb = 0, network_sent_mb = 0,
      network_recv_mb = 0, load_average = [0, 0, 0], active_connections = 0, process_count = 0\<rparr>"

definition app_metrics_with :: "real \<Rightarrow> ApplicationMetrics" where
  "app_metrics_with r =
     \<lparr>app_timestamp = 0, response_time_ms = r, error_rate = 0, throughput_rps = 0,
      active_users = 0, database_connections = 0, queue_size = 0, memory_usage_mb = 0,
      cpu_usage_percent = 0\<rparr>"

definition tick_with :: "real \<Rightarrow> io_outcome \<times> datetime \<times> SystemMetrics \<times> ApplicationMetrics" where
  "tick_with r = (WriteOk, 0, idle_system_metrics, app_metrics_with r)"

text \<open>The monitor with the default configuration after ticks of an idle host whose
  application answered in the times \<open>rs\<close>, with the alerts \<open>alerts\<close> logged and sent.\<close>

definition run_state :: "real list \<Rightarrow> Alert list \<Rightarrow> PerformanceMonitor" where
  "run_state rs alerts =
     \<lparr>config = DEFAULT_CONFIG,
      anomaly_detector =
        \<lparr>window_size = 50, threshold = 2.5,
         data_history = [''cpu_percent'' \<mapsto> replicate (length rs) 0,
                         ''memory_percent'' \<mapsto> replicate (length rs) 0,
                         ''response_time_ms'' \<mapsto> rs,
                         ''error_rate'' \<mapsto> replicate (length rs) 0]\<rparr>,
      alert_history = alerts,
      system_metrics_history = replicate (length rs) idle_system_metrics,
      app_metrics_history = map app_metrics_with rs,
      sent_alerts = alerts, logged_errors = []\<rparr>"

text \<open>The characters a printed number is made of: digits, sign, point, exponent mark and
  the letters of \<open>inf\<close> and \<open>nan\<close>.\<close>

definition numeric_text :: "string \<Rightarrow> bool" where
  "numeric_text s \<longleftrightarrow> set s \<subseteq> set ''0123456789.-+einfa''"

section \<open>Properties of the sample arithmetic\<close>

lemma round_half_even_int: "round_half_even (real_of_int k) = k"
  by (simp add: round_half_even_def)

lemma round_half_even_near: "\<bar>real_of_int (round_half_even y) - y\<bar> \<le> 1 / 2"
  unfolding round_half_even_def Let_def by (auto simp: abs_le_iff; linarith)

text \<open>The value of \<open>round_double\<close> at a number whose binade is known.\<close>

lemma round_double_eval:
  assumes "2 ^ 52 \<le> \<bar>x\<bar> * 2 ^ k" "\<bar>x\<bar> * 2 ^ k < 2 ^ 53"
  shows "round_double x = real_of_int (round_half_even (x * 2 ^ k)) / 2 ^ k"
proof -
  have x0: "x \<noteq> 0" using assms(1) by auto
  have pos: "0 < \<bar>x\<bar>" using x0 by simp
  have "\<lfloor>log 2 \<bar>x\<bar>\<rfloor> = 52 - int k"
  proof (rule floor_unique)
    have "2 powr (52 - real k) \<le> \<bar>x\<bar>"
      using assms(1) by (simp add: powr_diff powr_realpow field_simps)
    then show "real_of_int (52 - int k) \<le> log 2 \<bar>x\<bar>"
      using pos by (simp add: le_log_iff)
    have "\<bar>x\<bar> < 2 powr (53 - real k)"
      using assms(2) by (simp add: powr_diff powr_realpow field_simps)
    then show "log 2 \<bar>x\<bar> < real_of_int (52 - int k) + 1"
      using pos by (simp add: log_less_iff)
  qed
  moreover have "2 powr (real_of_int (52 - int k) - 52) = 1 / 2 ^ k"
    by (simp add: powr_minus powr_realpow field_simps)
  ultimately show ?thesis using x0 by (simp add: round_double_def Let_def)
qed

lemma round_double_eval_big:
  assumes "2 ^ 52 \<le> \<bar>x\<bar> / 2 ^ j" "\<bar>x\<bar> / 2 ^ j < 2 ^ 53"
  shows "round_double x = real_of_int (round_half_even (x / 2 ^ j)) * 2 ^ j"
proof -
  have x0: "x \<noteq> 0" using assms(1) by auto
  have pos: "0 < \<bar>x\<bar>" using x0 by simp
  have "\<lfloor>log 2 \<bar>x\<bar>\<rfloor> = 52 + int j"
  proof (rule floor_unique)
    have "2 powr (52 + real j) \<le> \<bar>x\<bar>"
      using assms(1) by (simp add: powr_add powr_realpow field_simps)
    then show "real_of_int (52 + int j) \<le> log 2 \<bar>x\<bar>"
      using pos by (simp add: le_log_iff)
    have "\<bar>x\<bar> < 2 powr (53 + real j)"
      using assms(2) by (simp add: powr_add powr_realpow field_simps)
    then show "log 2 \<bar>x\<bar> < real_of_int (52 + int j) + 1"
      using pos by (simp add: log_less_iff)
  qed
  moreover have "2 powr (real_of_int (52 + int j) - 52) = 2 ^ j"
    by (simp add: powr_realpow)
  ultimately show ?thesis using x0 by (simp add: round_double_def Let_def)
qed

text \<open>Rounding moves a number by at most half a unit in the last place.\<close>

lemma round_double_rel: "\<bar>round_double x - x\<bar> \<le> \<bar>x\<bar> / 2 ^ 53"
proof (cases "x = 0")
  case True then show ?thesis by (simp add: round_double_def)
next
  case False
  define e where "e = \<lfloor>log 2 \<bar>x\<bar>\<rfloor>"
  define u where "u = 2 powr (real_of_int e - 52)"
  have u0: "0 < u" by (simp add: u_def)
  have "real_of_int e \<le> log 2 \<bar>x\<bar>" by (simp add: e_def)
  then have "2 powr real_of_int e \<le> \<bar>x\<bar>" using False by (simp add: le_log_iff)
  then have ub: "u * 2 ^ 52 \<le> \<bar>x\<bar>" by (simp add: u_def powr_diff powr_realpow field_simps)
  have rd: "round_double x = real_of_int (round_half_even (x / u)) * u"
    using False by (simp add: round_double_def Let_def e_def u_def)
  have "\<bar>round_double x - x\<bar> = \<bar>real_of_int (round_half_even (x / u)) - x / u\<bar> * u"
    using u0 by (simp add: rd abs_mult[symmetric] field_simps)
  also have "\<dots> \<le> 1 / 2 * u"
    using round_half_even_near[of "x / u"] u0 by (intro mult_right_mono) simp_all
  also have "\<dots> \<le> \<bar>x\<bar> / 2 ^ 53" using ub by simp
  finally show ?thesis .
qed

text \<open>Integers below \<open>2 ^ 53\<close> are doubles.\<close>

lemma round_double_int:
  assumes "x \<in> \<int>" "\<bar>x\<bar> < 2 ^ 53"
  shows "round_double x = x"
proof (cases "x = 0")
  case True then show ?thesis by (simp add: round_double_def)
next
  case False
  obtain m where m: "x = real_of_int m" using assms(1) by (auto elim: Ints_cases)
  define e where "e = \<lfloor>log 2 \<bar>x\<bar>\<rfloor>"
  have m1: "1 \<le> \<bar>x\<bar>" using False m by (simp add: m)
  then have e0: "0 \<le> e" unfolding e_def by (simp add: zero_le_log_cancel_iff)
  have "log 2 \<bar>x\<bar> < 53" using assms(2) m1 by (simp add: log_less_iff powr_realpow)
  then have e52: "e \<le> 52" unfolding e_def by (simp add: floor_le_iff)
  define j where "j = nat (52 - e)"
  have "real_of_int e - 52 = - real j" using e52 by (simp add: j_def)
  then have u: "2 powr (real_of_int e - 52) = 1 / 2 ^ j"
    by (simp add: powr_minus_divide powr_realpow)
  have "x / (1 / 2 ^ j) = real_of_int (m * 2 ^ j)" by (simp add: m)
  then have "round_half_even (x / (1 / 2 ^ j)) = m * 2 ^ j"
    by (simp only: round_half_even_int)
  moreover have "round_double x = real_of_int (round_half_even (x / (1 / 2 ^ j))) * (1 / 2 ^ j)"
    unfolding round_double_def Let_def e_def[symmetric] u using False by simp
  ultimately show ?thesis by (simp add: m)
qed

lemma round_double_pos:
  assumes "1 \<le> x"
  shows "float_0_1 < round_double x"
proof -
  have "\<bar>round_double x - x\<bar> \<le> x / 9007199254740992"
    using round_double_rel[of x] assms by simp
  then show ?thesis using assms unfolding float_0_1_def by linarith
qed

section \<open>Properties of the anomaly detector\<close>

lemma stdev_replicate: "2 \<le> n \<Longrightarrow> stdev (replicate n c) = Inr 0"
  by (simp add: stdev_def sum_list_replicate Let_def)

lemma is_anomaly_total: "\<exists>r. is_anomaly d metric_name v = Inr r"
  by (auto simp: is_anomaly_def mean_def stdev_def py_truediv_def Let_def split: option.splits sum.splits)

lemma two_sum_x: "2 * sum_list (map int [0..<n]) = int n * (int n - 1)"
  by (induction n) (simp_all add: algebra_simps)

lemma six_sum_x2: "6 * sum_list (map (\<lambda>xi. xi * xi) (map int [0..<n])) = (int n - 1) * int n * (2 * int n - 1)"
  by (induction n) (simp_all add: algebra_simps)

lemma twelve_denominator: "12 * slope_denominator ys = (int (length ys))\<^sup>2 * ((int (length ys))\<^sup>2 - 1)"
proof -
  let ?n = "int (length ys)"
  let ?sx = "sum_list (map int [0..<length ys])"
  let ?sx2 = "sum_list (map (\<lambda>xi. xi * xi) (map int [0..<length ys]))"
  have "12 * slope_denominator ys = 2 * ?n * (6 * ?sx2) - 3 * ((2 * ?sx) * (2 * ?sx))"
    by (simp add: slope_denominator_def Let_def algebra_simps)
  also have "\<dots> = 2 * ?n * ((?n - 1) * ?n * (2 * ?n - 1)) - 3 * ((?n * (?n - 1)) * (?n * (?n - 1)))"
    by (simp only: two_sum_x six_sum_x2)
  also have "\<dots> = ?n\<^sup>2 * (?n\<^sup>2 - 1)"
    by (simp add: algebra_simps power2_eq_square)
  finally show ?thesis .
qed

lemma slope_denominator_pos: "2 \<le> length ys \<Longrightarrow> 0 < slope_denominator ys"
proof -
  assume a: "2 \<le> length ys"
  let ?n = "int (length ys)"
  have "2 \<le> ?n" using a by simp
  then have "1 < ?n\<^sup>2" by (smt (verit) one_less_power pos2 power2_eq_square mult_le_less_imp_less)
  moreover have "0 < ?n\<^sup>2" using a by auto
  ultimately have "0 < ?n\<^sup>2 * (?n\<^sup>2 - 1)" by (intro mult_pos_pos) linarith+
  then show ?thesis using twelve_denominator[of ys] by linarith
qed

lemma slope_denominator_one: "length ys = 1 \<Longrightarrow> slope_denominator ys = 0"
  using twelve_denominator[of ys] by simp

lemma length_py_last: "0 < k \<Longrightarrow> k \<le> int (length xs) \<Longrightarrow> length (py_last xs k) = nat k"
  by (simp add: py_last_def Let_def)

lemma sum_list_upt_sum: "sum_list (map f [0..<n]) = (\<Sum>i<n. f i)"
  by (simp add: interv_sum_list_conv_sum_set_nat atLeast0LessThan)

lemma exact_numerator_sum:
  "exact_numerator ys =
     real (length ys) * (\<Sum>i<length ys. real i * ys ! i) - (\<Sum>i<length ys. real i) * (\<Sum>i<length ys. ys ! i)"
proof -
  let ?n = "length ys"
  have 1: "sum_list (map (\<lambda>i. real_of_int (map int [0..<?n] ! i) * ys ! i) [0..<?n]) = (\<Sum>i<?n. real i * ys ! i)"
    unfolding sum_list_upt_sum by (rule sum.cong) simp_all
  have 2: "real_of_int (sum_list (map int [0..<?n])) = (\<Sum>i<?n. real i)"
    by (simp add: sum_list_upt_sum)
  have 3: "sum_list ys = (\<Sum>i<?n. ys ! i)"
    by (simp add: sum_list_sum_nth atLeast0LessThan)
  show ?thesis
    unfolding exact_numerator_def Let_def 1 2 using 3 by simp
qed

lemma slope_denominator_sum:
  "slope_denominator ys = int (length ys) * (\<Sum>i<length ys. int i * int i) - (\<Sum>i<length ys. int i) * (\<Sum>i<length ys. int i)"
  by (simp add: slope_denominator_def Let_def sum_list_upt_sum comp_def)

lemma sum_centred_product:
  fixes f g :: "nat \<Rightarrow> real"
  shows "(\<Sum>i<n. (f i - a) * (g i - b)) =
         (\<Sum>i<n. f i * g i) - b * (\<Sum>i<n. f i) - a * (\<Sum>i<n. g i) + real n * (a * b)"
proof -
  have "(\<Sum>i<n. (f i - a) * (g i - b)) = (\<Sum>i<n. f i * g i - b * f i - a * g i + a * b)"
    by (rule sum.cong) (simp_all add: algebra_simps)
  also have "\<dots> = (\<Sum>i<n. f i * g i) - (\<Sum>i<n. b * f i) - (\<Sum>i<n. a * g i) + (\<Sum>i<n. a * b)"
    by (simp only: sum.distrib sum_subtractf)
  finally show ?thesis by (simp add: sum_distrib_left)
qed

lemma regression_slope_eq:
  assumes "2 \<le> length ys"
  shows "exact_numerator ys / real_of_int (slope_denominator ys) = regression_slope ys"
proof -
  let ?n = "length ys"
  define n where "n = real ?n"
  define Sx where "Sx = (\<Sum>i<?n. real i)"
  define Sy where "Sy = (\<Sum>i<?n. ys ! i)"
  define Sxy where "Sxy = (\<Sum>i<?n. real i * ys ! i)"
  define Sx2 where "Sx2 = (\<Sum>i<?n. real i * real i)"
  have n0: "n \<noteq> 0" using assms by (auto simp: n_def)
  have card: "(\<Sum>i<?n. (c::real)) = n * c" for c by (simp add: n_def)
  have num: "(\<Sum>i<?n. (real i - Sx / n) * (ys ! i - Sy / n)) = Sxy - Sx * Sy / n"
    unfolding sum_centred_product Sx_def[symmetric] Sy_def[symmetric] Sxy_def[symmetric] n_def[symmetric]
    using n0 by (simp add: field_simps)
  have den: "(\<Sum>i<?n. (real i - Sx / n)\<^sup>2) = Sx2 - Sx * Sx / n"
    unfolding power2_eq_square sum_centred_product Sx_def[symmetric] Sx2_def[symmetric] n_def[symmetric]
    using n0 by (simp add: field_simps)
  have cn: "exact_numerator ys = n * Sxy - Sx * Sy"
    by (simp add: exact_numerator_sum n_def Sx_def Sy_def Sxy_def)
  have cd: "real_of_int (slope_denominator ys) = n * Sx2 - Sx * Sx"
    by (simp add: slope_denominator_sum n_def Sx_def Sx2_def)
  have "regression_slope ys = (Sxy - Sx * Sy / n) / (Sx2 - Sx * Sx / n)"
    unfolding regression_slope_def Let_def using num den by (simp add: n_def Sx_def Sy_def)
  also have "\<dots> = (n * (Sxy - Sx * Sy / n)) / (n * (Sx2 - Sx * Sx / n))"
    using n0 by simp
  also have "\<dots> = (n * Sxy - Sx * Sy) / (n * Sx2 - Sx * Sx)"
    using n0 by (simp add: algebra_simps)
  finally show ?thesis using cn cd by simp
qed

lemma py_last_drop: "0 < k \<Longrightarrow> k \<le> int (length xs) \<Longrightarrow> py_last xs k = drop (length xs - nat k) xs"
  by (simp add: py_last_def Let_def nat_diff_distrib')

lemma rounds_nothing_slope:
  assumes "rounds_nothing F ys"
  shows "slope_numerator F ys = exact_numerator ys"
    and "float_div F (exact_numerator ys) (real_of_int (slope_denominator ys))
           = exact_numerator ys / real_of_int (slope_denominator ys)"
proof -
  let ?n = "length ys"
  let ?x = "map int [0..<?n]"
  let ?products = "map (\<lambda>i. real_of_int (?x ! i) * ys ! i) [0..<?n]"
  have "\<forall>i \<in> set [0..<?n]. float_mul F (real_of_int (?x ! i)) (ys ! i) = real_of_int (?x ! i) * ys ! i"
    using assms unfolding rounds_nothing_def Let_def list_all_iff by (rule conjunct1)
  then have p: "map (\<lambda>i. float_mul F (real_of_int (?x ! i)) (ys ! i)) [0..<?n] = ?products"
    by (intro map_cong refl) blast
  have r: "py_sum F ys = sum_list ys" "py_sum F ?products = sum_list ?products"
      "float_mul F (real ?n) (sum_list ?products) = real ?n * sum_list ?products"
      "float_mul F (real_of_int (sum_list ?x)) (sum_list ys) = real_of_int (sum_list ?x) * sum_list ys"
      "float_sub F (real ?n * sum_list ?products) (real_of_int (sum_list ?x) * sum_list ys)
         = real ?n * sum_list ?products - real_of_int (sum_list ?x) * sum_list ys"
      "float_div F (real ?n * sum_list ?products - real_of_int (sum_list ?x) * sum_list ys)
           (real_of_int (slope_denominator ys))
         = (real ?n * sum_list ?products - real_of_int (sum_list ?x) * sum_list ys)
             / real_of_int (slope_denominator ys)"
    using assms unfolding rounds_nothing_def Let_def by blast+
  show "slope_numerator F ys = exact_numerator ys"
    unfolding slope_numerator_def exact_numerator_def Let_def p r ..
  show "float_div F (exact_numerator ys) (real_of_int (slope_denominator ys))
           = exact_numerator ys / real_of_int (slope_denominator ys)"
    unfolding exact_numerator_def Let_def by (rule r(6))
qed

lemma detect_trend_ge2:
  assumes "data_history d m = Some h" "2 \<le> points" "points \<le> int (length h)"
  shows "detect_trend F d m points
           = Inr (classify_slope (float_div F (slope_numerator F (py_last h points))
                                     (real_of_int (slope_denominator (py_last h points)))))"
proof -
  have len: "length (py_last h points) = nat points" using assms by (simp add: length_py_last)
  then have two: "2 \<le> length (py_last h points)" using assms by simp
  from slope_denominator_pos[OF two] assms show ?thesis
    by (simp add: detect_trend_def float_truediv_def Let_def)
qed

lemma detect_trend_one:
  assumes "data_history d m = Some h" "1 \<le> length h" 
  shows "detect_trend F d m 1 = Inl ZeroDivisionError"
proof -
  have len: "length (py_last h 1) = 1" using assms length_py_last[of 1 h] by simp
  from slope_denominator_one[OF len] assms show ?thesis
    by (auto simp: detect_trend_def float_truediv_def Let_def)
qed

lemma upto10: "exact_numerator [1,2,3,4,5,6,7,8,9,10] = 825" "slope_denominator [1,2,3,4,5,6,7,8,9,10] = 825"
  by (simp_all add: exact_numerator_def slope_denominator_def Let_def upt_rec[of _ "numeral _"] upt_rec[of 0])

lemma exact_numerator_const: "exact_numerator (replicate n c) = 0"
  by (simp add: exact_numerator_sum sum_distrib_right[symmetric] sum_distrib_left[symmetric])

lemma float_0_1_pos: "0 < float_0_1" "float_0_1 < 1"
  by (simp_all add: float_0_1_def)

lemma classify_slope_iff:
  "classify_slope slope = ''increasing'' \<longleftrightarrow> slope > float_0_1"
  "classify_slope slope = ''decreasing'' \<longleftrightarrow> slope < - float_0_1"
  "classify_slope slope = ''stable'' \<longleftrightarrow> \<not> slope > float_0_1 \<and> \<not> slope < - float_0_1"
  using float_0_1_pos(1) by (auto simp: classify_slope_def)

lemma sample_rounds_nothing:
  "rounds_nothing sample_text [1, 2, 3, 4, 5, 6, 7, 8, 9, 10]"
  "rounds_nothing sample_text (replicate 10 42)"
  by (simp_all add: rounds_nothing_def slope_denominator_def py_sum_def sample_text_def Let_def
        upt_rec[of _ "numeral _"] upt_rec[of 0] round_double_int eval_nat_numeral)

text \<open>
  C4. \<open>is_anomaly\<close> returns \<open>(False, 0.0)\<close> for a metric that has no recorded history or
  fewer than 10 recorded points, and for a window whose standard deviation is 0, such as
  a constant history of 10s with the new value 10; the division by the standard deviation
  never raises \<open>ZeroDivisionError\<close>.
\<close>

theorem is_anomaly_guards:
  "(data_history d metric_name = None \<longrightarrow> is_anomaly d metric_name v = Inr (False, 0)) \<and>
   (\<forall>h. data_history d metric_name = Some h \<and> length h < 10 \<longrightarrow>
        is_anomaly d metric_name v = Inr (False, 0)) \<and>
   (\<forall>h. data_history d metric_name = Some h \<and> stdev h = Inr 0 \<longrightarrow>
        is_anomaly d metric_name v = Inr (False, 0)) \<and>
   (\<forall>n. data_history d metric_name = Some (replicate n 10) \<longrightarrow>
        is_anomaly d metric_name 10 = Inr (False, 0)) \<and>
   is_anomaly d metric_name v \<noteq> Inl ZeroDivisionError"
proof (intro conjI allI impI)
  show "is_anomaly d metric_name v = Inr (False, 0)" if "data_history d metric_name = None"
    using that by (simp add: is_anomaly_def)
  show "is_anomaly d metric_name v = Inr (False, 0)"
    if "data_history d metric_name = Some h \<and> length h < 10" for h
    using that by (simp add: is_anomaly_def)
  show "is_anomaly d metric_name v = Inr (False, 0)"
    if "data_history d metric_name = Some h \<and> stdev h = Inr 0" for h
    using that by (auto simp: is_anomaly_def mean_def stdev_def split: if_splits)
  show "is_anomaly d metric_name 10 = Inr (False, 0)"
    if "data_history d metric_name = Some (replicate n 10)" for n
    using that by (cases "n < 10") (simp_all add: is_anomaly_def mean_def stdev_replicate)
  show "is_anomaly d metric_name v \<noteq> Inl ZeroDivisionError"
    using is_anomaly_total[of d metric_name v] by auto
qed

theorem is_anomaly_guards_witness:
  "is_anomaly AnomalyDetector_init ''cpu_percent'' 99 = Inr (False, 0) \<and>
   is_anomaly (AnomalyDetector_init\<lparr>data_history := [''cpu_percent'' \<mapsto> [1, 2, 3]]\<rparr>) ''cpu_percent'' 99
     = Inr (False, 0) \<and>
   is_anomaly (AnomalyDetector_init\<lparr>data_history := [''cpu_percent'' \<mapsto> replicate 12 10]\<rparr>) ''cpu_percent'' 10
     = Inr (False, 0) \<and>
   is_anomaly (AnomalyDetector_init\<lparr>data_history := [''cpu_percent'' \<mapsto> replicate 12 7]\<rparr>) ''cpu_percent'' 99
     = Inr (False, 0)"
proof -
  let ?d1 = "AnomalyDetector_init\<lparr>data_history := [''cpu_percent'' \<mapsto> [1, 2, 3]]\<rparr>"
  let ?d2 = "AnomalyDetector_init\<lparr>data_history := [''cpu_percent'' \<mapsto> replicate 12 10]\<rparr>"
  let ?d3 = "AnomalyDetector_init\<lparr>data_history := [''cpu_percent'' \<mapsto> replicate 12 7]\<rparr>"
  have a: "data_history AnomalyDetector_init ''cpu_percent'' = None"
    by (simp add: AnomalyDetector_init_def)
  have b: "data_history ?d1 ''cpu_percent'' = Some [1, 2, 3] \<and> length [1, 2, 3 :: real] < 10"
    by simp
  have c: "data_history ?d2 ''cpu_percent'' = Some (replicate 12 10)"
    by simp
  have e: "data_history ?d3 ''cpu_percent'' = Some (replicate 12 7) \<and> stdev (replicate 12 7) = Inr 0"
    by (simp add: stdev_replicate)
  from a b c e
    is_anomaly_guards[of AnomalyDetector_init "''cpu_percent''" 99]
    is_anomaly_guards[of ?d1 "''cpu_percent''" 99]
    is_anomaly_guards[of ?d2 "''cpu_percent''" 99]
    is_anomaly_guards[of ?d3 "''cpu_percent''" 99]
  show ?thesis by blast
qed

text \<open>
  C5 as stated fails for lookback 1: with one recorded point the slope division raises
  \<open>ZeroDivisionError\<close> and no label is returned.
\<close>

theorem detect_trend_lookback_one_counterexample:
  "detect_trend sample_text (add_data_point AnomalyDetector_init ''cpu_percent'' 5) ''cpu_percent'' 1
     = Inl ZeroDivisionError"
  by (rule detect_trend_one[where h = "[5]"]) (simp_all add: add_data_point_def AnomalyDetector_init_def)

text \<open>
  C5, amended to lookback \<open>n \<ge> 2\<close> and to the slope as the code computes it.
  \<open>detect_trend\<close> returns \<open>insufficient_data\<close> when the metric has fewer than \<open>n\<close> recorded
  points; otherwise the slope division is defined, and the label is \<open>increasing\<close> exactly
  when the quotient it returns, computed in floating point over the last \<open>n\<close> points
  indexed \<open>0..n-1\<close>, exceeds the double 0.1, \<open>decreasing\<close> exactly when it is below the
  double -0.1, \<open>stable\<close> otherwise.  On a window where no operation of the slope line
  rounds, that quotient is the least-squares slope of the linear regression; so the
  history 1, 2, ..., 10 over lookback 10, on which nothing rounds, is \<open>increasing\<close>, and a
  constant history on which nothing rounds is \<open>stable\<close>.
\<close>

theorem detect_trend_classification:
  assumes "2 \<le> points"
  shows
  "(data_history d metric_name = None \<longrightarrow>
      detect_trend F d metric_name points = Inr ''insufficient_data'') \<and>
   (\<forall>h. data_history d metric_name = Some h \<and> int (length h) < points \<longrightarrow>
      detect_trend F d metric_name points = Inr ''insufficient_data'') \<and>
   (\<forall>h. data_history d metric_name = Some h \<and> points \<le> int (length h) \<longrightarrow>
      (\<exists>slope. float_truediv F (slope_numerator F (drop (length h - nat points) h))
                                 (slope_denominator (drop (length h - nat points) h)) = Inr slope \<and>
         (rounds_nothing F (drop (length h - nat points) h) \<longrightarrow>
            slope = regression_slope (drop (length h - nat points) h)) \<and>
         (\<exists>label. detect_trend F d metric_name points = Inr label \<and>
            (label = ''increasing'' \<longleftrightarrow> slope > float_0_1) \<and>
            (label = ''decreasing'' \<longleftrightarrow> slope < - float_0_1) \<and>
            (label = ''stable'' \<longleftrightarrow> \<not> slope > float_0_1 \<and> \<not> slope < - float_0_1)))) \<and>
   (data_history d metric_name = Some [1, 2, 3, 4, 5, 6, 7, 8, 9, 10] \<and>
    rounds_nothing F [1, 2, 3, 4, 5, 6, 7, 8, 9, 10] \<longrightarrow>
      detect_trend F d metric_name 10 = Inr ''increasing'') \<and>
   (\<forall>k c. data_history d metric_name = Some (replicate k c) \<and> points \<le> int k \<and>
          rounds_nothing F (replicate (nat points) c) \<longrightarrow>
      detect_trend F d metric_name points = Inr ''stable'')"
proof (intro conjI allI impI)
  show "detect_trend F d metric_name points = Inr ''insufficient_data''"
    if "data_history d metric_name = None"
    using that by (simp add: detect_trend_def)
  show "detect_trend F d metric_name points = Inr ''insufficient_data''"
    if "data_history d metric_name = Some h \<and> int (length h) < points" for h
    using that by (simp add: detect_trend_def)
  show "\<exists>slope. float_truediv F (slope_numerator F (drop (length h - nat points) h))
                                 (slope_denominator (drop (length h - nat points) h)) = Inr slope \<and>
         (rounds_nothing F (drop (length h - nat points) h) \<longrightarrow>
            slope = regression_slope (drop (length h - nat points) h)) \<and>
         (\<exists>label. detect_trend F d metric_name points = Inr label \<and>
            (label = ''increasing'' \<longleftrightarrow> slope > float_0_1) \<and>
            (label = ''decreasing'' \<longleftrightarrow> slope < - float_0_1) \<and>
            (label = ''stable'' \<longleftrightarrow> \<not> slope > float_0_1 \<and> \<not> slope < - float_0_1))"
    if h: "data_history d metric_name = Some h \<and> points \<le> int (length h)" for h
  proof -
    let ?ys = "drop (length h - nat points) h"
    let ?slope = "float_div F (slope_numerator F ?ys) (real_of_int (slope_denominator ?ys))"
    have ys: "py_last h points = ?ys" using py_last_drop[of points h] h assms by simp
    have "nat points \<le> length h" using h by linarith
    then have "length ?ys = nat points" by simp
    then have two: "2 \<le> length ?ys" using assms by linarith
    have pos: "0 < slope_denominator ?ys" by (rule slope_denominator_pos[OF two])
    have 1: "float_truediv F (slope_numerator F ?ys) (slope_denominator ?ys) = Inr ?slope"
      using pos by (simp add: float_truediv_def)
    have 2: "detect_trend F d metric_name points = Inr (classify_slope ?slope)"
      using detect_trend_ge2[of d metric_name h points F] h assms unfolding ys by simp
    have 3: "?slope = regression_slope ?ys" if r: "rounds_nothing F ?ys"
      unfolding rounds_nothing_slope(1)[OF r] rounds_nothing_slope(2)[OF r]
      by (rule regression_slope_eq[OF two])
    show ?thesis
    proof (intro exI[of _ ?slope] conjI impI)
      show "float_truediv F (slope_numerator F ?ys) (slope_denominator ?ys) = Inr ?slope" by (rule 1)
      show "?slope = regression_slope ?ys" if "rounds_nothing F ?ys" by (rule 3[OF that])
      show "\<exists>label. detect_trend F d metric_name points = Inr label \<and>
            (label = ''increasing'' \<longleftrightarrow> ?slope > float_0_1) \<and>
            (label = ''decreasing'' \<longleftrightarrow> ?slope < - float_0_1) \<and>
            (label = ''stable'' \<longleftrightarrow> \<not> ?slope > float_0_1 \<and> \<not> ?slope < - float_0_1)"
        unfolding 2 by (intro exI[of _ "classify_slope ?slope"] conjI refl classify_slope_iff)
    qed
  qed
  show "detect_trend F d metric_name 10 = Inr ''increasing''"
    if h: "data_history d metric_name = Some [1, 2, 3, 4, 5, 6, 7, 8, 9, 10] \<and>
           rounds_nothing F [1, 2, 3, 4, 5, 6, 7, 8, 9, 10]"
  proof -
    let ?ys = "[1, 2, 3, 4, 5, 6, 7, 8, 9, 10] :: real list"
    have r: "rounds_nothing F ?ys" using h by simp
    have "float_div F (slope_numerator F ?ys) (real_of_int (slope_denominator ?ys)) = 1"
      unfolding rounds_nothing_slope(1)[OF r] rounds_nothing_slope(2)[OF r] by (simp add: upto10)
    then show ?thesis using h float_0_1_pos(2)
      by (simp add: detect_trend_def py_last_def float_truediv_def upto10(2) classify_slope_def)
  qed
  show "detect_trend F d metric_name points = Inr ''stable''"
    if h: "data_history d metric_name = Some (replicate k c) \<and> points \<le> int k \<and>
           rounds_nothing F (replicate (nat points) c)" for k c
  proof -
    let ?ys = "replicate (nat points) c"
    have "nat points \<le> k" using h by linarith
    then have ys: "py_last (replicate k c) points = ?ys"
      using h assms by (simp add: py_last_drop)
    have two: "2 \<le> length ?ys" using assms by simp
    have pos: "0 < slope_denominator ?ys" by (rule slope_denominator_pos[OF two])
    have r: "rounds_nothing F ?ys" using h by simp
    have "float_div F (slope_numerator F ?ys) (real_of_int (slope_denominator ?ys)) = 0"
      unfolding rounds_nothing_slope(1)[OF r] rounds_nothing_slope(2)[OF r]
      by (simp add: exact_numerator_const)
    then show ?thesis using h pos float_0_1_pos(1)
      by (simp add: detect_trend_def ys float_truediv_def classify_slope_def)
  qed
qed

theorem detect_trend_classification_witness:
  "detect_trend sample_text AnomalyDetector_init ''cpu_percent'' 10 = Inr ''insufficient_data'' \<and>
   detect_trend sample_text (AnomalyDetector_init\<lparr>data_history := [''cpu_percent'' \<mapsto> [1, 2, 3]]\<rparr>)
       ''cpu_percent'' 10 = Inr ''insufficient_data'' \<and>
   detect_trend sample_text
       (AnomalyDetector_init\<lparr>data_history := [''cpu_percent'' \<mapsto> [1, 2, 3, 4, 5, 6, 7, 8, 9, 10]]\<rparr>)
       ''cpu_percent'' 10 = Inr ''increasing'' \<and>
   detect_trend sample_text (AnomalyDetector_init\<lparr>data_history := [''cpu_percent'' \<mapsto> replicate 12 42]\<rparr>)
       ''cpu_percent'' 10 = Inr ''stable'' \<and>
   (\<exists>slope. float_truediv sample_text (slope_numerator sample_text [1, 2, 3, 4, 5, 6, 7, 8, 9, 10])
                               (slope_denominator [1, 2, 3, 4, 5, 6, 7, 8, 9, 10]) = Inr slope \<and>
            slope = regression_slope [1, 2, 3, 4, 5, 6, 7, 8, 9, 10] \<and> slope > float_0_1)"
proof -
  let ?d1 = "AnomalyDetector_init\<lparr>data_history := [''cpu_percent'' \<mapsto> [1, 2, 3]]\<rparr>"
  let ?d2 = "AnomalyDetector_init\<lparr>data_history := [''cpu_percent'' \<mapsto> [1, 2, 3, 4, 5, 6, 7, 8, 9, 10]]\<rparr>"
  let ?d3 = "AnomalyDetector_init\<lparr>data_history := [''cpu_percent'' \<mapsto> replicate 12 42]\<rparr>"
  have p: "(2::int) \<le> 10" by simp
  note T = detect_trend_classification[OF p, where F = sample_text]
  have a: "data_history AnomalyDetector_init ''cpu_percent'' = None"
    by (simp add: AnomalyDetector_init_def)
  have b: "data_history ?d1 ''cpu_percent'' = Some [1, 2, 3] \<and> int (length [1, 2, 3 :: real]) < 10"
    by simp
  have c: "data_history ?d2 ''cpu_percent'' = Some [1, 2, 3, 4, 5, 6, 7, 8, 9, 10] \<and>
           rounds_nothing sample_text [1, 2, 3, 4, 5, 6, 7, 8, 9, 10]"
    by (simp add: sample_rounds_nothing(1))
  have e: "data_history ?d3 ''cpu_percent'' = Some (replicate 12 42) \<and> (10::int) \<le> int 12 \<and>
           rounds_nothing sample_text (replicate (nat 10) 42)"
    by (simp add: sample_rounds_nothing(2))
  have 1: "detect_trend sample_text AnomalyDetector_init ''cpu_percent'' 10 = Inr ''insufficient_data''"
    by (rule T[THEN conjunct1, rule_format, OF a])
  have 2: "detect_trend sample_text ?d1 ''cpu_percent'' 10 = Inr ''insufficient_data''"
    by (rule T[THEN conjunct2, THEN conjunct1, rule_format, OF b])
  have 3: "detect_trend sample_text ?d2 ''cpu_percent'' 10 = Inr ''increasing''"
    by (rule T[THEN conjunct2, THEN conjunct2, THEN conjunct2, THEN conjunct1, rule_format, OF c])
  have 4: "detect_trend sample_text ?d3 ''cpu_percent'' 10 = Inr ''stable''"
    by (rule T[THEN conjunct2, THEN conjunct2, THEN conjunct2, THEN conjunct2, rule_format, OF e])
  let ?l = "[1, 2, 3, 4, 5, 6, 7, 8, 9, 10] :: real list"
  have g: "data_history ?d2 ''cpu_percent'' = Some ?l \<and> (10::int) \<le> int (length ?l)"
    by simp
  have dr: "drop (length ?l - nat 10) ?l = ?l" by simp
  note G = T[THEN conjunct2, THEN conjunct2, THEN conjunct1, rule_format, OF g, unfolded dr]
  from G obtain slope where s0:
      "float_truediv sample_text (slope_numerator sample_text ?l) (slope_denominator ?l) = Inr slope \<and>
       (rounds_nothing sample_text ?l \<longrightarrow> slope = regression_slope ?l) \<and>
       (\<exists>label. detect_trend sample_text ?d2 ''cpu_percent'' 10 = Inr label \<and>
            (label = ''increasing'' \<longleftrightarrow> slope > float_0_1) \<and>
            (label = ''decreasing'' \<longleftrightarrow> slope < - float_0_1) \<and>
            (label = ''stable'' \<longleftrightarrow> \<not> slope > float_0_1 \<and> \<not> slope < - float_0_1))"
    by (rule exE)
  note s = s0[THEN conjunct1] s0[THEN conjunct2, THEN conjunct1] s0[THEN conjunct2, THEN conjunct2]
  have s2: "slope = regression_slope ?l" using s(2) sample_rounds_nothing(1) by (rule mp)
  from s(3) obtain label where l0: "detect_trend sample_text ?d2 ''cpu_percent'' 10 = Inr label \<and>
            (label = ''increasing'' \<longleftrightarrow> slope > float_0_1) \<and>
            (label = ''decreasing'' \<longleftrightarrow> slope < - float_0_1) \<and>
            (label = ''stable'' \<longleftrightarrow> \<not> slope > float_0_1 \<and> \<not> slope < - float_0_1)"
    by (rule exE)
  note lb = l0[THEN conjunct1] l0[THEN conjunct2, THEN conjunct1]
  have "label = ''increasing''" using lb(1) unfolding 3 by simp
  then have s3: "slope > float_0_1" using lb(2) by (rule rev_iffD1)
  have 5: "\<exists>slope. float_truediv sample_text (slope_numerator sample_text ?l) (slope_denominator ?l) = Inr slope \<and>
            slope = regression_slope ?l \<and> slope > float_0_1"
    using s(1) s2 s3 by (intro exI[of _ slope] conjI)
  from 1 2 3 4 5 show ?thesis by (intro conjI)
qed

subsection \<open>The slope line in double arithmetic\<close>

text \<open>On the doubles \<open>0.0, 0.1, ..., 0.9\<close> over lookback 10 the slope line, evaluated in
  the sample arithmetic, returns the double \<open>0.1\<close>, which does not exceed the literal
  \<open>0.1\<close>: the label is \<open>stable\<close>.\<close>

lemma tenths_doubles:
  "round_double (3602879701896397 / 36028797018963968) = 3602879701896397 / 36028797018963968"
  "round_double (10808639105689191 / 36028797018963968) = 1351079888211149 / 4503599627370496"
  "round_double (10808639105689191 / 18014398509481984) = 1351079888211149 / 2251799813685248"
  "round_double (9007199254740993 / 9007199254740992) = 1"
  "round_double (3 / 2) = 3 / 2"
  "round_double (18915118434956083 / 9007199254740992) = 4728779608739021 / 2251799813685248"
  "round_double (12610078956637389 / 4503599627370496) = 3152519739159347 / 1125899906842624"
  "round_double (16212958658533785 / 4503599627370496) = 2026619832316723 / 562949953421312"
  "round_double (40532396646334461 / 9007199254740992) = 9 / 2"
  "round_double (3602879701896397 / 9007199254740992) = 3602879701896397 / 9007199254740992"
  "round_double (16212958658533785 / 18014398509481984) = 2026619832316723 / 2251799813685248"
  "round_double (3602879701896397 / 2251799813685248) = 3602879701896397 / 2251799813685248"
  "round_double (5 / 2) = 5 / 2"
  "round_double (22067638174115429 / 4503599627370496) = 5516909543528857 / 1125899906842624"
  "round_double (3602879701896397 / 562949953421312) = 3602879701896397 / 562949953421312"
  "round_double (72958313963402037 / 9007199254740992) = 4559894622712627 / 562949953421312"
  "round_double (18014398509481985 / 36028797018963968) = 1 / 2"
  "round_double (3152519739159347 / 2251799813685248) = 3152519739159347 / 2251799813685248"
  "round_double (11 / 2) = 11 / 2"
  "round_double (5122844576133939 / 562949953421312) = 5122844576133939 / 562949953421312"
  "round_double (15762598695796735 / 1125899906842624) = 14"
  "round_double (11484179049794765 / 562949953421312) = 2871044762448691 / 140737488355328"
  "round_double (16044073672507391 / 562949953421312) = 57 / 2"
  "round_double (405 / 2) = 405 / 2"
  "round_double (165 / 2) = 165 / 2"
  "round_double (1 / 10) = 3602879701896397 / 36028797018963968"
proof -
  show "round_double (3602879701896397 / 36028797018963968) = 3602879701896397 / 36028797018963968"
    by (simp add: round_double_eval[where k = 56] round_half_even_def Let_def)
  have "round_half_even (10808639105689191 / 2) = 5404319552844596"
    by (simp add: round_half_even_def Let_def)
  then show "round_double (10808639105689191 / 36028797018963968) = 1351079888211149 / 4503599627370496"
    by (simp add: round_double_eval[where k = 54])
  have "round_half_even (10808639105689191 / 2) = 5404319552844596"
    by (simp add: round_half_even_def Let_def)
  then show "round_double (10808639105689191 / 18014398509481984) = 1351079888211149 / 2251799813685248"
    by (simp add: round_double_eval[where k = 53])
  have "round_half_even (9007199254740993 / 2) = 4503599627370496"
    by (simp add: round_half_even_def Let_def)
  then show "round_double (9007199254740993 / 9007199254740992) = 1"
    by (simp add: round_double_eval[where k = 52])
  show "round_double (3 / 2) = 3 / 2"
    by (simp add: round_double_eval[where k = 52] round_half_even_def Let_def)
  have "round_half_even (18915118434956083 / 4) = 4728779608739021"
    by (simp add: round_half_even_def Let_def)
  then show "round_double (18915118434956083 / 9007199254740992) = 4728779608739021 / 2251799813685248"
    by (simp add: round_double_eval[where k = 51])
  have "round_half_even (12610078956637389 / 2) = 6305039478318694"
    by (simp add: round_half_even_def Let_def)
  then show "round_double (12610078956637389 / 4503599627370496) = 3152519739159347 / 1125899906842624"
    by (simp add: round_double_eval[where k = 51])
  have "round_half_even (16212958658533785 / 2) = 8106479329266892"
    by (simp add: round_half_even_def Let_def)
  then show "round_double (16212958658533785 / 4503599627370496) = 2026619832316723 / 562949953421312"
    by (simp add: round_double_eval[where k = 51])
  have "round_half_even (40532396646334461 / 8) = 5066549580791808"
    by (simp add: round_half_even_def Let_def)
  then show "round_double (40532396646334461 / 9007199254740992) = 9 / 2"
    by (simp add: round_double_eval[where k = 50])
  show "round_double (3602879701896397 / 9007199254740992) = 3602879701896397 / 9007199254740992"
    by (simp add: round_double_eval[where k = 54] round_half_even_def Let_def)
  have "round_half_even (16212958658533785 / 2) = 8106479329266892"
    by (simp add: round_half_even_def Let_def)
  then show "round_double (16212958658533785 / 18014398509481984) = 2026619832316723 / 2251799813685248"
    by (simp add: round_double_eval[where k = 53])
  show "round_double (3602879701896397 / 2251799813685248) = 3602879701896397 / 2251799813685248"
    by (simp add: round_double_eval[where k = 52] round_half_even_def Let_def)
  show "round_double (5 / 2) = 5 / 2"
    by (simp add: round_double_eval[where k = 51] round_half_even_def Let_def)
  have "round_half_even (22067638174115429 / 4) = 5516909543528857"
    by (simp add: round_half_even_def Let_def)
  then show "round_double (22067638174115429 / 4503599627370496) = 5516909543528857 / 1125899906842624"
    by (simp add: round_double_eval[where k = 50])
  show "round_double (3602879701896397 / 562949953421312) = 3602879701896397 / 562949953421312"
    by (simp add: round_double_eval[where k = 50] round_half_even_def Let_def)
  have "round_half_even (72958313963402037 / 16) = 4559894622712627"
    by (simp add: round_half_even_def Let_def)
  then show "round_double (72958313963402037 / 9007199254740992) = 4559894622712627 / 562949953421312"
    by (simp add: round_double_eval[where k = 49])
  have "round_half_even (18014398509481985 / 4) = 4503599627370496"
    by (simp add: round_half_even_def Let_def)
  then show "round_double (18014398509481985 / 36028797018963968) = 1 / 2"
    by (simp add: round_double_eval[where k = 53])
  show "round_double (3152519739159347 / 2251799813685248) = 3152519739159347 / 2251799813685248"
    by (simp add: round_double_eval[where k = 52] round_half_even_def Let_def)
  show "round_double (11 / 2) = 11 / 2"
    by (simp add: round_double_eval[where k = 50] round_half_even_def Let_def)
  show "round_double (5122844576133939 / 562949953421312) = 5122844576133939 / 562949953421312"
    by (simp add: round_double_eval[where k = 49] round_half_even_def Let_def)
  have "round_half_even (15762598695796735 / 2) = 7881299347898368"
    by (simp add: round_half_even_def Let_def)
  then show "round_double (15762598695796735 / 1125899906842624) = 14"
    by (simp add: round_double_eval[where k = 49])
  have "round_half_even (11484179049794765 / 2) = 5742089524897382"
    by (simp add: round_half_even_def Let_def)
  then show "round_double (11484179049794765 / 562949953421312) = 2871044762448691 / 140737488355328"
    by (simp add: round_double_eval[where k = 48])
  have "round_half_even (16044073672507391 / 2) = 8022036836253696"
    by (simp add: round_half_even_def Let_def)
  then show "round_double (16044073672507391 / 562949953421312) = 57 / 2"
    by (simp add: round_double_eval[where k = 48])
  show "round_double (405 / 2) = 405 / 2"
    by (simp add: round_double_eval[where k = 45] round_half_even_def Let_def)
  show "round_double (165 / 2) = 165 / 2"
    by (simp add: round_double_eval[where k = 46] round_half_even_def Let_def)
  have "round_half_even (36028797018963968 / 5) = 7205759403792794"
    by (simp add: round_half_even_def Let_def)
  then show "round_double (1 / 10) = 3602879701896397 / 36028797018963968"
    by (simp add: round_double_eval[where k = 56])
qed

lemma tenths_slope:
  "slope_numerator sample_text [0, 3602879701896397 / 36028797018963968, 3602879701896397 / 18014398509481984, 5404319552844595 / 18014398509481984, 3602879701896397 / 9007199254740992, 1 / 2, 5404319552844595 / 9007199254740992, 3152519739159347 / 4503599627370496, 3602879701896397 / 4503599627370496, 8106479329266893 / 9007199254740992] = 165 / 2"
  "slope_denominator [0, 3602879701896397 / 36028797018963968, 3602879701896397 / 18014398509481984, 5404319552844595 / 18014398509481984, 3602879701896397 / 9007199254740992, 1 / 2, 5404319552844595 / 9007199254740992, 3152519739159347 / 4503599627370496, 3602879701896397 / 4503599627370496, 8106479329266893 / 9007199254740992] = 825"
  "float_div sample_text (165 / 2) (real_of_int 825) = 3602879701896397 / 36028797018963968"
proof -
  show "slope_numerator sample_text [0, 3602879701896397 / 36028797018963968, 3602879701896397 / 18014398509481984, 5404319552844595 / 18014398509481984, 3602879701896397 / 9007199254740992, 1 / 2, 5404319552844595 / 9007199254740992, 3152519739159347 / 4503599627370496, 3602879701896397 / 4503599627370496, 8106479329266893 / 9007199254740992] = 165 / 2"
    by (simp add: slope_numerator_def py_sum_def sample_text_def Let_def
          upt_rec[of _ "numeral _"] upt_rec[of 0] round_double_int tenths_doubles)
  show "slope_denominator [0, 3602879701896397 / 36028797018963968, 3602879701896397 / 18014398509481984, 5404319552844595 / 18014398509481984, 3602879701896397 / 9007199254740992, 1 / 2, 5404319552844595 / 9007199254740992, 3152519739159347 / 4503599627370496, 3602879701896397 / 4503599627370496, 8106479329266893 / 9007199254740992] = 825"
    by (simp add: slope_denominator_def Let_def upt_rec[of _ "numeral _"] upt_rec[of 0])
  show "float_div sample_text (165 / 2) (real_of_int 825) = 3602879701896397 / 36028797018963968"
    by (simp add: sample_text_def tenths_doubles)
qed

lemma tenths_stable:
  "detect_trend sample_text
     (AnomalyDetector_init\<lparr>data_history := [''cpu_percent'' \<mapsto>
        [0, 3602879701896397 / 36028797018963968, 3602879701896397 / 18014398509481984, 5404319552844595 / 18014398509481984, 3602879701896397 / 9007199254740992, 1 / 2, 5404319552844595 / 9007199254740992, 3152519739159347 / 4503599627370496, 3602879701896397 / 4503599627370496, 8106479329266893 / 9007199254740992]]\<rparr>)
     ''cpu_percent'' 10 = Inr ''stable''"
proof -
  let ?ys = "[0, 3602879701896397 / 36028797018963968, 3602879701896397 / 18014398509481984, 5404319552844595 / 18014398509481984, 3602879701896397 / 9007199254740992, 1 / 2, 5404319552844595 / 9007199254740992, 3152519739159347 / 4503599627370496, 3602879701896397 / 4503599627370496, 8106479329266893 / 9007199254740992] :: real list"
  have pl: "py_last ?ys 10 = ?ys" by (simp add: py_last_def)
  have "detect_trend sample_text
     (AnomalyDetector_init\<lparr>data_history := [''cpu_percent'' \<mapsto> ?ys]\<rparr>) ''cpu_percent'' 10
          = Inr (classify_slope (float_div sample_text (slope_numerator sample_text (py_last ?ys 10))
                                   (real_of_int (slope_denominator (py_last ?ys 10)))))"
    by (intro detect_trend_ge2) simp_all
  then show ?thesis
    unfolding pl tenths_slope by (simp add: classify_slope_def float_0_1_def)
qed

text \<open>Rounding can decide the label.  On the doubles \<open>0.9, 1.0\<close> over lookback 2 the
  sum \<open>0.9 + 1.0\<close> rounds to the double \<open>1.9\<close>, the computed slope is \<open>2.0 - 1.9\<close>, above
  the double \<open>0.1\<close>, and the label is \<open>increasing\<close>, whereas the least-squares slope of the
  two points, \<open>1.0 - 0.9\<close> on the reals, is below the double \<open>0.1\<close>.\<close>

lemma near_one_doubles:
  "round_double (8106479329266893 / 9007199254740992) = 8106479329266893 / 9007199254740992"
  "round_double (17113678584007885 / 9007199254740992) = 4278419646001971 / 2251799813685248"
  "round_double (4278419646001971 / 2251799813685248) = 4278419646001971 / 2251799813685248"
  "round_double (225179981368525 / 2251799813685248) = 225179981368525 / 2251799813685248"
proof -
  show "round_double (8106479329266893 / 9007199254740992) = 8106479329266893 / 9007199254740992"
    by (simp add: round_double_eval[where k = 53] round_half_even_def Let_def)
  have "round_half_even (17113678584007885 / 2) = 8556839292003942"
    by (simp add: round_half_even_def Let_def)
  then show "round_double (17113678584007885 / 9007199254740992) = 4278419646001971 / 2251799813685248"
    by (simp add: round_double_eval[where k = 52])
  show "round_double (4278419646001971 / 2251799813685248) = 4278419646001971 / 2251799813685248"
    by (simp add: round_double_eval[where k = 52] round_half_even_def Let_def)
  show "round_double (225179981368525 / 2251799813685248) = 225179981368525 / 2251799813685248"
    by (simp add: round_double_eval[where k = 56] round_half_even_def Let_def)
qed

lemma rounding_changes_label:
  "detect_trend sample_text
     (AnomalyDetector_init\<lparr>data_history := [''cpu_percent'' \<mapsto> [8106479329266893 / 9007199254740992, 1]]\<rparr>)
     ''cpu_percent'' 2 = Inr ''increasing''"
  "classify_slope (regression_slope [8106479329266893 / 9007199254740992, 1]) = ''stable''"
proof -
  let ?ys = "[8106479329266893 / 9007199254740992, 1 :: real]"
  have den: "slope_denominator ?ys = 1"
    by (simp add: slope_denominator_def Let_def upt_rec[of _ "numeral _"] upt_rec[of 0])
  have num: "slope_numerator sample_text ?ys = 225179981368525 / 2251799813685248"
    by (simp add: slope_numerator_def py_sum_def sample_text_def Let_def
          upt_rec[of _ "numeral _"] upt_rec[of 0] round_double_int near_one_doubles)
  have pl: "py_last ?ys 2 = ?ys" by (simp add: py_last_def)
  have fd: "float_div sample_text (225179981368525 / 2251799813685248) (real_of_int 1)
              = 225179981368525 / 2251799813685248"
    by (simp add: sample_text_def near_one_doubles)
  have "detect_trend sample_text
     (AnomalyDetector_init\<lparr>data_history := [''cpu_percent'' \<mapsto> ?ys]\<rparr>) ''cpu_percent'' 2
          = Inr (classify_slope (float_div sample_text (slope_numerator sample_text (py_last ?ys 2))
                                   (real_of_int (slope_denominator (py_last ?ys 2)))))"
    by (intro detect_trend_ge2) simp_all
  then show "detect_trend sample_text
     (AnomalyDetector_init\<lparr>data_history := [''cpu_percent'' \<mapsto> ?ys]\<rparr>) ''cpu_percent'' 2 = Inr ''increasing''"
    unfolding pl num den fd by (simp add: classify_slope_def float_0_1_def)
  have "exact_numerator ?ys = 900719925474099 / 9007199254740992"
    by (simp add: exact_numerator_def Let_def upt_rec[of _ "numeral _"] upt_rec[of 0])
  then have "regression_slope ?ys = 900719925474099 / 9007199254740992"
    using regression_slope_eq[of ?ys] den by simp
  then show "classify_slope (regression_slope ?ys) = ''stable''"
    by (simp add: classify_slope_def float_0_1_def)
qed

text \<open>A constant window need not be labelled \<open>stable\<close>: on five points equal to
  \<open>2 ^ 52 + 1\<close> the sums and products round, the numerator of the slope line is 32
  instead of 0, and the label is \<open>increasing\<close>.\<close>

lemma constant_doubles:
  "round_double (9007199254740994) = 9007199254740994"
  "round_double (13510798882111491) = 13510798882111492"
  "round_double (18014398509481989) = 18014398509481988"
  "round_double (22517998136852485) = 22517998136852484"
  "round_double (18014398509481988) = 18014398509481988"
  "round_double (27021597764222984) = 27021597764222984"
  "round_double (45035996273704972) = 45035996273704976"
  "round_double (225179981368524880) = 225179981368524864"
  "round_double (225179981368524840) = 225179981368524832"
  "round_double (16 / 25) = 5764607523034235 / 9007199254740992"
proof -
  show "round_double (9007199254740994) = 9007199254740994"
    by (simp add: round_double_eval_big[where j = 1] round_half_even_def Let_def)
  have "round_half_even (13510798882111491 / 2) = 6755399441055746"
    by (simp add: round_half_even_def Let_def)
  then show "round_double (13510798882111491) = 13510798882111492"
    by (simp add: round_double_eval_big[where j = 1])
  have "round_half_even (18014398509481989 / 4) = 4503599627370497"
    by (simp add: round_half_even_def Let_def)
  then show "round_double (18014398509481989) = 18014398509481988"
    by (simp add: round_double_eval_big[where j = 2])
  have "round_half_even (22517998136852485 / 4) = 5629499534213121"
    by (simp add: round_half_even_def Let_def)
  then show "round_double (22517998136852485) = 22517998136852484"
    by (simp add: round_double_eval_big[where j = 2])
  show "round_double (18014398509481988) = 18014398509481988"
    by (simp add: round_double_eval_big[where j = 2] round_half_even_def Let_def)
  show "round_double (27021597764222984) = 27021597764222984"
    by (simp add: round_double_eval_big[where j = 2] round_half_even_def Let_def)
  have "round_half_even (11258999068426243 / 2) = 5629499534213122"
    by (simp add: round_half_even_def Let_def)
  then show "round_double (45035996273704972) = 45035996273704976"
    by (simp add: round_double_eval_big[where j = 3])
  have "round_half_even (14073748835532805 / 2) = 7036874417766402"
    by (simp add: round_half_even_def Let_def)
  then show "round_double (225179981368524880) = 225179981368524864"
    by (simp add: round_double_eval_big[where j = 5])
  have "round_half_even (28147497671065605 / 4) = 7036874417766401"
    by (simp add: round_half_even_def Let_def)
  then show "round_double (225179981368524840) = 225179981368524832"
    by (simp add: round_double_eval_big[where j = 5])
  have "round_half_even (144115188075855872 / 25) = 5764607523034235"
    by (simp add: round_half_even_def Let_def)
  then show "round_double (16 / 25) = 5764607523034235 / 9007199254740992"
    by (simp add: round_double_eval[where k = 53])
qed

lemma constant_not_stable:
  "detect_trend sample_text
     (AnomalyDetector_init\<lparr>data_history := [''cpu_percent'' \<mapsto> replicate 5 4503599627370497]\<rparr>)
     ''cpu_percent'' 5 = Inr ''increasing''"
proof -
  let ?ys = "[4503599627370497, 4503599627370497, 4503599627370497, 4503599627370497, 4503599627370497] :: real list"
  have e: "replicate 5 4503599627370497 = ?ys" by (simp add: eval_nat_numeral)
  have pl: "py_last ?ys 5 = ?ys" by (simp add: py_last_def)
  have num: "slope_numerator sample_text ?ys = 32"
    by (simp add: slope_numerator_def py_sum_def sample_text_def Let_def
          upt_rec[of _ "numeral _"] upt_rec[of 0] round_double_int constant_doubles)
  have den: "slope_denominator ?ys = 50"
    by (simp add: slope_denominator_def Let_def upt_rec[of _ "numeral _"] upt_rec[of 0])
  have fd: "float_div sample_text (32) (real_of_int 50) = 5764607523034235 / 9007199254740992"
    by (simp add: sample_text_def constant_doubles)
  have "detect_trend sample_text
     (AnomalyDetector_init\<lparr>data_history := [''cpu_percent'' \<mapsto> ?ys]\<rparr>) ''cpu_percent'' 5
          = Inr (classify_slope (float_div sample_text (slope_numerator sample_text (py_last ?ys 5))
                                   (real_of_int (slope_denominator (py_last ?ys 5)))))"
    by (intro detect_trend_ge2) simp_all
  then show ?thesis
    unfolding e pl num den fd by (simp add: classify_slope_def float_0_1_def)
qed

text \<open>
  C10. For a metric with at least \<open>n\<close> recorded points and \<open>n \<ge> 2\<close>, the regression
  denominator \<open>n \<cdot> \<Sum>x\<^sup>2 - (\<Sum>x)\<^sup>2\<close> over the indices \<open>0..n-1\<close> is strictly positive, the
  slope division is defined and \<open>detect_trend\<close> returns one of the three labels.  For
  \<open>n = 1\<close> and at least one recorded point the denominator is 0 and the slope division
  raises \<open>ZeroDivisionError\<close>.
\<close>

theorem detect_trend_denominator:
  "(\<forall>h. data_history d metric_name = Some h \<and> 2 \<le> points \<and> points \<le> int (length h) \<longrightarrow>
      slope_denominator (py_last h points)
        = points * (\<Sum>i<nat points. int i * int i) - (\<Sum>i<nat points. int i) * (\<Sum>i<nat points. int i) \<and>
      0 < slope_denominator (py_last h points) \<and>
      (\<exists>slope. float_truediv F (slope_numerator F (py_last h points))
                             (slope_denominator (py_last h points)) = Inr slope) \<and>
      detect_trend F d metric_name points \<in> {Inr ''increasing'', Inr ''decreasing'', Inr ''stable''}) \<and>
   (\<forall>h. data_history d metric_name = Some h \<and> 1 \<le> length h \<longrightarrow>
      slope_denominator (py_last h 1) = 0 \<and>
      float_truediv F (slope_numerator F (py_last h 1)) (slope_denominator (py_last h 1))
        = Inl ZeroDivisionError \<and>
      detect_trend F d metric_name 1 = Inl ZeroDivisionError)"
proof (intro conjI allI impI)
  fix h
  assume h: "data_history d metric_name = Some h \<and> 2 \<le> points \<and> points \<le> int (length h)"
  then have len: "length (py_last h points) = nat points" by (simp add: length_py_last)
  then have two: "2 \<le> length (py_last h points)" using h by linarith
  show "slope_denominator (py_last h points)
        = points * (\<Sum>i<nat points. int i * int i) - (\<Sum>i<nat points. int i) * (\<Sum>i<nat points. int i)"
    using h by (simp add: slope_denominator_sum len)
  show pos: "0 < slope_denominator (py_last h points)"
    by (rule slope_denominator_pos[OF two])
  show "\<exists>slope. float_truediv F (slope_numerator F (py_last h points))
                             (slope_denominator (py_last h points)) = Inr slope"
    using pos by (simp add: float_truediv_def)
  show "detect_trend F d metric_name points \<in> {Inr ''increasing'', Inr ''decreasing'', Inr ''stable''}"
    using detect_trend_ge2[of d metric_name h points F] h by (simp add: classify_slope_def)
next
  fix h
  assume h: "data_history d metric_name = Some h \<and> 1 \<le> length h"
  then have len: "length (py_last h 1) = 1" using length_py_last[of 1 h] by simp
  show z: "slope_denominator (py_last h 1) = 0" by (rule slope_denominator_one[OF len])
  show "float_truediv F (slope_numerator F (py_last h 1)) (slope_denominator (py_last h 1))
        = Inl ZeroDivisionError"
    using z by (simp add: float_truediv_def)
  show "detect_trend F d metric_name 1 = Inl ZeroDivisionError"
    using h by (intro detect_trend_one[of d metric_name h]) simp_all
qed

theorem detect_trend_denominator_witness:
  "0 < slope_denominator (py_last [3, 1, 4, 1, 5] 3) \<and>
   detect_trend sample_text
       (AnomalyDetector_init\<lparr>data_history := [''error_rate'' \<mapsto> [3, 1, 4, 1, 5]]\<rparr>) ''error_rate'' 3
     \<in> {Inr ''increasing'', Inr ''decreasing'', Inr ''stable''} \<and>
   slope_denominator (py_last [3, 1, 4, 1, 5] 1) = 0 \<and>
   detect_trend sample_text
       (AnomalyDetector_init\<lparr>data_history := [''error_rate'' \<mapsto> [3, 1, 4, 1, 5]]\<rparr>) ''error_rate'' 1
     = Inl ZeroDivisionError"
proof -
  let ?d = "AnomalyDetector_init\<lparr>data_history := [''error_rate'' \<mapsto> [3, 1, 4, 1, 5]]\<rparr>"
  have a: "data_history ?d ''error_rate'' = Some [3, 1, 4, 1, 5] \<and> (2::int) \<le> 3
             \<and> (3::int) \<le> int (length [3, 1, 4, 1, 5 :: real])"
    by simp
  have b: "data_history ?d ''error_rate'' = Some [3, 1, 4, 1, 5] \<and> 1 \<le> length [3, 1, 4, 1, 5 :: real]"
    by simp
  note T = detect_trend_denominator[where d = ?d and metric_name = "''error_rate''" and points = 3
               and F = sample_text]
  note A = T[THEN conjunct1, rule_format, OF a]
  note B = T[THEN conjunct2, rule_format, OF b]
  from A[THEN conjunct2, THEN conjunct1] A[THEN conjunct2, THEN conjunct2, THEN conjunct2]
       B[THEN conjunct1] B[THEN conjunct2, THEN conjunct2]
  show ?thesis by (intro conjI)
qed

section \<open>Properties of threshold alerts\<close>

lemma fresh_alert_active:
  "is_active_for c name \<lparr>timestamp = n, severity = s, category = c,
       message = threshold_message F name v t, alert_value = v, alert_threshold = t,
       duration_minutes = 0, resolved = False, resolution_time = None\<rparr>"
  by (simp add: is_active_for_def threshold_message_def)

lemma check_breach_open:
  assumes "v > t" "filter (is_active_for c name) (alert_history m) = []"
  shows "alert_history (check_threshold_alert F now m name v t c) =
           alert_history m @ [\<lparr>timestamp = now, severity = breach_severity F v t, category = c,
             message = threshold_message F name v t, alert_value = v, alert_threshold = t,
             duration_minutes = 0, resolved = False, resolution_time = None\<rparr>]"
  using assms by (simp add: check_threshold_alert_def send_alert_def Let_def)

lemma check_breach_dedup:
  assumes "v > t" "filter (is_active_for c name) (alert_history m) \<noteq> []"
  shows "check_threshold_alert F now m name v t c = m"
  using assms by (simp add: check_threshold_alert_def Let_def)

lemma check_in_range:
  assumes "\<not> v > t"
  shows "alert_history (check_threshold_alert F now m name v t c) =
           map (\<lambda>alert. if is_active_for c name alert
                         then alert\<lparr>resolved := True, resolution_time := Some now\<rparr> else alert)
               (alert_history m)"
    and "sent_alerts (check_threshold_alert F now m name v t c) = sent_alerts m"
  using assms by (simp_all add: check_threshold_alert_def)

text \<open>
  C3. A sample \<open>v \<le> t\<close> opens no alert: the log keeps its length and nothing is sent.  A
  sample \<open>v > t\<close> is classified \<open>CRITICAL\<close> exactly when \<open>v > t * 1.2\<close> and \<open>WARNING\<close>
  otherwise, the product being the float that \<open>threshold * 1.2\<close> evaluates to, and that is
  the severity of the alert opened when no matching alert is active; a value equal to
  \<open>t * 1.2\<close> is \<open>WARNING\<close>.
\<close>

theorem check_threshold_alert_severity:
  "(v \<le> t \<longrightarrow>
      length (alert_history (check_threshold_alert F now m metric_name v t c)) = length (alert_history m) \<and>
      sent_alerts (check_threshold_alert F now m metric_name v t c) = sent_alerts m) \<and>
   (v > t \<longrightarrow>
      (breach_severity F v t = ''CRITICAL'' \<longleftrightarrow> v > float_mul F t float_1_2) \<and>
      (breach_severity F v t = ''WARNING'' \<longleftrightarrow> \<not> v > float_mul F t float_1_2) \<and>
      (filter (is_active_for c metric_name) (alert_history m) = [] \<longrightarrow>
         (\<exists>a. alert_history (check_threshold_alert F now m metric_name v t c) = alert_history m @ [a] \<and>
              sent_alerts (check_threshold_alert F now m metric_name v t c) = sent_alerts m @ [a] \<and>
              severity a = breach_severity F v t \<and> \<not> resolved a))) \<and>
   (v = float_mul F t float_1_2 \<longrightarrow> breach_severity F v t = ''WARNING'')"
proof (intro conjI impI)
  assume "v \<le> t"
  then have nb: "\<not> v > t" by simp
  show "length (alert_history (check_threshold_alert F now m metric_name v t c)) = length (alert_history m)"
    by (simp add: check_in_range(1)[OF nb])
  show "sent_alerts (check_threshold_alert F now m metric_name v t c) = sent_alerts m"
    by (rule check_in_range(2)[OF nb])
next
  show "breach_severity F v t = ''CRITICAL'' \<longleftrightarrow> v > float_mul F t float_1_2"
    by (simp add: breach_severity_def)
  show "breach_severity F v t = ''WARNING'' \<longleftrightarrow> \<not> v > float_mul F t float_1_2"
    by (simp add: breach_severity_def)
  show "breach_severity F v t = ''WARNING''" if "v = float_mul F t float_1_2"
    using that by (simp add: breach_severity_def)
next
  assume "v > t" "filter (is_active_for c metric_name) (alert_history m) = []"
  then show "\<exists>a. alert_history (check_threshold_alert F now m metric_name v t c) = alert_history m @ [a] \<and>
              sent_alerts (check_threshold_alert F now m metric_name v t c) = sent_alerts m @ [a] \<and>
              severity a = breach_severity F v t \<and> \<not> resolved a"
    by (simp add: check_threshold_alert_def send_alert_def Let_def)
qed

text \<open>
  C2. From a log with no unresolved alert matching \<open>(c, m)\<close>, the three consecutive
  breach samples \<open>t + 1\<close> append exactly one alert, opened by the first of them and left
  alone by the other two; a following sample \<open>v \<le> t\<close> changes the log only in that
  alert, which becomes resolved with its resolution time set.
\<close>

theorem breach_sequence_one_alert:
  assumes "filter (is_active_for c metric_name) (alert_history m) = []"
      and "v \<le> t"
  shows "\<exists>a. \<not> resolved a \<and> resolution_time a = None \<and>
           alert_history (check_threshold_alert F n1 m metric_name (t + 1) t c) = alert_history m @ [a] \<and>
           alert_history (check_threshold_alert F n2
               (check_threshold_alert F n1 m metric_name (t + 1) t c) metric_name (t + 1) t c)
             = alert_history m @ [a] \<and>
           alert_history (check_threshold_alert F n3 (check_threshold_alert F n2
               (check_threshold_alert F n1 m metric_name (t + 1) t c) metric_name (t + 1) t c)
               metric_name (t + 1) t c)
             = alert_history m @ [a] \<and>
           alert_history (check_threshold_alert F n4 (check_threshold_alert F n3 (check_threshold_alert F n2
               (check_threshold_alert F n1 m metric_name (t + 1) t c) metric_name (t + 1) t c)
               metric_name (t + 1) t c) metric_name v t c)
             = alert_history m @ [a\<lparr>resolved := True, resolution_time := Some n4\<rparr>]"
proof -
  let ?a = "\<lparr>timestamp = n1, severity = breach_severity F (t + 1) t, category = c,
             message = threshold_message F metric_name (t + 1) t, alert_value = t + 1,
             alert_threshold = t, duration_minutes = 0, resolved = False, resolution_time = None\<rparr>"
  let ?m1 = "check_threshold_alert F n1 m metric_name (t + 1) t c"
  have b: "t + 1 > t" by simp
  have h1: "alert_history ?m1 = alert_history m @ [?a]"
    by (rule check_breach_open[OF b assms(1)])
  have act: "filter (is_active_for c metric_name) (alert_history ?m1) \<noteq> []"
    unfolding h1 using fresh_alert_active[of c metric_name n1 _ F "t + 1" t] by simp
  have m2: "check_threshold_alert F n2 ?m1 metric_name (t + 1) t c = ?m1"
    by (rule check_breach_dedup[OF b act])
  have m3: "check_threshold_alert F n3 ?m1 metric_name (t + 1) t c = ?m1"
    by (rule check_breach_dedup[OF b act])
  have nb: "\<not> v > t" using assms(2) by simp
  have old: "\<forall>x \<in> set (alert_history m). \<not> is_active_for c metric_name x"
    using assms(1) by (simp add: filter_empty_conv)
  have h4: "alert_history (check_threshold_alert F n4 ?m1 metric_name v t c)
              = alert_history m @ [?a\<lparr>resolved := True, resolution_time := Some n4\<rparr>]"
    unfolding check_in_range(1)[OF nb] h1
    using old fresh_alert_active[of c metric_name n1 _ F "t + 1" t] by (simp add: map_idI)
  show ?thesis
    unfolding m2 m3 using h1 h4 by (intro exI[of _ ?a]) simp
qed


lemma init_nofile:
  "PerformanceMonitor_init F cfg NoFile =
     \<lparr>config = cfg, anomaly_detector = AnomalyDetector_init, alert_history = [],
      system_metrics_history = [], app_metrics_history = [], sent_alerts = [],
      logged_errors = []\<rparr>"
  by (simp add: PerformanceMonitor_init_def load_alert_history_def)

text \<open>In the sample arithmetic, as in double arithmetic, \<open>7.0 * 1.2\<close> is the double
  \<open>8.4\<close>, which is \<open>4728779608739021 / 2 ^ 49\<close>, and \<open>80.0 * 1.2\<close> is \<open>96.0\<close>.\<close>

lemma sample_products:
  "float_mul sample_text 7 float_1_2 = 4728779608739021 / 562949953421312"
  "float_mul sample_text 80 float_1_2 = 96"
proof -
  have "round_half_even (37830236869912165 / 8) = 4728779608739021"
    by (simp add: round_half_even_def Let_def)
  then show "float_mul sample_text 7 float_1_2 = 4728779608739021 / 562949953421312"
    by (simp add: sample_text_def float_1_2_def round_double_eval[where k = 49])
  have "round_half_even (27021597764222975 / 4) = 6755399441055744"
    by (simp add: round_half_even_def Let_def)
  then show "float_mul sample_text 80 float_1_2 = 96"
    by (simp add: sample_text_def float_1_2_def round_double_eval[where k = 46])
qed

theorem check_threshold_alert_severity_witness:
  "length (alert_history (check_threshold_alert sample_text 5
        (PerformanceMonitor_init sample_text DEFAULT_CONFIG NoFile) ''CPU Usage'' 70 80 ''system''))
     = length (alert_history (PerformanceMonitor_init sample_text DEFAULT_CONFIG NoFile)) \<and>
   breach_severity sample_text (4728779608739021 / 562949953421312) 7 = ''WARNING'' \<and>
   breach_severity sample_text 96 80 = ''WARNING'' \<and>
   breach_severity sample_text 97 80 = ''CRITICAL'' \<and>
   (\<exists>a. alert_history (check_threshold_alert sample_text 5
        (PerformanceMonitor_init sample_text DEFAULT_CONFIG NoFile) ''CPU Usage'' 97 80 ''system'')
          = alert_history (PerformanceMonitor_init sample_text DEFAULT_CONFIG NoFile) @ [a] \<and>
        sent_alerts (check_threshold_alert sample_text 5
        (PerformanceMonitor_init sample_text DEFAULT_CONFIG NoFile) ''CPU Usage'' 97 80 ''system'')
          = sent_alerts (PerformanceMonitor_init sample_text DEFAULT_CONFIG NoFile) @ [a] \<and>
        severity a = breach_severity sample_text 97 80 \<and> \<not> resolved a)"
proof -
  let ?m = "PerformanceMonitor_init sample_text DEFAULT_CONFIG NoFile"
  note T = check_threshold_alert_severity[where F = sample_text and now = 5 and m = ?m
             and metric_name = "''CPU Usage''" and c = "''system''"]
  have a: "(70::real) \<le> 80" by simp
  have b: "(97::real) > 80" by simp
  have c: "(4728779608739021 / 562949953421312 :: real) = float_mul sample_text 7 float_1_2"
    by (simp only: sample_products(1))
  have d: "(96::real) = float_mul sample_text 80 float_1_2"
    by (simp only: sample_products(2))
  have e: "filter (is_active_for ''system'' ''CPU Usage'') (alert_history ?m) = []"
    by (simp add: init_nofile)
  have f: "(97::real) > float_mul sample_text 80 float_1_2"
    by (simp add: sample_products(2))
  note T1 = T[where v = 70 and t = 80, THEN conjunct1, rule_format, OF a]
  note T2 = T[where v = 97 and t = 80, THEN conjunct2, THEN conjunct1, rule_format, OF b]
  note T3 = T[where v = "4728779608739021 / 562949953421312" and t = 7,
              THEN conjunct2, THEN conjunct2, rule_format, OF c]
  note T4 = T[where v = 96 and t = 80, THEN conjunct2, THEN conjunct2, rule_format, OF d]
  from T1[THEN conjunct1] T3 T4 T2[THEN conjunct1, THEN iffD2, OF f]
       T2[THEN conjunct2, THEN conjunct2, rule_format, OF e]
  show ?thesis by (intro conjI)
qed

theorem breach_sequence_one_alert_witness:
  "\<exists>a. \<not> resolved a \<and> resolution_time a = None \<and>
     alert_history (check_threshold_alert sample_text 1
         (PerformanceMonitor_init sample_text DEFAULT_CONFIG NoFile) ''CPU Usage'' (80 + 1) 80 ''system'')
       = alert_history (PerformanceMonitor_init sample_text DEFAULT_CONFIG NoFile) @ [a] \<and>
     alert_history (check_threshold_alert sample_text 2 (check_threshold_alert sample_text 1
         (PerformanceMonitor_init sample_text DEFAULT_CONFIG NoFile) ''CPU Usage'' (80 + 1) 80 ''system'')
         ''CPU Usage'' (80 + 1) 80 ''system'')
       = alert_history (PerformanceMonitor_init sample_text DEFAULT_CONFIG NoFile) @ [a] \<and>
     alert_history (check_threshold_alert sample_text 3 (check_threshold_alert sample_text 2
         (check_threshold_alert sample_text 1
         (PerformanceMonitor_init sample_text DEFAULT_CONFIG NoFile) ''CPU Usage'' (80 + 1) 80 ''system'')
         ''CPU Usage'' (80 + 1) 80 ''system'') ''CPU Usage'' (80 + 1) 80 ''system'')
       = alert_history (PerformanceMonitor_init sample_text DEFAULT_CONFIG NoFile) @ [a] \<and>
     alert_history (check_threshold_alert sample_text 4 (check_threshold_alert sample_text 3
         (check_threshold_alert sample_text 2 (check_threshold_alert sample_text 1
         (PerformanceMonitor_init sample_text DEFAULT_CONFIG NoFile) ''CPU Usage'' (80 + 1) 80 ''system'')
         ''CPU Usage'' (80 + 1) 80 ''system'') ''CPU Usage'' (80 + 1) 80 ''system'')
         ''CPU Usage'' 42 80 ''system'')
       = alert_history (PerformanceMonitor_init sample_text DEFAULT_CONFIG NoFile)
           @ [a\<lparr>resolved := True, resolution_time := Some 4\<rparr>]"
proof -
  let ?m = "PerformanceMonitor_init sample_text DEFAULT_CONFIG NoFile"
  have e: "filter (is_active_for ''system'' ''CPU Usage'') (alert_history ?m) = []"
    by (simp add: init_nofile)
  have a: "(42::real) \<le> 80" by simp
  show ?thesis
    by (rule breach_sequence_one_alert[OF e a, of sample_text 1 2 3 4])
qed

section \<open>Properties of persistence and of the report\<close>

text \<open>
  C9. \<open>save_alert_history\<close> returns normally whatever the write does, and the alert
  history of the monitor afterwards is the one before; a failed write is logged and
  changes nothing else in the monitor.
\<close>

theorem save_alert_history_not_fatal:
  "\<exists>m' file'. save_alert_history F io m file = Inr (m', file') \<and>
      alert_history m' = alert_history m \<and>
      m' = m\<lparr>logged_errors := logged_errors m @ (if io = WriteOk then [] else [OSError])\<rparr>"
  by (cases io) (simp_all add: save_alert_history_def save_alert_history_try_def)

theorem save_alert_history_not_fatal_witness:
  "\<exists>m' file'. save_alert_history sample_text DumpFails
        (PerformanceMonitor_init sample_text DEFAULT_CONFIG NoFile) NoFile = Inr (m', file') \<and>
      alert_history m' = alert_history (PerformanceMonitor_init sample_text DEFAULT_CONFIG NoFile) \<and>
      m' = (PerformanceMonitor_init sample_text DEFAULT_CONFIG NoFile)
             \<lparr>logged_errors := logged_errors (PerformanceMonitor_init sample_text DEFAULT_CONFIG NoFile)
                @ (if DumpFails = WriteOk then [] else [OSError])\<rparr>"
  by (rule save_alert_history_not_fatal)

lemma bind_e_Inr [simp]: "bind_e (Inr x) f = f x"
  by (simp add: bind_e_def)

lemma bind_e_Inl [simp]: "bind_e (Inl e) f = Inl e"
  by (simp add: bind_e_def)

lemma load_alert_alert_dict:
  assumes "\<forall>t. fromisoformat F (isoformat F t) = Some t" "\<forall>t. isoformat F t \<noteq> []"
  shows "load_alert F (JObj (alert_dict F a)) = Inr a"
proof (cases "resolution_time a")
  case None
  then show ?thesis using assms
    by (simp add: load_alert_def alert_dict_def json_item_def json_get_def as_str_def as_float_def
        as_int_def as_bool_def parse_datetime_def)
next
  case (Some t)
  then show ?thesis using assms
    by (simp add: load_alert_def alert_dict_def json_item_def json_get_def as_str_def as_float_def
        as_int_def as_bool_def parse_datetime_def)
qed

lemma load_alerts_alert_dict:
  assumes "\<forall>t. fromisoformat F (isoformat F t) = Some t" "\<forall>t. isoformat F t \<noteq> []"
  shows "load_alerts F (map (\<lambda>alert. JObj (alert_dict F alert)) as) = Inr as"
  by (induction as) (simp_all add: load_alert_alert_dict[OF assms])

lemma load_saved:
  assumes "\<forall>t. fromisoformat F (isoformat F t) = Some t" "\<forall>t. isoformat F t \<noteq> []"
  shows "load_alert_history F m' (Content (JArr (map (\<lambda>alert. JObj (alert_dict F alert)) as)))
           = m'\<lparr>alert_history := as\<rparr>"
  by (simp add: load_alert_history_def json_iter_def load_alerts_alert_dict[OF assms])

lemma sample_text_roundtrip:
  "\<forall>t. fromisoformat sample_text (isoformat sample_text t) = Some t"
  "\<forall>t. isoformat sample_text t \<noteq> []"
  by (auto simp: sample_text_def)

text \<open>
  C7. Given that \<open>fromisoformat\<close> reads back what \<open>isoformat\<close> prints and that
  \<open>isoformat\<close> never prints the empty string, a successful \<open>save_alert_history\<close>
  followed by \<open>load_alert_history\<close>, in the same or in a new monitor, yields the saved
  alert history: the same alerts in the same order with every field, the resolved flags
  and resolution times included.
\<close>

theorem save_load_roundtrip:
  assumes "\<forall>t. fromisoformat F (isoformat F t) = Some t"
      and "\<forall>t. isoformat F t \<noteq> []"
  shows "\<exists>file'. save_alert_history F WriteOk m file = Inr (m, file') \<and>
           alert_history (load_alert_history F m' file') = alert_history m \<and>
           alert_history (PerformanceMonitor_init F cfg file') = alert_history m"
  by (simp add: save_alert_history_def save_alert_history_try_def PerformanceMonitor_init_def
        load_saved[OF assms])


theorem save_load_roundtrip_witness:
  "\<exists>file'. save_alert_history sample_text WriteOk
        ((PerformanceMonitor_init sample_text DEFAULT_CONFIG NoFile)
           \<lparr>alert_history :=
              [\<lparr>timestamp = 7, severity = ''CRITICAL'', category = ''system'',
                message = ''CPU Usage is 0.00% (threshold: 0.00%)'', alert_value = 99,
                alert_threshold = 80, duration_minutes = 0, resolved = True,
                resolution_time = Some 9\<rparr>,
               \<lparr>timestamp = 8, severity = ''WARNING'', category = ''application'',
                message = ''Error Rate is 0.00% (threshold: 0.00%)'', alert_value = 21,
                alert_threshold = 20, duration_minutes = 0, resolved = False,
                resolution_time = None\<rparr>]\<rparr>) NoFile
      = Inr ((PerformanceMonitor_init sample_text DEFAULT_CONFIG NoFile)
           \<lparr>alert_history :=
              [\<lparr>timestamp = 7, severity = ''CRITICAL'', category = ''system'',
                message = ''CPU Usage is 0.00% (threshold: 0.00%)'', alert_value = 99,
                alert_threshold = 80, duration_minutes = 0, resolved = True,
                resolution_time = Some 9\<rparr>,
               \<lparr>timestamp = 8, severity = ''WARNING'', category = ''application'',
                message = ''Error Rate is 0.00% (threshold: 0.00%)'', alert_value = 21,
                alert_threshold = 20, duration_minutes = 0, resolved = False,
                resolution_time = None\<rparr>]\<rparr>, file') \<and>
      alert_history (load_alert_history sample_text
          (PerformanceMonitor_init sample_text DEFAULT_CONFIG NoFile) file')
        = alert_history ((PerformanceMonitor_init sample_text DEFAULT_CONFIG NoFile)
           \<lparr>alert_history :=
              [\<lparr>timestamp = 7, severity = ''CRITICAL'', category = ''system'',
                message = ''CPU Usage is 0.00% (threshold: 0.00%)'', alert_value = 99,
                alert_threshold = 80, duration_minutes = 0, resolved = True,
                resolution_time = Some 9\<rparr>,
               \<lparr>timestamp = 8, severity = ''WARNING'', category = ''application'',
                message = ''Error Rate is 0.00% (threshold: 0.00%)'', alert_value = 21,
                alert_threshold = 20, duration_minutes = 0, resolved = False,
                resolution_time = None\<rparr>]\<rparr>) \<and>
      alert_history (PerformanceMonitor_init sample_text DEFAULT_CONFIG file')
        = alert_history ((PerformanceMonitor_init sample_text DEFAULT_CONFIG NoFile)
           \<lparr>alert_history :=
              [\<lparr>timestamp = 7, severity = ''CRITICAL'', category = ''system'',
                message = ''CPU Usage is 0.00% (threshold: 0.00%)'', alert_value = 99,
                alert_threshold = 80, duration_minutes = 0, resolved = True,
                resolution_time = Some 9\<rparr>,
               \<lparr>timestamp = 8, severity = ''WARNING'', category = ''application'',
                message = ''Error Rate is 0.00% (threshold: 0.00%)'', alert_value = 21,
                alert_threshold = 20, duration_minutes = 0, resolved = False,
                resolution_time = None\<rparr>]\<rparr>)"
  by (rule save_load_roundtrip[OF sample_text_roundtrip])

lemma py_round2_zero: "py_round2 0 = 0"
  by (simp add: py_round2_def)

lemma generate_recommendations_empty:
  assumes "system_metrics_history m = []" "app_metrics_history m = []"
  shows "generate_recommendations now m =
           Inr (if length (filter (\<lambda>a. timestamp a > now - timedelta_24h) (alert_history m)) > 20
                then [''High alert frequency - review monitoring thresholds and system stability'']
                else [''System performance is within normal parameters''])"
  using assms by (simp add: generate_recommendations_def Let_def)

text \<open>
  C8 as stated fails: a monitor built from a saved log of 21 alerts of the last 24 hours
  has empty metric histories, and its report recommends only the review of the
  thresholds, without the default entry.
\<close>

theorem report_without_default_counterexample:
  "map_sum id recommendations
     (generate_performance_report sample_text 0 0
        (PerformanceMonitor_init sample_text DEFAULT_CONFIG
           (Content (JArr (replicate 21 (JObj (alert_dict sample_text
              \<lparr>timestamp = 0, severity = ''WARNING'', category = ''system'',
               message = ''CPU Usage is 0.00% (threshold: 0.00%)'', alert_value = 81,
               alert_threshold = 80, duration_minutes = 0, resolved = True,
               resolution_time = Some 0\<rparr>)))))))
   = Inr [''High alert frequency - review monitoring thresholds and system stability'']"
proof -
  let ?a = "\<lparr>timestamp = 0, severity = ''WARNING'', category = ''system'',
               message = ''CPU Usage is 0.00% (threshold: 0.00%)'', alert_value = 81,
               alert_threshold = 80, duration_minutes = 0, resolved = True,
               resolution_time = Some (0::int)\<rparr>"
  let ?m = "PerformanceMonitor_init sample_text DEFAULT_CONFIG
           (Content (JArr (replicate 21 (JObj (alert_dict sample_text ?a)))))"
  have e: "replicate 21 (JObj (alert_dict sample_text ?a))
          = map (\<lambda>alert. JObj (alert_dict sample_text alert)) (replicate 21 ?a)"
    by (simp only: map_replicate)
  have h: "alert_history ?m = replicate 21 ?a" "system_metrics_history ?m = []"
      "app_metrics_history ?m = []"
    unfolding PerformanceMonitor_init_def e load_saved[OF sample_text_roundtrip] by simp_all
  have r: "generate_recommendations 0 ?m
             = Inr [''High alert frequency - review monitoring thresholds and system stability'']"
    unfolding generate_recommendations_empty[OF h(2) h(3)] h(1)
    by (simp add: timedelta_24h_def)
  show ?thesis
    unfolding generate_performance_report_def using h(2) h(3) r by simp
qed

text \<open>
  C8, amended.  When both metric histories are empty, the report has averages and peaks
  0 for CPU and memory and averages 0 for response time and error rate, and its
  recommendation list is non-empty: it is the single default entry when at most 20 alerts
  of the log are from the last 24 hours, and the single entry on the alert frequency
  otherwise.
\<close>

theorem empty_history_report:
  assumes "system_metrics_history m = []" and "app_metrics_history m = []"
  shows "\<exists>r. generate_performance_report F now now' m = Inr r \<and>
           cpu_average_percent r = 0 \<and> cpu_peak_percent r = 0 \<and>
           memory_average_percent r = 0 \<and> memory_peak_percent r = 0 \<and>
           response_time_average_ms r = 0 \<and> error_rate_average_percent r = 0 \<and>
           recommendations r \<noteq> [] \<and>
           recommendations r =
             (if length (filter (\<lambda>a. timestamp a > now' - timedelta_24h) (alert_history m)) > 20
              then [''High alert frequency - review monitoring thresholds and system stability'']
              else [''System performance is within normal parameters''])"
  unfolding generate_performance_report_def generate_recommendations_empty[OF assms]
  using assms by (simp add: py_round2_zero)

theorem empty_history_report_witness:
  "\<exists>r. generate_performance_report sample_text 5 6
           (PerformanceMonitor_init sample_text DEFAULT_CONFIG NoFile) = Inr r \<and>
         cpu_average_percent r = 0 \<and> cpu_peak_percent r = 0 \<and>
         memory_average_percent r = 0 \<and> memory_peak_percent r = 0 \<and>
         response_time_average_ms r = 0 \<and> error_rate_average_percent r = 0 \<and>
         recommendations r \<noteq> [] \<and>
         recommendations r =
           (if length (filter (\<lambda>a. timestamp a > 6 - timedelta_24h)
                  (alert_history (PerformanceMonitor_init sample_text DEFAULT_CONFIG NoFile))) > 20
            then [''High alert frequency - review monitoring thresholds and system stability'']
            else [''System performance is within normal parameters''])"
proof -
  let ?m = "PerformanceMonitor_init sample_text DEFAULT_CONFIG NoFile"
  have a: "system_metrics_history ?m = []" by (simp add: init_nofile)
  have b: "app_metrics_history ?m = []" by (simp add: init_nofile)
  show ?thesis by (rule empty_history_report[OF a b])
qed

section \<open>Properties of the alert log across evaluation cycles\<close>

subsection \<open>Which alerts a threshold evaluation can select\<close>

lemma sublist_needs_char: "k \<in> set n \<Longrightarrow> k \<notin> set s \<Longrightarrow> \<not> sublist n s"
  using set_mono_sublist by fastforce

lemma plain_not_target:
  assumes "set (message a) \<inter> set ''CMDTE'' = {}"
  shows "\<not> threshold_target a"
proof -
  have c: "CHR ''C'' \<notin> set (message a)" and m: "CHR ''M'' \<notin> set (message a)"
    and d: "CHR ''D'' \<notin> set (message a)" and t: "CHR ''T'' \<notin> set (message a)"
    and e: "CHR ''E'' \<notin> set (message a)"
    using assms by auto
  have "\<not> sublist ''CPU Usage'' (message a)" by (rule sublist_needs_char[OF _ c]) simp
  moreover have "\<not> sublist ''Memory Usage'' (message a)" by (rule sublist_needs_char[OF _ m]) simp
  moreover have "\<not> sublist ''Disk Usage'' (message a)" by (rule sublist_needs_char[OF _ d]) simp
  moreover have "\<not> sublist ''Response Time'' (message a)" by (rule sublist_needs_char[OF _ t]) simp
  moreover have "\<not> sublist ''Error Rate'' (message a)" by (rule sublist_needs_char[OF _ e]) simp
  ultimately show ?thesis by (simp add: threshold_target_def threshold_pairs_def)
qed

lemma predictive_not_target: "category a = ''predictive'' \<Longrightarrow> \<not> threshold_target a"
  by (simp add: threshold_target_def threshold_pairs_def)

lemma not_target_not_active:
  "\<not> threshold_target a \<Longrightarrow> (n, c) \<in> set threshold_pairs \<Longrightarrow> \<not> is_active_for c n a"
  by (auto simp: threshold_target_def is_active_for_def list_ex_iff)

lemma numeric_plain: "numeric_text s \<Longrightarrow> set s \<inter> set ''CMDTE'' = {}"
  unfolding numeric_text_def by auto

lemma detect_trend_label:
  "detect_trend F d n p = Inr l \<Longrightarrow>
     l \<in> {''insufficient_data'', ''increasing'', ''decreasing'', ''stable''}"
  by (auto simp: detect_trend_def classify_slope_def Let_def split: option.splits if_splits sum.splits)

lemma detect_trend_plain: "detect_trend F d n p = Inr l \<Longrightarrow> set l \<inter> set ''CMDTE'' = {}"
  by (drule detect_trend_label) auto

lemma anomaly_message_plain:
  assumes "\<forall>x. numeric_text (fmt_2f F x)" "set n \<inter> set ''CMDTE'' = {}" "set l \<inter> set ''CMDTE'' = {}"
  shows "set (anomaly_message F n v z l) \<inter> set ''CMDTE'' = {}"
proof -
  have "set (fmt_2f F v) \<inter> set ''CMDTE'' = {}" "set (fmt_2f F z) \<inter> set ''CMDTE'' = {}"
    using assms(1) numeric_plain by blast+
  moreover have "set ''Anomaly detected in '' \<inter> set ''CMDTE'' = {}" by auto
  moreover have "set '': '' \<inter> set ''CMDTE'' = {}" by auto
  moreover have "set '' (z-score: '' \<inter> set ''CMDTE'' = {}" by auto
  moreover have "set '', trend: '' \<inter> set ''CMDTE'' = {}" by auto
  moreover have "set '')'' \<inter> set ''CMDTE'' = {}" by auto
  ultimately show ?thesis using assms(2,3)
    unfolding anomaly_message_def set_append Int_Un_distrib2 by (simp only: Un_empty)
qed

lemma untouched_iff:
  "untouched before after \<longleftrightarrow>
     (\<forall>i<length before. \<not> threshold_target (before ! i) \<longrightarrow> i < length after \<and> after ! i = before ! i)"
  by (auto simp: untouched_def list_all_iff)

lemma untouched_refl: "untouched l l"
  by (simp add: untouched_iff)

lemma untouched_trans: "untouched a b \<Longrightarrow> untouched b c \<Longrightarrow> untouched a c"
  unfolding untouched_iff by metis

lemma untouched_append: "untouched a b \<Longrightarrow> untouched a (b @ new)"
  unfolding untouched_iff by (auto simp: nth_append)

lemma untouched_check:
  assumes "(n, c) \<in> set threshold_pairs"
  shows "untouched (alert_history m) (alert_history (check_threshold_alert F now m n v t c))"
proof (cases "v > t")
  case True
  then show ?thesis
    by (auto simp: check_threshold_alert_def send_alert_def Let_def untouched_refl
        intro: untouched_append)
next
  case False
  show ?thesis
    unfolding check_in_range(1)[OF False] untouched_iff
    using not_target_not_active[OF _ assms] by auto
qed

lemma dedup_iff:
  "dedup_invariant l \<longleftrightarrow>
     (\<forall>(n, c) \<in> set threshold_pairs. length (filter (is_active_for c n) l) \<le> 1)"
  by (simp add: dedup_invariant_def list_all_iff)

lemma dedup_append:
  assumes "dedup_invariant l" "\<forall>a \<in> set new. \<not> threshold_target a"
  shows "dedup_invariant (l @ new)"
proof -
  have "filter (is_active_for c n) new = []" if "(n, c) \<in> set threshold_pairs" for n c
    using assms(2) not_target_not_active[OF _ that] by (simp add: filter_empty_conv)
  then show ?thesis using assms(1) unfolding dedup_iff by auto
qed

lemma filter_resolved_le:
  "length (filter (is_active_for c n)
      (map (\<lambda>alert. if is_active_for c' n' alert
                     then alert\<lparr>resolved := True, resolution_time := Some now\<rparr> else alert) l))
   \<le> length (filter (is_active_for c n) l)"
  by (induction l) (auto simp: is_active_for_def)

lemma threshold_message_char:
  assumes "\<forall>x. numeric_text (fmt_2f F x) \<and> numeric_text (fmt_str F x)"
      and "k \<in> set ''CMDTE''" "k \<in> set n" "k \<notin> set n'"
  shows "\<not> sublist n (threshold_message F n' v t)"
proof -
  have p: "set (fmt_2f F v) \<inter> set ''CMDTE'' = {}" "set (fmt_str F t) \<inter> set ''CMDTE'' = {}"
    using assms(1) numeric_plain by blast+
  have "k \<notin> set (threshold_message F n' v t)"
    using assms(2,4) p unfolding threshold_message_def by auto
  then show ?thesis by (rule sublist_needs_char[OF assms(3)])
qed

lemma threshold_pairs_names:
  "(n, c) \<in> set threshold_pairs \<Longrightarrow>
     n = ''CPU Usage'' \<or> n = ''Memory Usage'' \<or> n = ''Disk Usage'' \<or> n = ''Response Time''
       \<or> n = ''Error Rate''"
  by (auto simp: threshold_pairs_def)

lemma threshold_pairs_category:
  "(n, c) \<in> set threshold_pairs \<Longrightarrow> (n, c') \<in> set threshold_pairs \<Longrightarrow> c = c'"
  by (auto simp: threshold_pairs_def)

lemma key_char_other:
  assumes "(n', c') \<in> set threshold_pairs" "n \<noteq> n'"
  shows "n = ''CPU Usage'' \<Longrightarrow> CHR ''C'' \<notin> set n'"
    and "n = ''Memory Usage'' \<Longrightarrow> CHR ''M'' \<notin> set n'"
    and "n = ''Disk Usage'' \<Longrightarrow> CHR ''D'' \<notin> set n'"
    and "n = ''Response Time'' \<Longrightarrow> CHR ''T'' \<notin> set n'"
    and "n = ''Error Rate'' \<Longrightarrow> CHR ''E'' \<notin> set n'"
  using threshold_pairs_names[OF assms(1)] assms(2) by (elim disjE; simp)+

lemma threshold_message_other:
  assumes num: "\<forall>x. numeric_text (fmt_2f F x) \<and> numeric_text (fmt_str F x)"
      and p: "(n, c) \<in> set threshold_pairs" and p': "(n', c') \<in> set threshold_pairs"
      and ne: "(n, c) \<noteq> (n', c')"
  shows "\<not> (c = c' \<and> sublist n (threshold_message F n' v t))"
proof -
  have nn: "n \<noteq> n'" using threshold_pairs_category[OF p] p' ne by auto
  note K = key_char_other[OF p' nn]
  have "\<not> sublist n (threshold_message F n' v t)"
    using threshold_pairs_names[OF p]
  proof (elim disjE)
    assume n: "n = ''CPU Usage''"
    show ?thesis
      by (rule threshold_message_char[OF num _ _ K(1)[OF n]]) (simp_all add: n)
  next
    assume n: "n = ''Memory Usage''"
    show ?thesis
      by (rule threshold_message_char[OF num _ _ K(2)[OF n]]) (simp_all add: n)
  next
    assume n: "n = ''Disk Usage''"
    show ?thesis
      by (rule threshold_message_char[OF num _ _ K(3)[OF n]]) (simp_all add: n)
  next
    assume n: "n = ''Response Time''"
    show ?thesis
      by (rule threshold_message_char[OF num _ _ K(4)[OF n]]) (simp_all add: n)
  next
    assume n: "n = ''Error Rate''"
    show ?thesis
      by (rule threshold_message_char[OF num _ _ K(5)[OF n]]) (simp_all add: n)
  qed
  then show ?thesis by simp
qed

lemma dedup_check:
  assumes num: "\<forall>x. numeric_text (fmt_2f F x) \<and> numeric_text (fmt_str F x)"
      and p': "(n', c') \<in> set threshold_pairs"
      and inv: "dedup_invariant (alert_history m)"
  shows "dedup_invariant (alert_history (check_threshold_alert F now m n' v t c'))"
proof (cases "v > t")
  case False
  show ?thesis
    unfolding check_in_range(1)[OF False] dedup_iff
  proof (intro ballI, clarify)
    fix n c assume "(n, c) \<in> set threshold_pairs"
    then have "length (filter (is_active_for c n) (alert_history m)) \<le> 1"
      using inv unfolding dedup_iff by auto
    then show "length (filter (is_active_for c n)
        (map (\<lambda>alert. if is_active_for c' n' alert
                       then alert\<lparr>resolved := True, resolution_time := Some now\<rparr> else alert)
             (alert_history m))) \<le> 1"
      using filter_resolved_le[of c n c' n' now "alert_history m"] by linarith
  qed
next
  case True
  show ?thesis
  proof (cases "filter (is_active_for c' n') (alert_history m) = []")
    case False
    then show ?thesis using check_breach_dedup[OF True False] inv by simp
  next
    case e: True
    let ?a = "\<lparr>timestamp = now, severity = breach_severity F v t, category = c',
             message = threshold_message F n' v t, alert_value = v, alert_threshold = t,
             duration_minutes = 0, resolved = False, resolution_time = None\<rparr>"
    show ?thesis
      unfolding check_breach_open[OF True e] dedup_iff
    proof (intro ballI, clarify)
      fix n c assume p: "(n, c) \<in> set threshold_pairs"
      show "length (filter (is_active_for c n) (alert_history m @ [?a])) \<le> 1"
      proof (cases "(n, c) = (n', c')")
        case True
        then show ?thesis using e by simp
      next
        case False
        have "\<not> is_active_for c n ?a"
          using threshold_message_other[OF num p p' False] by (simp add: is_active_for_def)
        moreover have "length (filter (is_active_for c n) (alert_history m)) \<le> 1"
          using inv p unfolding dedup_iff by auto
        ultimately show ?thesis by simp
      qed
    qed
  qed
qed

lemma state_of_simps [simp]: "state_of (Inr m) = m" "state_of (Inl (e, m)) = m"
  by (simp_all add: state_of_def)

lemma anomaly_metrics_plain:
  "(n, c) \<in> set anomaly_metrics \<Longrightarrow> set n \<inter> set ''CMDTE'' = {}"
  by (auto simp: anomaly_metrics_def)

lemma anomaly_message_prefix:
  "prefix (''Anomaly detected in '' @ n @ '': '') (anomaly_message F n v z t)"
proof -
  have "anomaly_message F n v z t
          = (''Anomaly detected in '' @ n @ '': '')
              @ (fmt_2f F v @ '' (z-score: '' @ fmt_2f F z @ '', trend: '' @ t @ '')'')"
    unfolding anomaly_message_def by (simp only: append_assoc)
  then show ?thesis by (simp only: prefixI)
qed

lemma created_anomaly_alert:
  assumes "(n, c) \<in> set anomaly_metrics"
  shows "anomaly_alert \<lparr>timestamp = ts, severity = sv, category = c,
            message = anomaly_message F n v z t, alert_value = v, alert_threshold = z,
            duration_minutes = 0, resolved = False, resolution_time = None\<rparr>"
proof -
  let ?a = "\<lparr>timestamp = ts, severity = sv, category = c,
            message = anomaly_message F n v z t, alert_value = v, alert_threshold = z,
            duration_minutes = 0, resolved = False, resolution_time = None\<rparr>"
  have "message ?a = anomaly_message F n v z t" by simp
  then have "prefix (''Anomaly detected in '' @ n @ '': '') (message ?a)"
    by (simp only: anomaly_message_prefix)
  moreover have "category ?a = c" by simp
  ultimately have "case (n, c) of (metric_name, category') \<Rightarrow>
                     category ?a = category' \<and>
                     prefix (''Anomaly detected in '' @ metric_name @ '': '') (message ?a)"
    by (simp only: prod.case simp_thms)
  then show ?thesis
    unfolding anomaly_alert_def list_ex_iff by (rule bexI[OF _ assms])
qed

lemma anomalies_loop_log:
  assumes num: "\<forall>x. numeric_text (fmt_2f F x)"
      and names: "\<forall>(n, v, c) \<in> set xs. (n, c) \<in> set anomaly_metrics"
  shows "\<exists>new. alert_history (state_of (detect_anomalies_loop F now xs m)) = alert_history m @ new \<and>
           (\<forall>a \<in> set new. anomaly_alert a \<and> \<not> resolved a \<and> \<not> threshold_target a)"
  using names
proof (induction xs arbitrary: m)
  case Nil
  then show ?case by simp
next
  case (Cons x xs)
  obtain n v c where x: "x = (n, v, c)" by (cases x)
  have nc: "(n, c) \<in> set anomaly_metrics"
    using Cons.prems x by auto
  have nm: "set n \<inter> set ''CMDTE'' = {}" by (rule anomaly_metrics_plain[OF nc])
  have rest: "\<forall>(n, v, c) \<in> set xs. (n, c) \<in> set anomaly_metrics"
    using Cons.prems by simp
  let ?d = "add_data_point (anomaly_detector m) n v"
  let ?m1 = "m\<lparr>anomaly_detector := ?d\<rparr>"
  note IH = Cons.IH[OF rest]
  show ?case
  proof (cases "is_anomaly ?d n v")
    case (Inl e)
    then show ?thesis by (simp add: x Let_def)
  next
    case (Inr r)
    obtain b z where r: "r = (b, z)" by (cases r)
    show ?thesis
    proof (cases b)
      case False
      then show ?thesis using IH[of ?m1] Inr r by (simp add: x Let_def)
    next
      case True
      show ?thesis
      proof (cases "detect_trend F ?d n 10")
        case (Inl e)
        then show ?thesis using Inr r True by (simp add: x Let_def)
      next
        case tr: (Inr trend)
        let ?a = "\<lparr>timestamp = now, severity = ''WARNING'', category = c,
                   message = anomaly_message F n v z trend, alert_value = v,
                   alert_threshold = z, duration_minutes = 0, resolved = False,
                   resolution_time = None\<rparr>"
        let ?m2 = "send_alert (?m1\<lparr>alert_history := alert_history ?m1 @ [?a]\<rparr>) ?a"
        have step: "detect_anomalies_loop F now (x # xs) m = detect_anomalies_loop F now xs ?m2"
          using Inr r True tr by (simp add: x Let_def)
        have nt: "\<not> threshold_target ?a"
          using anomaly_message_plain[OF num nm detect_trend_plain[OF tr]]
          by (intro plain_not_target) simp
        have aa: "anomaly_alert ?a" by (rule created_anomaly_alert[OF nc])
        obtain new where new: "alert_history (state_of (detect_anomalies_loop F now xs ?m2))
              = alert_history ?m2 @ new"
            "\<forall>a \<in> set new. anomaly_alert a \<and> \<not> resolved a \<and> \<not> threshold_target a"
          using IH[of ?m2] by blast
        have "alert_history ?m2 = alert_history m @ [?a]" by (simp add: send_alert_def)
        then have "alert_history (state_of (detect_anomalies_loop F now (x # xs) m))
                     = alert_history m @ (?a # new)"
          unfolding step new(1) by simp
        moreover have "\<forall>a \<in> set (?a # new). anomaly_alert a \<and> \<not> resolved a \<and> \<not> threshold_target a"
          using nt aa new(2) by simp
        ultimately show ?thesis by blast
      qed
    qed
  qed
qed

lemma detect_anomalies_log:
  assumes "\<forall>x. numeric_text (fmt_2f F x)"
  shows "\<exists>new. alert_history (state_of (detect_anomalies F now m sm am)) = alert_history m @ new \<and>
           (\<forall>a \<in> set new. anomaly_alert a \<and> \<not> resolved a \<and> \<not> threshold_target a)"
  unfolding detect_anomalies_def Let_def
  by (rule anomalies_loop_log[OF assms]) (simp add: anomaly_metrics_def)

lemma predictive_log:
  "\<exists>new. alert_history (state_of (generate_predictive_alerts F now m)) = alert_history m @ new \<and>
         (\<forall>a \<in> set new. predictive_alert a \<and> \<not> resolved a \<and> \<not> threshold_target a)"
proof -
  have "\<exists>new. alert_history (state_of (generate_predictive_alerts F now m)) = alert_history m @ new \<and>
         (\<forall>a \<in> set new. predictive_alert a \<and> \<not> resolved a)"
    by (auto simp: generate_predictive_alerts_def send_alert_def predictive_alert_def Let_def
          split: sum.splits)
  then show ?thesis using predictive_not_target unfolding predictive_alert_def by blast
qed

lemma threshold_pairs_mem:
  "(''CPU Usage'', ''system'') \<in> set threshold_pairs"
  "(''Memory Usage'', ''system'') \<in> set threshold_pairs"
  "(''Disk Usage'', ''system'') \<in> set threshold_pairs"
  "(''Response Time'', ''application'') \<in> set threshold_pairs"
  "(''Error Rate'', ''application'') \<in> set threshold_pairs"
  by (simp_all add: threshold_pairs_def)

lemma analyze_metrics_preserves:
  assumes chk: "\<And>m n c v t. (n, c) \<in> set threshold_pairs \<Longrightarrow> P (alert_history m)
                  \<Longrightarrow> P (alert_history (check_threshold_alert F now m n v t c))"
      and app: "\<And>l new. P l \<Longrightarrow> \<forall>a \<in> set new. \<not> resolved a \<and> \<not> threshold_target a \<Longrightarrow> P (l @ new)"
      and num: "\<forall>x. numeric_text (fmt_2f F x)"
      and P: "P (alert_history m)"
  shows "P (alert_history (state_of (analyze_metrics F now m sm am)))"
proof -
  let ?m1 = "check_threshold_alert F now m ''CPU Usage'' (cpu_percent sm)
                 (cpu_threshold (config m)) ''system''"
  let ?m2 = "check_threshold_alert F now ?m1 ''Memory Usage'' (memory_percent sm)
                 (memory_threshold (config m)) ''system''"
  let ?m3 = "check_threshold_alert F now ?m2 ''Disk Usage'' (disk_usage_percent sm)
                 (disk_threshold (config m)) ''system''"
  let ?m4 = "check_threshold_alert F now ?m3 ''Response Time'' (response_time_ms am)
                 (response_time_threshold_ms (config m)) ''application''"
  let ?m5 = "check_threshold_alert F now ?m4 ''Error Rate'' (error_rate am) 20 ''application''"
  let ?r6 = "if anomaly_detection (config m) then detect_anomalies F now ?m5 sm am else Inr ?m5"
  have p5: "P (alert_history ?m5)"
    by (intro chk threshold_pairs_mem P)
  have p6: "P (alert_history (state_of ?r6))"
  proof (cases "anomaly_detection (config m)")
    case True
    obtain new where "alert_history (state_of (detect_anomalies F now ?m5 sm am)) = alert_history ?m5 @ new"
        "\<forall>a \<in> set new. anomaly_alert a \<and> \<not> resolved a \<and> \<not> threshold_target a"
      using detect_anomalies_log[OF num] by blast
    then show ?thesis using True app[OF p5, of new] by simp
  next
    case False
    then show ?thesis using p5 by simp
  qed
  have an: "analyze_metrics F now m sm am =
              (case ?r6 of Inl x \<Rightarrow> Inl x
               | Inr m6 \<Rightarrow> if enable_predictive_alerts (config m)
                            then generate_predictive_alerts F now m6 else Inr m6)"
    by (simp add: analyze_metrics_def Let_def)
  show ?thesis
  proof (cases ?r6)
    case (Inl x)
    obtain e m' where x: "x = (e, m')" by (cases x)
    have "state_of (analyze_metrics F now m sm am) = state_of ?r6"
      unfolding an Inl by (simp add: x)
    then show ?thesis using p6 by simp
  next
    case (Inr m6)
    then have p: "P (alert_history m6)" using p6 by simp
    show ?thesis
    proof (cases "enable_predictive_alerts (config m)")
      case False
      then show ?thesis unfolding an Inr using p by simp
    next
      case True
      obtain new where "alert_history (state_of (generate_predictive_alerts F now m6)) = alert_history m6 @ new"
          "\<forall>a \<in> set new. predictive_alert a \<and> \<not> resolved a \<and> \<not> threshold_target a"
        using predictive_log by blast
      then show ?thesis unfolding an Inr using True app[OF p, of new] by simp
    qed
  qed
qed

lemma iteration_log:
  "\<exists>m1. alert_history m1 = alert_history m \<and>
     alert_history (fst (monitoring_iteration F io now sm am (m, f)))
       = alert_history (state_of (analyze_metrics F now m1 sm am))"
proof -
  let ?limit = "historical_data_points (config m)"
  let ?ms = "system_metrics_history m @ [sm]"
  let ?ma = "app_metrics_history m @ [am]"
  let ?m1 = "m\<lparr>system_metrics_history := (if int (length ?ms) > ?limit then py_last ?ms ?limit else ?ms),
               app_metrics_history := (if int (length ?ma) > ?limit then py_last ?ma ?limit else ?ma)\<rparr>"
  have "alert_history (fst (monitoring_iteration F io now sm am (m, f)))
       = alert_history (state_of (analyze_metrics F now ?m1 sm am))"
  proof (cases "analyze_metrics F now ?m1 sm am")
    case (Inl x)
    obtain e m' where x: "x = (e, m')" by (cases x)
    show ?thesis
      unfolding monitoring_iteration_def monitoring_iteration_try_def Let_def fst_conv snd_conv Inl
      by (simp add: x)
  next
    case (Inr m2)
    obtain m' f' where s: "save_alert_history F io m2 f = Inr (m', f')" "alert_history m' = alert_history m2"
      by (cases io) (simp_all add: save_alert_history_def save_alert_history_try_def)
    show ?thesis
      unfolding monitoring_iteration_def monitoring_iteration_try_def Let_def fst_conv snd_conv Inr
      using s by simp
  qed
  moreover have "alert_history ?m1 = alert_history m" by simp
  ultimately show ?thesis by blast
qed

lemma iteration_preserves:
  assumes chk: "\<And>m n c v t now. (n, c) \<in> set threshold_pairs \<Longrightarrow> P (alert_history m)
                  \<Longrightarrow> P (alert_history (check_threshold_alert F now m n v t c))"
      and app: "\<And>l new. P l \<Longrightarrow> \<forall>a \<in> set new. \<not> resolved a \<and> \<not> threshold_target a \<Longrightarrow> P (l @ new)"
      and num: "\<forall>x. numeric_text (fmt_2f F x)"
      and P: "P (alert_history (fst s))"
  shows "P (alert_history (fst (monitoring_iteration F io now sm am s)))"
proof -
  obtain m f where s: "s = (m, f)" by (cases s)
  obtain m1 where m1: "alert_history m1 = alert_history m"
      "alert_history (fst (monitoring_iteration F io now sm am (m, f)))
         = alert_history (state_of (analyze_metrics F now m1 sm am))"
    using iteration_log by blast
  have p1: "P (alert_history m1)" using P s m1(1) by simp
  have "P (alert_history (state_of (analyze_metrics F now m1 sm am)))"
  proof (rule analyze_metrics_preserves[where P = P])
    show "\<And>m n c v t. (n, c) \<in> set threshold_pairs \<Longrightarrow> P (alert_history m)
            \<Longrightarrow> P (alert_history (check_threshold_alert F now m n v t c))"
      by (rule chk)
    show "\<And>l new. P l \<Longrightarrow> \<forall>a \<in> set new. \<not> resolved a \<and> \<not> threshold_target a \<Longrightarrow> P (l @ new)"
      by (rule app)
    show "\<forall>x. numeric_text (fmt_2f F x)" by (rule num)
    show "P (alert_history m1)" by (rule p1)
  qed
  then show ?thesis unfolding s m1(2) .
qed

lemma loop_preserves:
  assumes chk: "\<And>m n c v t now. (n, c) \<in> set threshold_pairs \<Longrightarrow> P (alert_history m)
                  \<Longrightarrow> P (alert_history (check_threshold_alert F now m n v t c))"
      and app: "\<And>l new. P l \<Longrightarrow> \<forall>a \<in> set new. \<not> resolved a \<and> \<not> threshold_target a \<Longrightarrow> P (l @ new)"
      and num: "\<forall>x. numeric_text (fmt_2f F x)"
      and P: "P (alert_history (fst s))"
  shows "P (alert_history (fst (monitoring_loop F ticks s)))"
  using P
proof (induction ticks arbitrary: s)
  case Nil
  then show ?case by simp
next
  case (Cons tick ticks)
  obtain io now sm am where t: "tick = (io, now, sm, am)" by (cases tick)
  have "P (alert_history (fst (monitoring_iteration F io now sm am s)))"
  proof (rule iteration_preserves[where P = P])
    show "\<And>m n c v t now. (n, c) \<in> set threshold_pairs \<Longrightarrow> P (alert_history m)
            \<Longrightarrow> P (alert_history (check_threshold_alert F now m n v t c))"
      by (rule chk)
    show "\<And>l new. P l \<Longrightarrow> \<forall>a \<in> set new. \<not> resolved a \<and> \<not> threshold_target a \<Longrightarrow> P (l @ new)"
      by (rule app)
    show "\<forall>x. numeric_text (fmt_2f F x)" by (rule num)
    show "P (alert_history (fst s))" by (rule Cons.prems)
  qed
  from Cons.IH[OF this] show ?case by (simp add: t)
qed

lemma sample_text_numeric:
  "\<forall>x. numeric_text (fmt_2f sample_text x) \<and> numeric_text (fmt_str sample_text x)"
  by (simp add: sample_text_def numeric_text_def)

lemma unresolved_paths_iff:
  "unresolved_paths l \<longleftrightarrow>
     (\<forall>a \<in> set l. anomaly_alert a \<or> predictive_alert a \<longrightarrow> \<not> resolved a \<and> \<not> threshold_target a)"
  by (simp add: unresolved_paths_def list_all_iff)

lemma unresolved_paths_append:
  assumes "unresolved_paths l" "\<forall>a \<in> set new. \<not> resolved a \<and> \<not> threshold_target a"
  shows "unresolved_paths (l @ new)"
  using assms unfolding unresolved_paths_iff by auto

lemma threshold_message_not_anomaly:
  assumes "(n, c) \<in> set threshold_pairs"
  shows "\<not> prefix (''Anomaly detected in '' @ k @ '': '') (threshold_message F n v t)"
  using threshold_pairs_names[OF assms] by (elim disjE; simp add: threshold_message_def)

lemma threshold_alert_not_path:
  assumes p: "(n, c) \<in> set threshold_pairs"
      and a: "message a = threshold_message F n v t" "category a = c"
  shows "\<not> (anomaly_alert a \<or> predictive_alert a)"
proof -
  have "\<not> anomaly_alert a"
    unfolding anomaly_alert_def list_ex_iff a(1)
    using threshold_message_not_anomaly[OF p] by auto
  moreover have "c \<noteq> ''predictive''" using p by (auto simp: threshold_pairs_def)
  then have "\<not> predictive_alert a" by (simp add: predictive_alert_def a(2))
  ultimately show ?thesis by simp
qed

lemma path_alert_resolved:
  "anomaly_alert (a\<lparr>resolved := r, resolution_time := rt\<rparr>) = anomaly_alert a"
  "predictive_alert (a\<lparr>resolved := r, resolution_time := rt\<rparr>) = predictive_alert a"
  by (simp_all add: anomaly_alert_def predictive_alert_def)

lemma unresolved_paths_check:
  assumes p: "(n, c) \<in> set threshold_pairs"
      and inv: "unresolved_paths (alert_history m)"
  shows "unresolved_paths (alert_history (check_threshold_alert F now m n v t c))"
proof (cases "v > t")
  case False
  show ?thesis
    unfolding check_in_range(1)[OF False] unresolved_paths_iff
  proof (intro ballI)
    fix a' assume "a' \<in> set (map (\<lambda>alert. if is_active_for c n alert
                           then alert\<lparr>resolved := True, resolution_time := Some now\<rparr> else alert)
                       (alert_history m))"
    then obtain a where a: "a \<in> set (alert_history m)"
        "a' = (if is_active_for c n a then a\<lparr>resolved := True, resolution_time := Some now\<rparr> else a)"
      by auto
    have cl: "anomaly_alert a \<or> predictive_alert a \<longrightarrow> \<not> resolved a \<and> \<not> threshold_target a"
      using inv a(1) unfolding unresolved_paths_iff by blast
    show "anomaly_alert a' \<or> predictive_alert a' \<longrightarrow> \<not> resolved a' \<and> \<not> threshold_target a'"
    proof (cases "is_active_for c n a")
      case True
      then have "threshold_target a" using not_target_not_active[OF _ p, of a] by blast
      then have "\<not> (anomaly_alert a \<or> predictive_alert a)" using cl by blast
      then show ?thesis using True by (simp add: a(2) path_alert_resolved)
    next
      case False
      then show ?thesis using cl by (simp add: a(2))
    qed
  qed
next
  case True
  show ?thesis
  proof (cases "filter (is_active_for c n) (alert_history m) = []")
    case False
    then show ?thesis using check_breach_dedup[OF True False] inv by simp
  next
    case e: True
    let ?a = "\<lparr>timestamp = now, severity = breach_severity F v t, category = c,
             message = threshold_message F n v t, alert_value = v, alert_threshold = t,
             duration_minutes = 0, resolved = False, resolution_time = None\<rparr>"
    have "\<not> (anomaly_alert ?a \<or> predictive_alert ?a)"
      by (rule threshold_alert_not_path[OF p]) simp_all
    then show ?thesis
      unfolding check_breach_open[OF True e] using inv unfolding unresolved_paths_iff by auto
  qed
qed

text \<open>
  C1, amended to the pairs the threshold path evaluates.  Where numbers print without
  capital letters, every state that the monitoring loop reaches from a log with at most
  one unresolved alert per threshold pair (category, metric display name), the empty log
  of a first start among them, again has at most one unresolved alert per such pair,
  whatever breach, recovery, anomaly and predictive evaluations the ticks interleave.
\<close>

theorem dedup_invariant_maintained:
  assumes "\<forall>x. numeric_text (fmt_2f F x) \<and> numeric_text (fmt_str F x)"
  shows "dedup_invariant (alert_history (fst (monitoring_loop F ticks
            (PerformanceMonitor_init F cfg NoFile, file)))) \<and>
         (dedup_invariant (alert_history (fst s)) \<longrightarrow>
            dedup_invariant (alert_history (fst (monitoring_loop F ticks s))))"
proof -
  have num: "\<forall>x. numeric_text (fmt_2f F x)" using assms by simp
  have step: "dedup_invariant (alert_history (fst (monitoring_loop F ticks s')))"
    if "dedup_invariant (alert_history (fst s'))" for s'
  proof (rule loop_preserves[where P = dedup_invariant])
    show "\<And>m n c v t now. (n, c) \<in> set threshold_pairs \<Longrightarrow> dedup_invariant (alert_history m)
            \<Longrightarrow> dedup_invariant (alert_history (check_threshold_alert F now m n v t c))"
      by (rule dedup_check[OF assms])
    show "\<And>l new. dedup_invariant l \<Longrightarrow> \<forall>a \<in> set new. \<not> resolved a \<and> \<not> threshold_target a
            \<Longrightarrow> dedup_invariant (l @ new)"
      by (rule dedup_append) simp_all
    show "\<forall>x. numeric_text (fmt_2f F x)" by (rule num)
    show "dedup_invariant (alert_history (fst s'))" by (rule that)
  qed
  have init: "dedup_invariant (alert_history (fst (PerformanceMonitor_init F cfg NoFile, file)))"
    by (simp add: init_nofile dedup_iff)
  show ?thesis using step[OF init] step[of s] by blast
qed

theorem dedup_invariant_maintained_witness:
  "dedup_invariant (alert_history (fst (PerformanceMonitor_init sample_text DEFAULT_CONFIG NoFile, Unparsable))) \<and>
   dedup_invariant (alert_history (fst (monitoring_loop sample_text [tick_with 5, tick_with 2000]
       (PerformanceMonitor_init sample_text DEFAULT_CONFIG NoFile, NoFile)))) \<and>
   dedup_invariant (alert_history (fst (monitoring_loop sample_text [tick_with 5, tick_with 2000]
       (PerformanceMonitor_init sample_text DEFAULT_CONFIG NoFile, Unparsable))))"
proof -
  note T = dedup_invariant_maintained[OF sample_text_numeric]
  have h: "dedup_invariant (alert_history (fst (PerformanceMonitor_init sample_text DEFAULT_CONFIG NoFile, Unparsable)))"
    by (simp add: init_nofile dedup_iff)
  show ?thesis
    by (intro conjI) (rule h, rule T[THEN conjunct1], rule T[THEN conjunct2, THEN mp, OF h])
qed

text \<open>
  C6, amended in the categories.  Where numbers print without capital letters, every
  alert that \<open>detect_anomalies\<close> appends is unresolved and is an anomaly alert of one of the
  four checked metrics under the category of that metric, \<open>system\<close> for \<open>cpu_percent\<close> and
  \<open>memory_percent\<close>, \<open>application\<close> for \<open>response_time_ms\<close> and \<open>error_rate\<close>; every alert that
  \<open>generate_predictive_alerts\<close> appends is unresolved with category \<open>predictive\<close>; and no
  threshold evaluation selects any of them.  In the log that the monitoring loop reaches
  after any sequence of ticks from a first start, every alert of these two kinds is
  unresolved, and the same holds from every log in which it holds already.  Through every
  sequence of ticks an alert that no threshold evaluation selects keeps its place in the
  log with all its fields.
\<close>

theorem anomaly_alerts_never_resolved:
  assumes "\<forall>x. numeric_text (fmt_2f F x)"
  shows "(\<exists>new. alert_history (state_of (detect_anomalies F now m sm am)) = alert_history m @ new \<and>
            (\<forall>a \<in> set new. anomaly_alert a \<and> \<not> resolved a \<and> \<not> threshold_target a)) \<and>
         (\<exists>new. alert_history (state_of (generate_predictive_alerts F now m)) = alert_history m @ new \<and>
            (\<forall>a \<in> set new. predictive_alert a \<and> \<not> resolved a \<and> \<not> threshold_target a)) \<and>
         unresolved_paths (alert_history (fst (monitoring_loop F ticks
            (PerformanceMonitor_init F cfg NoFile, file)))) \<and>
         (unresolved_paths (alert_history (fst s)) \<longrightarrow>
            unresolved_paths (alert_history (fst (monitoring_loop F ticks s)))) \<and>
         untouched (alert_history (fst s)) (alert_history (fst (monitoring_loop F ticks s)))"
proof (intro conjI)
  show "\<exists>new. alert_history (state_of (detect_anomalies F now m sm am)) = alert_history m @ new \<and>
            (\<forall>a \<in> set new. anomaly_alert a \<and> \<not> resolved a \<and> \<not> threshold_target a)"
    by (rule detect_anomalies_log[OF assms])
  show "\<exists>new. alert_history (state_of (generate_predictive_alerts F now m)) = alert_history m @ new \<and>
            (\<forall>a \<in> set new. predictive_alert a \<and> \<not> resolved a \<and> \<not> threshold_target a)"
    by (rule predictive_log)
  have step: "unresolved_paths (alert_history (fst (monitoring_loop F ticks s')))"
    if "unresolved_paths (alert_history (fst s'))" for s'
  proof (rule loop_preserves[where P = unresolved_paths])
    show "\<And>m n c v t now. (n, c) \<in> set threshold_pairs \<Longrightarrow> unresolved_paths (alert_history m)
            \<Longrightarrow> unresolved_paths (alert_history (check_threshold_alert F now m n v t c))"
      by (rule unresolved_paths_check)
    show "\<And>l new. unresolved_paths l \<Longrightarrow> \<forall>a \<in> set new. \<not> resolved a \<and> \<not> threshold_target a
            \<Longrightarrow> unresolved_paths (l @ new)"
      by (rule unresolved_paths_append)
    show "\<forall>x. numeric_text (fmt_2f F x)" by (rule assms)
    show "unresolved_paths (alert_history (fst s'))" by (rule that)
  qed
  have init: "unresolved_paths (alert_history (fst (PerformanceMonitor_init F cfg NoFile, file)))"
    by (simp add: init_nofile unresolved_paths_iff)
  show "unresolved_paths (alert_history (fst (monitoring_loop F ticks
            (PerformanceMonitor_init F cfg NoFile, file))))"
    by (rule step[OF init])
  show "unresolved_paths (alert_history (fst s)) \<longrightarrow>
            unresolved_paths (alert_history (fst (monitoring_loop F ticks s)))"
    using step[of s] by blast
  show "untouched (alert_history (fst s)) (alert_history (fst (monitoring_loop F ticks s)))"
  proof (rule loop_preserves[where P = "untouched (alert_history (fst s))"])
    show "\<And>m n c v t now. (n, c) \<in> set threshold_pairs
            \<Longrightarrow> untouched (alert_history (fst s)) (alert_history m)
            \<Longrightarrow> untouched (alert_history (fst s)) (alert_history (check_threshold_alert F now m n v t c))"
      by (rule untouched_trans[OF _ untouched_check])
    show "\<And>l new. untouched (alert_history (fst s)) l
            \<Longrightarrow> \<forall>a \<in> set new. \<not> resolved a \<and> \<not> threshold_target a
            \<Longrightarrow> untouched (alert_history (fst s)) (l @ new)"
      by (rule untouched_append)
    show "\<forall>x. numeric_text (fmt_2f F x)" by (rule assms)
    show "untouched (alert_history (fst s)) (alert_history (fst s))" by (rule untouched_refl)
  qed
qed

subsection \<open>A run of the loop with two response-time anomalies\<close>

lemma check_noop:
  assumes "\<not> v > t" "\<forall>a \<in> set (alert_history m). \<not> is_active_for c n a"
  shows "check_threshold_alert F now m n v t c = m"
proof -
  have "map (\<lambda>alert. if is_active_for c n alert
                      then alert\<lparr>resolved := True, resolution_time := Some now\<rparr> else alert)
            (alert_history m) = alert_history m"
    using assms(2) by (intro map_idI) simp
  then show ?thesis using assms(1) by (simp add: check_threshold_alert_def)
qed

lemma analyze_calm:
  assumes cfg: "config m = DEFAULT_CONFIG"
      and v: "cpu_percent sm \<le> 80" "memory_percent sm \<le> 85" "disk_usage_percent sm \<le> 90"
             "response_time_ms am \<le> 1000" "error_rate am \<le> 20"
      and nt: "\<forall>a \<in> set (alert_history m). \<not> threshold_target a"
  shows "analyze_metrics F now m sm am =
           (case detect_anomalies F now m sm am of Inl x \<Rightarrow> Inl x
            | Inr m6 \<Rightarrow> generate_predictive_alerts F now m6)"
proof -
  have na: "\<forall>a \<in> set (alert_history m). \<not> is_active_for c n a" if "(n, c) \<in> set threshold_pairs" for n c
    using nt not_target_not_active[OF _ that] by blast
  have c1: "check_threshold_alert F now m ''CPU Usage'' (cpu_percent sm) 80 ''system'' = m"
    using v(1) by (intro check_noop na threshold_pairs_mem) simp
  have c2: "check_threshold_alert F now m ''Memory Usage'' (memory_percent sm) 85 ''system'' = m"
    using v(2) by (intro check_noop na threshold_pairs_mem) simp
  have c3: "check_threshold_alert F now m ''Disk Usage'' (disk_usage_percent sm) 90 ''system'' = m"
    using v(3) by (intro check_noop na threshold_pairs_mem) simp
  have c4: "check_threshold_alert F now m ''Response Time'' (response_time_ms am) 1000 ''application'' = m"
    using v(4) by (intro check_noop na threshold_pairs_mem) simp
  have c5: "check_threshold_alert F now m ''Error Rate'' (error_rate am) 20 ''application'' = m"
    using v(5) by (intro check_noop na threshold_pairs_mem) simp
  have t: "cpu_threshold (config m) = 80" "memory_threshold (config m) = 85"
      "disk_threshold (config m) = 90" "response_time_threshold_ms (config m) = 1000"
      "anomaly_detection (config m)" "enable_predictive_alerts (config m)"
    by (simp_all add: cfg DEFAULT_CONFIG_def)
  show ?thesis
    unfolding analyze_metrics_def Let_def t(1-4) c1 c2 c3 c4 c5 using t(5,6) by (simp split: sum.splits)
qed

lemma predictive_noop:
  "data_history (anomaly_detector m) ''cpu_recent'' = None \<Longrightarrow> generate_predictive_alerts F now m = Inr m"
  by (simp add: generate_predictive_alerts_def detect_trend_def Let_def)

lemma is_anomaly_const:
  "data_history d n = Some (replicate k c) \<Longrightarrow> is_anomaly d n v = Inr (False, 0)"
  by (cases "k < 10") (simp_all add: is_anomaly_def mean_def stdev_replicate)

lemma add_data_point_known:
  assumes "data_history d n = Some h" "int (length h) + 1 \<le> window_size d"
  shows "add_data_point d n v = d\<lparr>data_history := (data_history d)(n \<mapsto> h @ [v])\<rparr>"
  using assms by (simp add: add_data_point_def Let_def)

lemma loop_step_quiet:
  assumes "is_anomaly (add_data_point (anomaly_detector m) n v) n v = Inr (False, z)"
  shows "detect_anomalies_loop F now ((n, v, c) # rest) m =
           detect_anomalies_loop F now rest (m\<lparr>anomaly_detector := add_data_point (anomaly_detector m) n v\<rparr>)"
  using assms by (simp add: Let_def)

lemma loop_step_any:
  assumes "is_anomaly (add_data_point (anomaly_detector m) n v) n v = Inr (b, z)"
      and "detect_trend F (add_data_point (anomaly_detector m) n v) n 10 = Inr trend"
  shows "detect_anomalies_loop F now ((n, v, c) # rest) m =
           detect_anomalies_loop F now rest
             (m\<lparr>anomaly_detector := add_data_point (anomaly_detector m) n v,
                alert_history := alert_history m @
                  (if b then [\<lparr>timestamp = now, severity = ''WARNING'', category = c,
                     message = anomaly_message F n v z trend, alert_value = v,
                     alert_threshold = z, duration_minutes = 0, resolved = False,
                     resolution_time = None\<rparr>] else []),
                sent_alerts := sent_alerts m @
                  (if b then [\<lparr>timestamp = now, severity = ''WARNING'', category = c,
                     message = anomaly_message F n v z trend, alert_value = v,
                     alert_threshold = z, duration_minutes = 0, resolved = False,
                     resolution_time = None\<rparr>] else [])\<rparr>)"
  using assms by (cases b) (simp_all add: Let_def send_alert_def)

lemma const_step:
  assumes h: "data_history (anomaly_detector m) n = Some (replicate k c)"
      and w: "int k + 1 \<le> window_size (anomaly_detector m)"
  shows "detect_anomalies_loop F now ((n, c, cat) # rest) m =
           detect_anomalies_loop F now rest
             (m\<lparr>anomaly_detector := (anomaly_detector m)
                  \<lparr>data_history := (data_history (anomaly_detector m))(n \<mapsto> replicate (Suc k) c)\<rparr>\<rparr>)"
proof -
  have a: "add_data_point (anomaly_detector m) n c =
             (anomaly_detector m)\<lparr>data_history := (data_history (anomaly_detector m))(n \<mapsto> replicate (Suc k) c)\<rparr>"
    using add_data_point_known[OF h, of c] w by (simp add: replicate_append_same)
  have "is_anomaly (add_data_point (anomaly_detector m) n c) n c = Inr (False, 0)"
    unfolding a by (rule is_anomaly_const[where k = "Suc k" and c = c]) simp
  from loop_step_quiet[OF this] show ?thesis unfolding a .
qed

lemma sample_step:
  assumes h: "data_history (anomaly_detector m) n = Some rs"
      and w: "int (length rs) + 1 \<le> window_size (anomaly_detector m)"
      and an: "is_anomaly ((anomaly_detector m)\<lparr>data_history := (data_history (anomaly_detector m))(n \<mapsto> rs @ [r])\<rparr>) n r = Inr (b, z)"
      and tr: "detect_trend F ((anomaly_detector m)\<lparr>data_history := (data_history (anomaly_detector m))(n \<mapsto> rs @ [r])\<rparr>) n 10 = Inr trend"
  shows "detect_anomalies_loop F now ((n, r, cat) # rest) m =
           detect_anomalies_loop F now rest
             (m\<lparr>anomaly_detector := (anomaly_detector m)
                  \<lparr>data_history := (data_history (anomaly_detector m))(n \<mapsto> rs @ [r])\<rparr>,
                alert_history := alert_history m @
                  (if b then [\<lparr>timestamp = now, severity = ''WARNING'', category = cat,
                     message = anomaly_message F n r z trend, alert_value = r,
                     alert_threshold = z, duration_minutes = 0, resolved = False,
                     resolution_time = None\<rparr>] else []),
                sent_alerts := sent_alerts m @
                  (if b then [\<lparr>timestamp = now, severity = ''WARNING'', category = cat,
                     message = anomaly_message F n r z trend, alert_value = r,
                     alert_threshold = z, duration_minutes = 0, resolved = False,
                     resolution_time = None\<rparr>] else [])\<rparr>)"
proof -
  have a: "add_data_point (anomaly_detector m) n r =
             (anomaly_detector m)\<lparr>data_history := (data_history (anomaly_detector m))(n \<mapsto> rs @ [r])\<rparr>"
    using add_data_point_known[OF h, of r] w by simp
  have an': "is_anomaly (add_data_point (anomaly_detector m) n r) n r = Inr (b, z)"
    unfolding a by (rule an)
  have tr': "detect_trend F (add_data_point (anomaly_detector m) n r) n 10 = Inr trend"
    unfolding a by (rule tr)
  show ?thesis
    using loop_step_any[OF an' tr', of now cat rest] unfolding a by simp
qed

lemma calm_tick:
  assumes len: "length rs < 50" and r: "r \<le> 1000"
      and nt: "\<forall>a \<in> set lg. \<not> threshold_target a"
      and an: "\<And>d. threshold d = 5 / 2 \<Longrightarrow> data_history d ''response_time_ms'' = Some (rs @ [r])
                 \<Longrightarrow> is_anomaly d ''response_time_ms'' r = Inr (b, z)"
      and tr: "\<And>d. data_history d ''response_time_ms'' = Some (rs @ [r])
                 \<Longrightarrow> detect_trend sample_text d ''response_time_ms'' 10 = Inr trend"
  shows "\<exists>f'. monitoring_iteration sample_text WriteOk 0 idle_system_metrics (app_metrics_with r)
                 (run_state rs lg, f)
             = (run_state (rs @ [r])
                  (lg @ (if b then [\<lparr>timestamp = 0, severity = ''WARNING'', category = ''application'',
                     message = anomaly_message sample_text ''response_time_ms'' r z trend,
                     alert_value = r, alert_threshold = z, duration_minutes = 0, resolved = False,
                     resolution_time = None\<rparr>] else [])), f')"
proof -
  define k where "k = length rs"
  define new where "new = (if b then [\<lparr>timestamp = 0, severity = ''WARNING'', category = ''application'',
                     message = anomaly_message sample_text ''response_time_ms'' r z trend,
                     alert_value = r, alert_threshold = z, duration_minutes = 0, resolved = False,
                     resolution_time = None\<rparr>] else [])"
  define H :: "real list \<Rightarrow> real list \<Rightarrow> real list \<Rightarrow> real list \<Rightarrow> string \<rightharpoonup> real list"
    where "H = (\<lambda>c m rr e.
      [''cpu_percent'' \<mapsto> c, ''memory_percent'' \<mapsto> m, ''response_time_ms'' \<mapsto> rr,
       ''error_rate'' \<mapsto> e])"
  have H_upd: "(H c m rr e)(''cpu_percent'' \<mapsto> x) = H x m rr e"
      "(H c m rr e)(''memory_percent'' \<mapsto> x) = H c x rr e"
      "(H c m rr e)(''response_time_ms'' \<mapsto> x) = H c m x e"
      "(H c m rr e)(''error_rate'' \<mapsto> x) = H c m rr x" for c m rr e x
    by (rule ext, simp add: H_def)+
  have H_get: "H c m rr e ''cpu_percent'' = Some c" "H c m rr e ''memory_percent'' = Some m"
      "H c m rr e ''response_time_ms'' = Some rr" "H c m rr e ''error_rate'' = Some e"
      "H c m rr e ''cpu_recent'' = None" for c m rr e
    by (simp_all add: H_def)
  define M where "M = (\<lambda>c m rr e L.
     \<lparr>config = DEFAULT_CONFIG,
      anomaly_detector =
        \<lparr>window_size = 50, threshold = 5 / 2,
         data_history = H c m rr e\<rparr>,
      alert_history = L,
      system_metrics_history = replicate (Suc k) idle_system_metrics,
      app_metrics_history = map app_metrics_with (rs @ [r]),
      sent_alerts = L, logged_errors = ([] :: py_error list)\<rparr>)"
  let ?z = "replicate k (0::real)" and ?z' = "replicate (Suc k) (0::real)"
  have kw: "int k + 1 \<le> 50" using len by (simp add: k_def)
  have s1: "detect_anomalies_loop sample_text 0
               [(''cpu_percent'', 0, ''system''), (''memory_percent'', 0, ''system''),
                (''response_time_ms'', r, ''application''), (''error_rate'', 0, ''application'')]
               (M ?z ?z rs ?z lg)
            = detect_anomalies_loop sample_text 0
               [(''memory_percent'', 0, ''system''),
                (''response_time_ms'', r, ''application''), (''error_rate'', 0, ''application'')]
               (M ?z' ?z rs ?z lg)"
    by (subst const_step[where k = k])
       (simp_all add: M_def kw H_upd H_get del: detect_anomalies_loop.simps(2))
  have s2: "detect_anomalies_loop sample_text 0
               [(''memory_percent'', 0, ''system''),
                (''response_time_ms'', r, ''application''), (''error_rate'', 0, ''application'')]
               (M ?z' ?z rs ?z lg)
            = detect_anomalies_loop sample_text 0
               [(''response_time_ms'', r, ''application''), (''error_rate'', 0, ''application'')]
               (M ?z' ?z' rs ?z lg)"
    by (subst const_step[where k = k])
       (simp_all add: M_def kw H_upd H_get del: detect_anomalies_loop.simps(2))
  have s3: "detect_anomalies_loop sample_text 0
               [(''response_time_ms'', r, ''application''), (''error_rate'', 0, ''application'')]
               (M ?z' ?z' rs ?z lg)
            = detect_anomalies_loop sample_text 0
               [(''error_rate'', 0, ''application'')]
               (M ?z' ?z' (rs @ [r]) ?z (lg @ new))"
    by (subst sample_step[where rs = rs and b = b and z = z and trend = trend])
       (simp_all add: M_def kw k_def[symmetric] an tr new_def H_upd H_get
          del: detect_anomalies_loop.simps(2))
  have s4: "detect_anomalies_loop sample_text 0
               [(''error_rate'', 0, ''application'')]
               (M ?z' ?z' (rs @ [r]) ?z (lg @ new))
            = Inr (M ?z' ?z' (rs @ [r]) ?z' (lg @ new))"
    by (subst const_step[where k = k])
       (simp_all add: M_def kw H_upd H_get del: detect_anomalies_loop.simps(2))
  have fin: "M ?z' ?z' (rs @ [r]) ?z' (lg @ new) = run_state (rs @ [r]) (lg @ new)"
    by (simp add: M_def run_state_def k_def H_def)
  have start: "(run_state rs lg)
          \<lparr>system_metrics_history := system_metrics_history (run_state rs lg) @ [idle_system_metrics],
           app_metrics_history := app_metrics_history (run_state rs lg) @ [app_metrics_with r]\<rparr>
        = M ?z ?z rs ?z lg"
    by (simp add: M_def run_state_def k_def H_def replicate_append_same)
  have da: "detect_anomalies sample_text 0 (M ?z ?z rs ?z lg) idle_system_metrics (app_metrics_with r)
              = Inr (run_state (rs @ [r]) (lg @ new))"
  proof -
    have "detect_anomalies sample_text 0 (M ?z ?z rs ?z lg) idle_system_metrics (app_metrics_with r)
            = detect_anomalies_loop sample_text 0
               [(''cpu_percent'', 0, ''system''), (''memory_percent'', 0, ''system''),
                (''response_time_ms'', r, ''application''), (''error_rate'', 0, ''application'')]
               (M ?z ?z rs ?z lg)"
      by (simp add: detect_anomalies_def idle_system_metrics_def app_metrics_with_def
            del: detect_anomalies_loop.simps)
    then show ?thesis by (simp only: s1 s2 s3 s4 fin)
  qed
  have pn: "generate_predictive_alerts sample_text 0 (run_state (rs @ [r]) (lg @ new))
              = Inr (run_state (rs @ [r]) (lg @ new))"
    by (rule predictive_noop) (simp add: run_state_def)
  have am: "analyze_metrics sample_text 0 (M ?z ?z rs ?z lg) idle_system_metrics (app_metrics_with r)
              = Inr (run_state (rs @ [r]) (lg @ new))"
  proof -
    have "analyze_metrics sample_text 0 (M ?z ?z rs ?z lg) idle_system_metrics (app_metrics_with r)
            = (case detect_anomalies sample_text 0 (M ?z ?z rs ?z lg) idle_system_metrics (app_metrics_with r)
               of Inl x \<Rightarrow> Inl x | Inr m6 \<Rightarrow> generate_predictive_alerts sample_text 0 m6)"
      using r nt
      by (intro analyze_calm) (simp_all add: M_def idle_system_metrics_def app_metrics_with_def)
    then show ?thesis unfolding da by (simp add: pn)
  qed
  have lim: "\<not> int (length (system_metrics_history (run_state rs lg) @ [idle_system_metrics]))
               > historical_data_points (config (run_state rs lg))"
       "\<not> int (length (app_metrics_history (run_state rs lg) @ [app_metrics_with r]))
               > historical_data_points (config (run_state rs lg))"
    using len by (simp_all add: run_state_def DEFAULT_CONFIG_def)
  obtain m' f' where sv: "save_alert_history sample_text WriteOk (run_state (rs @ [r]) (lg @ new)) f
                            = Inr (m', f')" "m' = run_state (rs @ [r]) (lg @ new)"
    by (simp add: save_alert_history_def save_alert_history_try_def)
  have "monitoring_iteration sample_text WriteOk 0 idle_system_metrics (app_metrics_with r)
                 (run_state rs lg, f)
          = (run_state (rs @ [r]) (lg @ new),
             if int (length (lg @ new)) mod 10 = 0 then f' else f)"
    unfolding monitoring_iteration_def monitoring_iteration_try_def Let_def fst_conv snd_conv
      if_not_P[OF lim(1)] if_not_P[OF lim(2)] start am
    using sv by (simp add: run_state_def)
  then show ?thesis unfolding new_def by blast
qed

lemma z_gt_iff:
  assumes "0 < s" "0 \<le> c"
  shows "(c < \<bar>a / sqrt s\<bar>) \<longleftrightarrow> (c\<^sup>2 * s < a\<^sup>2)"
proof -
  have sp: "0 < sqrt s" using assms by simp
  have nn: "0 \<le> c * sqrt s" using assms sp by simp
  have "\<bar>a / sqrt s\<bar> = \<bar>a\<bar> / sqrt s" using sp by simp
  then have "(c < \<bar>a / sqrt s\<bar>) \<longleftrightarrow> (c * sqrt s < \<bar>a\<bar>)"
    using sp by (simp add: pos_less_divide_eq)
  also have "\<dots> \<longleftrightarrow> ((c * sqrt s)\<^sup>2 < \<bar>a\<bar>\<^sup>2)"
  proof
    assume "c * sqrt s < \<bar>a\<bar>"
    then show "(c * sqrt s)\<^sup>2 < \<bar>a\<bar>\<^sup>2" using nn by (intro power_strict_mono) simp_all
  next
    assume "(c * sqrt s)\<^sup>2 < \<bar>a\<bar>\<^sup>2"
    then show "c * sqrt s < \<bar>a\<bar>" by (rule power2_less_imp_less) simp
  qed
  also have "\<dots> \<longleftrightarrow> (c\<^sup>2 * s < a\<^sup>2)"
    using assms by (simp add: power_mult_distrib)
  finally show ?thesis .
qed

lemma is_anomaly_value:
  assumes "data_history d n = Some h" "10 \<le> length h"
      and "0 < sum_list (map (\<lambda>x. (x - sum_list h / real (length h))\<^sup>2) h)"
      and "0 \<le> threshold d"
  shows "is_anomaly d n v =
           Inr ((threshold d)\<^sup>2 * (sum_list (map (\<lambda>x. (x - sum_list h / real (length h))\<^sup>2) h)
                                      / real (length h - 1))
                  < (v - sum_list h / real (length h))\<^sup>2,
                \<bar>(v - sum_list h / real (length h))
                   / sqrt (sum_list (map (\<lambda>x. (x - sum_list h / real (length h))\<^sup>2) h)
                           / real (length h - 1))\<bar>)"
proof -
  let ?m = "sum_list h / real (length h)"
  let ?s = "sum_list (map (\<lambda>x. (x - ?m)\<^sup>2) h) / real (length h - 1)"
  have sp: "0 < ?s" using assms by (intro divide_pos_pos) simp_all
  have "0 < sqrt ?s" using sp by (rule real_sqrt_gt_zero)
  then have nz: "sqrt ?s \<noteq> 0" by linarith
  have ne: "h \<noteq> []" using assms by auto
  have m: "mean h = Inr ?m" using ne by (simp add: mean_def)
  have sd: "stdev h = Inr (sqrt ?s)" using assms(2) by (simp add: stdev_def Let_def)
  have "is_anomaly d n v = Inr (threshold d < \<bar>(v - ?m) / sqrt ?s\<bar>, \<bar>(v - ?m) / sqrt ?s\<bar>)"
    unfolding is_anomaly_def using assms(1,2) nz by (simp add: m sd py_truediv_def)
  then show ?thesis unfolding z_gt_iff[OF sp assms(4)] .
qed

lemma monitoring_loop_append:
  "monitoring_loop F (xs @ ys) s = monitoring_loop F ys (monitoring_loop F xs s)"
proof (induction xs arbitrary: s)
  case Nil
  then show ?case by simp
next
  case (Cons x xs)
  obtain io now sm am where "x = (io, now, sm, am)" by (cases x)
  then show ?case using Cons.IH by simp
qed

lemma first_tick:
  "monitoring_iteration sample_text WriteOk 0 idle_system_metrics (app_metrics_with 0)
     (PerformanceMonitor_init sample_text DEFAULT_CONFIG NoFile, NoFile)
   = (run_state [0] [], Content (JArr []))"
  by (simp add: monitoring_iteration_def monitoring_iteration_try_def analyze_metrics_def
      check_threshold_alert_def detect_anomalies_def add_data_point_def
      generate_predictive_alerts_def save_alert_history_def save_alert_history_try_def
      DEFAULT_CONFIG_def AnomalyDetector_init_def idle_system_metrics_def
      app_metrics_with_def init_nofile is_anomaly_def run_state_def Let_def)

lemma quiet_ticks:
  assumes "length rs + n < 10" "\<forall>a \<in> set lg. \<not> threshold_target a"
  shows "\<exists>f'. monitoring_loop sample_text (replicate n (tick_with 0)) (run_state rs lg, f)
               = (run_state (rs @ replicate n 0) lg, f')"
  using assms(1)
proof (induction n arbitrary: rs f)
  case 0
  then show ?case by simp
next
  case (Suc n)
  have short: "length (rs @ [0]) < 10" using Suc.prems by simp
  obtain f1 where t: "monitoring_iteration sample_text WriteOk 0 idle_system_metrics (app_metrics_with 0)
                 (run_state rs lg, f) = (run_state (rs @ [0]) lg, f1)"
    using calm_tick[of rs 0 lg False 0 "''insufficient_data''" f] Suc.prems assms(2) short
    by (auto simp: is_anomaly_def detect_trend_def)
  have "length (rs @ [0]) + n < 10" using Suc.prems by simp
  from Suc.IH[OF this, of f1] obtain f' where
    "monitoring_loop sample_text (replicate n (tick_with 0)) (run_state (rs @ [0]) lg, f1)
       = (run_state ((rs @ [0]) @ replicate n 0) lg, f')" by blast
  then show ?case by (simp add: tick_with_def t replicate_app_Cons_same)
qed

lemma run9:
  "\<exists>f. monitoring_loop sample_text (replicate 9 (tick_with 0))
          (PerformanceMonitor_init sample_text DEFAULT_CONFIG NoFile, NoFile)
        = (run_state (replicate 9 0) [], f)"
proof -
  have r9: "replicate 9 x = x # replicate 8 x" for x :: 'a
    by (simp add: eval_nat_numeral)
  obtain f where "monitoring_loop sample_text (replicate 8 (tick_with 0)) (run_state [0] [], Content (JArr []))
                    = (run_state ([0] @ replicate 8 0) [], f)"
    using quiet_ticks[of "[0]" 8 "[]" "Content (JArr [])"] by auto
  then show ?thesis
    unfolding r9 by (simp add: tick_with_def first_tick)
qed

lemma sublist_anomaly_message: "sublist n (anomaly_message F n v z t)"
  unfolding anomaly_message_def by (rule sublist_appendI)

lemma anomaly_alert_not_target:
  assumes "detect_trend F d ''response_time_ms'' p = Inr trend"
  shows "\<not> threshold_target \<lparr>timestamp = ts, severity = ''WARNING'', category = ''application'',
            message = anomaly_message sample_text ''response_time_ms'' r z trend,
            alert_value = r, alert_threshold = z, duration_minutes = 0, resolved = False,
            resolution_time = None\<rparr>"
proof -
  have "\<forall>x. numeric_text (fmt_2f sample_text x)" using sample_text_numeric by simp
  moreover have "set ''response_time_ms'' \<inter> set ''CMDTE'' = {}" by auto
  ultimately have "set (anomaly_message sample_text ''response_time_ms'' r z trend) \<inter> set ''CMDTE'' = {}"
    using detect_trend_plain[OF assms] by (intro anomaly_message_plain)
  then show ?thesis by (intro plain_not_target) simp
qed

lemma sample_div_pos: "1 \<le> a / b \<Longrightarrow> float_0_1 < float_div sample_text a b"
  by (simp add: sample_text_def round_double_pos)

lemma trend_at_tick10:
  "data_history d n = Some (replicate 9 0 @ [100]) \<Longrightarrow> detect_trend sample_text d n 10 = Inr ''increasing''"
proof -
  assume h: "data_history d n = Some (replicate 9 0 @ [100])"
  let ?ys = "[0, 0, 0, 0, 0, 0, 0, 0, 0, 100 :: real]"
  have e: "replicate 9 0 @ [100] = ?ys"
    by (simp add: eval_nat_numeral)
  have pl: "py_last ?ys 10 = ?ys" by (simp add: py_last_def)
  have num: "slope_numerator sample_text ?ys = 4500"
    by (simp add: slope_numerator_def py_sum_def sample_text_def Let_def
          upt_rec[of _ "numeral _"] upt_rec[of 0] round_double_int)
  have den: "slope_denominator ?ys = 825"
    by (simp add: slope_denominator_def Let_def upt_rec[of _ "numeral _"] upt_rec[of 0])
  have "float_0_1 < float_div sample_text 4500 (real_of_int 825)"
    by (rule sample_div_pos) simp
  then have "classify_slope (float_div sample_text 4500 (real_of_int 825)) = ''increasing''"
    by (simp only: classify_slope_iff(1))
  moreover have "detect_trend sample_text d n 10
          = Inr (classify_slope (float_div sample_text (slope_numerator sample_text (py_last ?ys 10))
                                   (real_of_int (slope_denominator (py_last ?ys 10)))))"
    using h unfolding e by (intro detect_trend_ge2) simp_all
  ultimately show ?thesis unfolding pl num den by simp
qed

lemma anomaly_at_tick10:
  "\<exists>z. \<forall>d. threshold d = 5 / 2 \<longrightarrow> data_history d n = Some (replicate 9 0 @ [100])
          \<longrightarrow> is_anomaly d n 100 = Inr (True, z)"
proof (intro exI allI impI)
  fix d :: AnomalyDetector
  assume t: "threshold d = 5 / 2" and h: "data_history d n = Some (replicate 9 0 @ [100])"
  let ?h = "replicate 9 0 @ [100 :: real]"
  show "is_anomaly d n 100 =
          Inr (True, \<bar>(100 - sum_list ?h / real (length ?h))
                   / sqrt (sum_list (map (\<lambda>x. (x - sum_list ?h / real (length ?h))\<^sup>2) ?h)
                           / real (length ?h - 1))\<bar>)"
    by (subst is_anomaly_value[OF h]) (simp_all add: t sum_list_replicate power2_eq_square)
qed

lemma anomaly_at_tick11:
  "\<exists>z. \<forall>d. threshold d = 5 / 2 \<longrightarrow> data_history d n = Some ((replicate 9 0 @ [100]) @ [1000])
          \<longrightarrow> is_anomaly d n 1000 = Inr (True, z)"
proof (intro exI allI impI)
  fix d :: AnomalyDetector
  assume t: "threshold d = 5 / 2" and h: "data_history d n = Some ((replicate 9 0 @ [100]) @ [1000])"
  let ?h = "(replicate 9 0 @ [100 :: real]) @ [1000]"
  show "is_anomaly d n 1000 =
          Inr (True, \<bar>(1000 - sum_list ?h / real (length ?h))
                   / sqrt (sum_list (map (\<lambda>x. (x - sum_list ?h / real (length ?h))\<^sup>2) ?h)
                           / real (length ?h - 1))\<bar>)"
    by (subst is_anomaly_value[OF h]) (simp_all add: t sum_list_replicate power2_eq_square)
qed

lemma trend_defined:
  "10 \<le> length h \<Longrightarrow> \<exists>trend. \<forall>d. data_history d n = Some h \<longrightarrow> detect_trend F d n 10 = Inr trend"
  using detect_trend_ge2[of _ n h 10 F]
  by (intro exI[of _ "classify_slope (float_div F (slope_numerator F (py_last h 10))
                        (real_of_int (slope_denominator (py_last h 10))))"]) simp

lemma loop_single:
  "monitoring_loop F [tick_with r] s
     = monitoring_iteration F WriteOk 0 idle_system_metrics (app_metrics_with r) s"
  by (simp add: tick_with_def)

lemma run10:
  "\<exists>z f. monitoring_loop sample_text (map tick_with (replicate 9 0 @ [100]))
            (PerformanceMonitor_init sample_text DEFAULT_CONFIG NoFile, NoFile)
          = (run_state (replicate 9 0 @ [100])
               [\<lparr>timestamp = 0, severity = ''WARNING'', category = ''application'',
                 message = anomaly_message sample_text ''response_time_ms'' 100 z ''increasing'',
                 alert_value = 100, alert_threshold = z, duration_minutes = 0, resolved = False,
                 resolution_time = None\<rparr>], f)"
proof -
  obtain f9 where r9: "monitoring_loop sample_text (replicate 9 (tick_with 0))
          (PerformanceMonitor_init sample_text DEFAULT_CONFIG NoFile, NoFile)
        = (run_state (replicate 9 0) [], f9)"
    using run9 by blast
  obtain z where z: "\<And>d. threshold d = 5 / 2 \<Longrightarrow> data_history d ''response_time_ms'' = Some (replicate 9 0 @ [100])
          \<Longrightarrow> is_anomaly d ''response_time_ms'' 100 = Inr (True, z)"
    using anomaly_at_tick10[of "''response_time_ms''"] by blast
  let ?A = "\<lparr>timestamp = 0, severity = ''WARNING'', category = ''application'',
                     message = anomaly_message sample_text ''response_time_ms'' 100 z ''increasing'',
                     alert_value = 100, alert_threshold = z, duration_minutes = 0, resolved = False,
                     resolution_time = None\<rparr>"
  have "\<exists>f'. monitoring_iteration sample_text WriteOk 0 idle_system_metrics (app_metrics_with 100)
                 (run_state (replicate 9 0) [], f9)
             = (run_state (replicate 9 0 @ [100]) ([] @ (if True then [?A] else [])), f')"
  proof (rule calm_tick)
    show "length (replicate 9 (0::real)) < 50" by simp
    show "(100::real) \<le> 1000" by simp
    show "\<forall>a \<in> set []. \<not> threshold_target a" by simp
    show "\<And>d. threshold d = 5 / 2 \<Longrightarrow> data_history d ''response_time_ms'' = Some (replicate 9 0 @ [100])
          \<Longrightarrow> is_anomaly d ''response_time_ms'' 100 = Inr (True, z)"
      by (rule z)
    show "\<And>d. data_history d ''response_time_ms'' = Some (replicate 9 0 @ [100])
          \<Longrightarrow> detect_trend sample_text d ''response_time_ms'' 10 = Inr ''increasing''"
      by (rule trend_at_tick10)
  qed
  then obtain f where t10: "monitoring_iteration sample_text WriteOk 0 idle_system_metrics (app_metrics_with 100)
                 (run_state (replicate 9 0) [], f9)
             = (run_state (replicate 9 0 @ [100]) [?A], f)"
    unfolding if_True append_Nil by (rule exE)
  have l: "map tick_with (replicate 9 0 @ [100]) = replicate 9 (tick_with 0) @ [tick_with 100]"
    by (simp only: map_append map_replicate list.map)
  have "monitoring_loop sample_text (map tick_with (replicate 9 0 @ [100]))
            (PerformanceMonitor_init sample_text DEFAULT_CONFIG NoFile, NoFile)
          = (run_state (replicate 9 0 @ [100]) [?A], f)"
    unfolding l monitoring_loop_append r9 loop_single t10 by (rule refl)
  then show ?thesis by (intro exI)
qed

lemma run11:
  "\<exists>z1 z2 t2 f. monitoring_loop sample_text (map tick_with (replicate 9 0 @ [100, 1000]))
            (PerformanceMonitor_init sample_text DEFAULT_CONFIG NoFile, NoFile)
          = (run_state ((replicate 9 0 @ [100]) @ [1000])
               [\<lparr>timestamp = 0, severity = ''WARNING'', category = ''application'',
                 message = anomaly_message sample_text ''response_time_ms'' 100 z1 ''increasing'',
                 alert_value = 100, alert_threshold = z1, duration_minutes = 0, resolved = False,
                 resolution_time = None\<rparr>,
                \<lparr>timestamp = 0, severity = ''WARNING'', category = ''application'',
                 message = anomaly_message sample_text ''response_time_ms'' 1000 z2 t2,
                 alert_value = 1000, alert_threshold = z2, duration_minutes = 0, resolved = False,
                 resolution_time = None\<rparr>], f)"
proof -
  obtain z1 f10 where r10: "monitoring_loop sample_text (map tick_with (replicate 9 0 @ [100]))
            (PerformanceMonitor_init sample_text DEFAULT_CONFIG NoFile, NoFile)
          = (run_state (replicate 9 0 @ [100])
               [\<lparr>timestamp = 0, severity = ''WARNING'', category = ''application'',
                 message = anomaly_message sample_text ''response_time_ms'' 100 z1 ''increasing'',
                 alert_value = 100, alert_threshold = z1, duration_minutes = 0, resolved = False,
                 resolution_time = None\<rparr>], f10)"
    using run10 by blast
  let ?A1 = "\<lparr>timestamp = 0, severity = ''WARNING'', category = ''application'',
                 message = anomaly_message sample_text ''response_time_ms'' 100 z1 ''increasing'',
                 alert_value = 100, alert_threshold = z1, duration_minutes = 0, resolved = False,
                 resolution_time = None\<rparr>"
  let ?d = "\<lparr>window_size = 50, threshold = 5 / 2,
        data_history = [''response_time_ms'' \<mapsto> replicate 9 0 @ [100 :: real]]\<rparr>"
  have "data_history ?d ''response_time_ms'' = Some (replicate 9 0 @ [100])" by simp
  then have "detect_trend sample_text ?d ''response_time_ms'' 10 = Inr ''increasing''"
    by (rule trend_at_tick10)
  then have nt1: "\<not> threshold_target ?A1" by (rule anomaly_alert_not_target)
  obtain z2 where z2: "\<And>d. threshold d = 5 / 2
          \<Longrightarrow> data_history d ''response_time_ms'' = Some ((replicate 9 0 @ [100]) @ [1000])
          \<Longrightarrow> is_anomaly d ''response_time_ms'' 1000 = Inr (True, z2)"
    using anomaly_at_tick11[of "''response_time_ms''"] by blast
  have "10 \<le> length ((replicate 9 0 @ [100 :: real]) @ [1000])" by simp
  from trend_defined[OF this, of "''response_time_ms''" sample_text]
  obtain t2 where t2: "\<And>d. data_history d ''response_time_ms'' = Some ((replicate 9 0 @ [100]) @ [1000])
          \<Longrightarrow> detect_trend sample_text d ''response_time_ms'' 10 = Inr t2"
    by blast
  let ?A2 = "\<lparr>timestamp = 0, severity = ''WARNING'', category = ''application'',
                     message = anomaly_message sample_text ''response_time_ms'' 1000 z2 t2,
                     alert_value = 1000, alert_threshold = z2, duration_minutes = 0, resolved = False,
                     resolution_time = None\<rparr>"
  have "\<exists>f'. monitoring_iteration sample_text WriteOk 0 idle_system_metrics (app_metrics_with 1000)
                 (run_state (replicate 9 0 @ [100]) [?A1], f10)
             = (run_state ((replicate 9 0 @ [100]) @ [1000]) ([?A1] @ (if True then [?A2] else [])), f')"
  proof (rule calm_tick)
    show "length (replicate 9 0 @ [100 :: real]) < 50" by simp
    show "(1000::real) \<le> 1000" by simp
    show "\<forall>a \<in> set [?A1]. \<not> threshold_target a" using nt1 by simp
    show "\<And>d. threshold d = 5 / 2
          \<Longrightarrow> data_history d ''response_time_ms'' = Some ((replicate 9 0 @ [100]) @ [1000])
          \<Longrightarrow> is_anomaly d ''response_time_ms'' 1000 = Inr (True, z2)"
      by (rule z2)
    show "\<And>d. data_history d ''response_time_ms'' = Some ((replicate 9 0 @ [100]) @ [1000])
          \<Longrightarrow> detect_trend sample_text d ''response_time_ms'' 10 = Inr t2"
      by (rule t2)
  qed
  then obtain f where t11: "monitoring_iteration sample_text WriteOk 0 idle_system_metrics (app_metrics_with 1000)
                 (run_state (replicate 9 0 @ [100]) [?A1], f10)
             = (run_state ((replicate 9 0 @ [100]) @ [1000]) [?A1, ?A2], f)"
    unfolding if_True append.simps by (rule exE)
  have l: "map tick_with (replicate 9 0 @ [100, 1000])
             = map tick_with (replicate 9 0 @ [100]) @ [tick_with 1000]"
    by (simp only: map_append list.map append.simps append_assoc)
  have "monitoring_loop sample_text (map tick_with (replicate 9 0 @ [100, 1000]))
            (PerformanceMonitor_init sample_text DEFAULT_CONFIG NoFile, NoFile)
          = (run_state ((replicate 9 0 @ [100]) @ [1000]) [?A1, ?A2], f)"
    unfolding l monitoring_loop_append r10 loop_single t11 by (rule refl)
  then show ?thesis by (intro exI)
qed

lemma anomaly_alert_active:
  "is_active_for c n \<lparr>timestamp = ts, severity = s, category = c,
       message = anomaly_message F n v z t, alert_value = v, alert_threshold = z,
       duration_minutes = 0, resolved = False, resolution_time = None\<rparr>"
  by (simp add: is_active_for_def sublist_anomaly_message)

text \<open>
  C1 as stated fails on the anomaly path, which appends without looking for an
  unresolved alert: an idle host whose application answers in 0 ms for nine ticks, then in
  100 ms and in 1000 ms, ends with two unresolved alerts of category \<open>application\<close> for
  the metric \<open>response_time_ms\<close>.
\<close>

theorem two_unresolved_anomaly_alerts_counterexample:
  "length (filter (is_active_for ''application'' ''response_time_ms'')
     (alert_history (fst (monitoring_loop sample_text (map tick_with (replicate 9 0 @ [100, 1000]))
        (PerformanceMonitor_init sample_text DEFAULT_CONFIG NoFile, NoFile))))) = 2"
proof -
  obtain z1 z2 t2 f where r: "monitoring_loop sample_text (map tick_with (replicate 9 0 @ [100, 1000]))
            (PerformanceMonitor_init sample_text DEFAULT_CONFIG NoFile, NoFile)
          = (run_state ((replicate 9 0 @ [100]) @ [1000])
               [\<lparr>timestamp = 0, severity = ''WARNING'', category = ''application'',
                 message = anomaly_message sample_text ''response_time_ms'' 100 z1 ''increasing'',
                 alert_value = 100, alert_threshold = z1, duration_minutes = 0, resolved = False,
                 resolution_time = None\<rparr>,
                \<lparr>timestamp = 0, severity = ''WARNING'', category = ''application'',
                 message = anomaly_message sample_text ''response_time_ms'' 1000 z2 t2,
                 alert_value = 1000, alert_threshold = z2, duration_minutes = 0, resolved = False,
                 resolution_time = None\<rparr>], f)"
    using run11 by blast
  have h: "alert_history (run_state rs l) = l" for rs l
    by (simp add: run_state_def)
  show ?thesis
    unfolding r fst_conv h by (simp add: anomaly_alert_active)
qed

text \<open>
  C6 as stated fails in the category: the alert that the anomaly path creates for the
  response time of 100 ms after nine ticks at 0 ms has category \<open>application\<close>, the
  category of its metric, not \<open>anomaly\<close>.
\<close>

theorem anomaly_alert_category_counterexample:
  "map category
     (alert_history (fst (monitoring_loop sample_text (map tick_with (replicate 9 0 @ [100]))
        (PerformanceMonitor_init sample_text DEFAULT_CONFIG NoFile, NoFile)))) = [''application''] \<and>
   map message
     (alert_history (fst (monitoring_loop sample_text (map tick_with (replicate 9 0 @ [100]))
        (PerformanceMonitor_init sample_text DEFAULT_CONFIG NoFile, NoFile))))
     = [''Anomaly detected in response_time_ms: 0.00 (z-score: 0.00, trend: increasing)'']"
proof -
  obtain z f where r: "monitoring_loop sample_text (map tick_with (replicate 9 0 @ [100]))
            (PerformanceMonitor_init sample_text DEFAULT_CONFIG NoFile, NoFile)
          = (run_state (replicate 9 0 @ [100])
               [\<lparr>timestamp = 0, severity = ''WARNING'', category = ''application'',
                 message = anomaly_message sample_text ''response_time_ms'' 100 z ''increasing'',
                 alert_value = 100, alert_threshold = z, duration_minutes = 0, resolved = False,
                 resolution_time = None\<rparr>], f)"
    using run10 by blast
  have h: "alert_history (run_state rs l) = l" for rs l
    by (simp add: run_state_def)
  have m: "anomaly_message sample_text ''response_time_ms'' 100 z ''increasing''
             = ''Anomaly detected in response_time_ms: 0.00 (z-score: 0.00, trend: increasing)''"
    by (simp add: anomaly_message_def sample_text_def)
  show ?thesis
    unfolding r fst_conv h by (simp add: m)
qed

theorem anomaly_alerts_never_resolved_witness:
  "anomaly_alert
     \<lparr>timestamp = 0, severity = ''WARNING'', category = ''application'',
       message = anomaly_message sample_text ''response_time_ms'' 100 3 ''stable'',
       alert_value = 100, alert_threshold = 3, duration_minutes = 0, resolved = False,
       resolution_time = None\<rparr> \<and>
   unresolved_paths
     (alert_history (fst (monitoring_loop sample_text [tick_with 5, tick_with 2000]
        (run_state [1, 2]
           [\<lparr>timestamp = 0, severity = ''WARNING'', category = ''application'',
             message = anomaly_message sample_text ''response_time_ms'' 100 3 ''stable'',
             alert_value = 100, alert_threshold = 3, duration_minutes = 0, resolved = False,
             resolution_time = None\<rparr>], NoFile)))) \<and>
   untouched
     [\<lparr>timestamp = 0, severity = ''WARNING'', category = ''application'',
       message = anomaly_message sample_text ''response_time_ms'' 100 3 ''stable'',
       alert_value = 100, alert_threshold = 3, duration_minutes = 0, resolved = False,
       resolution_time = None\<rparr>]
     (alert_history (fst (monitoring_loop sample_text [tick_with 5, tick_with 2000]
        (run_state [1, 2]
           [\<lparr>timestamp = 0, severity = ''WARNING'', category = ''application'',
             message = anomaly_message sample_text ''response_time_ms'' 100 3 ''stable'',
             alert_value = 100, alert_threshold = 3, duration_minutes = 0, resolved = False,
             resolution_time = None\<rparr>], NoFile)))) \<and>
   alert_history (fst (monitoring_loop sample_text [tick_with 5, tick_with 2000]
        (run_state [1, 2]
           [\<lparr>timestamp = 0, severity = ''WARNING'', category = ''application'',
             message = anomaly_message sample_text ''response_time_ms'' 100 3 ''stable'',
             alert_value = 100, alert_threshold = 3, duration_minutes = 0, resolved = False,
             resolution_time = None\<rparr>], NoFile))) ! 0
     = \<lparr>timestamp = 0, severity = ''WARNING'', category = ''application'',
        message = anomaly_message sample_text ''response_time_ms'' 100 3 ''stable'',
        alert_value = 100, alert_threshold = 3, duration_minutes = 0, resolved = False,
        resolution_time = None\<rparr> \<and>
   list_all (\<lambda>a. anomaly_alert a \<and> \<not> resolved a)
     (alert_history (fst (monitoring_loop sample_text (map tick_with (replicate 9 0 @ [100, 1000]))
        (PerformanceMonitor_init sample_text DEFAULT_CONFIG NoFile, NoFile))))"
proof -
  let ?A = "\<lparr>timestamp = 0, severity = ''WARNING'', category = ''application'',
        message = anomaly_message sample_text ''response_time_ms'' 100 3 ''stable'',
        alert_value = 100, alert_threshold = 3, duration_minutes = 0, resolved = False,
        resolution_time = None\<rparr>"
  let ?run = "alert_history (fst (monitoring_loop sample_text [tick_with 5, tick_with 2000]
        (run_state [1, 2] [?A], NoFile)))"
  let ?log = "alert_history (fst (monitoring_loop sample_text (map tick_with (replicate 9 0 @ [100, 1000]))
        (PerformanceMonitor_init sample_text DEFAULT_CONFIG NoFile, NoFile)))"
  have h: "\<forall>x. numeric_text (fmt_2f sample_text x)" using sample_text_numeric by simp
  have rt: "(''response_time_ms'', ''application'') \<in> set anomaly_metrics"
    by (simp add: anomaly_metrics_def)
  have aa: "anomaly_alert ?A" by (rule created_anomaly_alert[OF rt])
  have "set ''response_time_ms'' \<inter> set ''CMDTE'' = {}" by auto
  moreover have "set ''stable'' \<inter> set ''CMDTE'' = {}" by auto
  ultimately have "set (message ?A) \<inter> set ''CMDTE'' = {}"
    using anomaly_message_plain[OF h, of "''response_time_ms''" "''stable''" 100 3] by simp
  then have nt: "\<not> threshold_target ?A" by (rule plain_not_target)
  have l: "alert_history (fst (run_state [1, 2] [?A], NoFile)) = [?A]"
    by (simp add: run_state_def)
  have k0: "unresolved_paths (alert_history (fst (run_state [1, 2] [?A], NoFile)))"
    unfolding l unresolved_paths_iff using nt by simp
  note T = anomaly_alerts_never_resolved[OF h, where s = "(run_state [1, 2] [?A], NoFile)"
             and ticks = "[tick_with 5, tick_with 2000]"]
  note T' = anomaly_alerts_never_resolved[OF h,
             where ticks = "map tick_with (replicate 9 0 @ [100, 1000])" and cfg = DEFAULT_CONFIG]
  have k: "unresolved_paths ?run"
    by (rule T[THEN conjunct2, THEN conjunct2, THEN conjunct2, THEN conjunct1, THEN mp, OF k0])
  have u: "untouched [?A] ?run"
    using T[THEN conjunct2, THEN conjunct2, THEN conjunct2, THEN conjunct2] unfolding l .
  have "?run ! 0 = [?A] ! 0"
    using u nt unfolding untouched_iff by simp
  then have n0: "?run ! 0 = ?A" by simp
  have k': "unresolved_paths ?log"
    by (rule T'[THEN conjunct2, THEN conjunct2, THEN conjunct1])
  obtain z1 z2 t2 f where r: "monitoring_loop sample_text (map tick_with (replicate 9 0 @ [100, 1000]))
            (PerformanceMonitor_init sample_text DEFAULT_CONFIG NoFile, NoFile)
          = (run_state ((replicate 9 0 @ [100]) @ [1000])
               [\<lparr>timestamp = 0, severity = ''WARNING'', category = ''application'',
                 message = anomaly_message sample_text ''response_time_ms'' 100 z1 ''increasing'',
                 alert_value = 100, alert_threshold = z1, duration_minutes = 0, resolved = False,
                 resolution_time = None\<rparr>,
                \<lparr>timestamp = 0, severity = ''WARNING'', category = ''application'',
                 message = anomaly_message sample_text ''response_time_ms'' 1000 z2 t2,
                 alert_value = 1000, alert_threshold = z2, duration_minutes = 0, resolved = False,
                 resolution_time = None\<rparr>], f)"
    using run11 by blast
  have hh: "alert_history (run_state rs lg) = lg" for rs lg
    by (simp add: run_state_def)
  have all: "\<forall>a \<in> set ?log. anomaly_alert a"
    unfolding r fst_conv hh using created_anomaly_alert[OF rt] by simp
  have "\<forall>a \<in> set ?log. anomaly_alert a \<and> \<not> resolved a"
    using all k' unfolding unresolved_paths_iff by blast
  then have la: "list_all (\<lambda>a. anomaly_alert a \<and> \<not> resolved a) ?log"
    by (simp only: list_all_iff)
  from aa k u n0 la show ?thesis by (intro conjI)
qed

end
